(* ===== verification/Clip_Prelude.thy ===== *)
theory Clip_Prelude
  imports Main "HOL-Library.Sublist"
begin

text \<open>
  Shared vocabulary of the clipboard-manager development: the theorem
  collections the component theories fill, the list operations of Qt's
  \<open>QList\<close> that the sources call (\<open>removeAt\<close>, \<open>removeLast\<close>, \<open>prepend\<close>)
  and the generic lemmas on lists that the component proofs share.
\<close>

named_theorems model_defs "definitions unfolded to evaluate the model on concrete inputs"
named_theorems inv_preserved "one-step preservation lemmas of the component invariants"

subsection \<open>Keyed distinctness\<close>

text \<open>
  The history may hold no two items that \<open>operator==\<close> identifies; that
  comparison looks at a key of the item only, so distinctness is stated on the
  keys.
\<close>

abbreviation distinct_on :: "('a \<Rightarrow> 'k) \<Rightarrow> 'a list \<Rightarrow> bool" where
  "distinct_on key xs \<equiv> distinct (map key xs)"

lemma distinct_on_take [intro]: "distinct_on key xs \<Longrightarrow> distinct_on key (take n xs)"
  by (simp add: take_map [symmetric])

lemma distinct_on_drop [intro]: "distinct_on key xs \<Longrightarrow> distinct_on key (drop n xs)"
  by (simp add: drop_map [symmetric])

lemma distinct_on_butlast [intro]: "distinct_on key xs \<Longrightarrow> distinct_on key (butlast xs)"
  by (simp add: map_butlast distinct_butlast)

lemma distinct_on_filter [intro]: "distinct_on key xs \<Longrightarrow> distinct_on key (filter P xs)"
  by (induction xs) auto

subsection \<open>QList operations\<close>

text \<open>
  \<open>QList::removeAt(i)\<close> for an index the caller has checked to be in range:
  the elements after \<open>i\<close> move one place to the front.
\<close>

definition qlist_removeAt :: "nat \<Rightarrow> 'a list \<Rightarrow> 'a list" where
  "qlist_removeAt i xs = take i xs @ drop (Suc i) xs"

lemma length_qlist_removeAt [simp]:
  "i < length xs \<Longrightarrow> length (qlist_removeAt i xs) = length xs - 1"
  by (simp add: qlist_removeAt_def)

lemma set_qlist_removeAt: "set (qlist_removeAt i xs) \<subseteq> set xs"
  by (auto simp: qlist_removeAt_def dest: in_set_takeD in_set_dropD)

lemma distinct_on_qlist_removeAt [intro]:
  "distinct_on key xs \<Longrightarrow> distinct_on key (qlist_removeAt i xs)"
proof -
  assume d: "distinct_on key xs"
  have "map key (qlist_removeAt i xs) = take i (map key xs) @ drop (Suc i) (map key xs)"
    by (simp add: qlist_removeAt_def take_map drop_map)
  moreover have "distinct (take i (map key xs) @ drop (Suc i) (map key xs))"
  proof -
    have "set (take i (map key xs)) \<inter> set (drop (Suc i) (map key xs)) = {}"
      using d set_take_disj_set_drop_if_distinct [of "map key xs" i "Suc i"] by simp
    with d show ?thesis by (simp add: distinct_take distinct_drop)
  qed
  ultimately show ?thesis by simp
qed

lemma set_qlist_removeAt_distinct:
  assumes "distinct xs" and "i < length xs"
  shows "set (qlist_removeAt i xs) = set xs - {xs ! i}"
proof -
  have xs: "xs = take i xs @ xs ! i # drop (Suc i) xs"
    using assms(2) by (rule id_take_nth_drop)
  then have "set xs = set (take i xs @ xs ! i # drop (Suc i) xs)"
    by (rule arg_cong [where f = set])
  moreover have "distinct (take i xs @ xs ! i # drop (Suc i) xs)"
    using assms(1) xs by simp
  ultimately show ?thesis by (auto simp: qlist_removeAt_def)
qed

lemma length_filter_neq_distinct:
  "distinct xs \<Longrightarrow> x \<in> set xs \<Longrightarrow> length (filter (\<lambda>y. y \<noteq> x) xs) = length xs - 1"
proof (induction xs)
  case (Cons a xs)
  show ?case
  proof (cases "a = x")
    case True
    with Cons.prems have "x \<notin> set xs" by simp
    then have "filter (\<lambda>y. y \<noteq> x) xs = xs" by (auto simp: filter_id_conv)
    with True show ?thesis by simp
  next
    case False
    with Cons have "length (filter (\<lambda>y. y \<noteq> x) xs) = length xs - 1" and "xs \<noteq> []" by auto
    with False show ?thesis by simp
  qed
qed simp

end
