(* ===== verification/QString.thy ===== *)
theory QString
  imports Clip_Prelude
begin

text \<open>
  The \<open>QString\<close> operations the sources call, on the Latin-1 range of
  characters (a \<open>char\<close> is one code unit here; the sources never depend on
  characters outside Latin-1 beyond treating them as ordinary characters):
  \<open>QChar::isSpace\<close>, \<open>trimmed\<close>, \<open>simplified\<close>, \<open>toLower\<close>,
  \<open>contains\<close>, \<open>left\<close> and the decimal rendering of \<open>QString::arg(int)\<close>
  with a parser that inverts it.  These model the Qt library, not code of the
  repository; their lemmas carry the proofs about the preview and the search.
\<close>

subsection \<open>Whitespace, trimming and simplification\<close>

text \<open>
  \<open>QChar::isSpace\<close> on Latin-1: tab, line feed, vertical tab, form feed,
  carriage return, space, NEL (0x85) and no-break space (0xA0).
\<close>

definition qt_isSpace :: "char \<Rightarrow> bool" where
  "qt_isSpace c =
     (let n = (of_char c :: nat) in (9 \<le> n \<and> n \<le> 13) \<or> n = 32 \<or> n = 133 \<or> n = 160)"

text \<open>\<open>QString::trimmed\<close>: whitespace removed from both ends.\<close>

definition qt_trimmed :: "string \<Rightarrow> string" where
  "qt_trimmed s = rev (dropWhile qt_isSpace (rev (dropWhile qt_isSpace s)))"

text \<open>
  \<open>QString::simplified\<close>: leading whitespace skipped; then every run of
  whitespace between two other characters becomes one blank and a run at the
  end is dropped.  The flag says that a run has been seen and not yet emitted.
\<close>

fun simplify_run :: "bool \<Rightarrow> string \<Rightarrow> string" where
  "simplify_run pend [] = []"
| "simplify_run pend (c # cs) =
     (if qt_isSpace c then simplify_run True cs
      else (if pend then [CHR '' '', c] else [c]) @ simplify_run False cs)"

definition qt_simplified :: "string \<Rightarrow> string" where
  "qt_simplified s = simplify_run False (dropWhile qt_isSpace s)"

text \<open>\<open>QString::toLower\<close> on Latin-1: A--Z and \<open>\<Agrave>\<close>--\<open>\<THORN>\<close> without \<open>\<times>\<close>.\<close>

definition qt_toLower_char :: "char \<Rightarrow> char" where
  "qt_toLower_char c =
     (let n = (of_char c :: nat) in
      if (65 \<le> n \<and> n \<le> 90) \<or> (192 \<le> n \<and> n \<le> 222 \<and> n \<noteq> 215) then char_of (n + 32) else c)"

definition qt_toLower :: "string \<Rightarrow> string" where
  "qt_toLower s = map qt_toLower_char s"

text \<open>\<open>QString::contains(needle)\<close> (the empty needle is contained in every string).\<close>

definition qt_contains :: "string \<Rightarrow> string \<Rightarrow> bool" where
  "qt_contains hay needle = sublist needle hay"

text \<open>\<open>QString::left(n)\<close> for \<open>n \<ge> 0\<close>.\<close>

definition qt_left :: "nat \<Rightarrow> string \<Rightarrow> string" where
  "qt_left n s = take n s"

subsection \<open>Decimal numbers\<close>

text \<open>\<open>QString::arg(int)\<close> on a non-negative value: its decimal digits.\<close>

definition digit_char :: "nat \<Rightarrow> char" where
  "digit_char d = char_of (48 + d)"

fun qt_number :: "nat \<Rightarrow> string" where
  "qt_number n = (if n < 10 then [digit_char n] else qt_number (n div 10) @ [digit_char (n mod 10)])"

declare qt_number.simps [simp del]

definition digit_val :: "char \<Rightarrow> nat option" where
  "digit_val c = (let n = (of_char c :: nat) in if 48 \<le> n \<and> n \<le> 57 then Some (n - 48) else None)"

fun parse_digits :: "nat \<Rightarrow> string \<Rightarrow> nat option" where
  "parse_digits acc [] = Some acc"
| "parse_digits acc (c # cs) =
     (case digit_val c of None \<Rightarrow> None | Some d \<Rightarrow> parse_digits (10 * acc + d) cs)"

definition parse_nat :: "string \<Rightarrow> nat option" where
  "parse_nat s = (if s = [] then None else parse_digits 0 s)"

text \<open>
  The shape of a simplified string: every whitespace character is a blank and
  is followed by a non-whitespace character, so there is no trailing blank and
  no two blanks in a row.
\<close>

fun good_spacing :: "string \<Rightarrow> bool" where
  "good_spacing [] = True"
| "good_spacing [c] = (\<not> qt_isSpace c)"
| "good_spacing (c # d # cs) =
     (if qt_isSpace c then c = CHR '' '' \<and> \<not> qt_isSpace d \<and> good_spacing (d # cs)
      else good_spacing (d # cs))"

declare qt_isSpace_def [model_defs] qt_trimmed_def [model_defs] qt_simplified_def [model_defs]
  qt_toLower_def [model_defs] qt_toLower_char_def [model_defs] qt_contains_def [model_defs]
  qt_left_def [model_defs] digit_char_def [model_defs] digit_val_def [model_defs]
  parse_nat_def [model_defs]

subsection \<open>Lemmas: trimming\<close>

lemma qt_isSpace_blank [simp]: "qt_isSpace (CHR '' '')"
  by (simp add: qt_isSpace_def)

lemma hd_dropWhile_not: "dropWhile P xs \<noteq> [] \<Longrightarrow> \<not> P (hd (dropWhile P xs))"
  by (induction xs) auto

lemma qt_trimmed_ends:
  assumes "qt_trimmed s \<noteq> []"
  shows "\<not> qt_isSpace (hd (qt_trimmed s)) \<and> \<not> qt_isSpace (last (qt_trimmed s))"
proof -
  let ?d = "dropWhile qt_isSpace s"
  have ne: "dropWhile qt_isSpace (rev ?d) \<noteq> []" using assms by (simp add: qt_trimmed_def)
  have "\<not> qt_isSpace (hd (dropWhile qt_isSpace (rev ?d)))" using ne by (rule hd_dropWhile_not)
  then have last_ok: "\<not> qt_isSpace (last (qt_trimmed s))"
    using ne by (simp add: qt_trimmed_def last_rev)
  have "?d \<noteq> []"
  proof
    assume "?d = []"
    with ne show False by simp
  qed
  then obtain c cs where dc: "?d = c # cs" by (cases ?d) auto
  then have c: "\<not> qt_isSpace c" using hd_dropWhile_not [of qt_isSpace s] by simp
  have "hd (rev (dropWhile qt_isSpace (rev cs @ [c]))) = c"
    using c by (simp add: dropWhile_append)
  then have "hd (qt_trimmed s) = c"
    using dc by (simp add: qt_trimmed_def)
  with c last_ok show ?thesis by simp
qed

subsection \<open>Lemmas: simplification\<close>

lemma good_spacing_Cons_nonspace:
  "\<not> qt_isSpace c \<Longrightarrow> good_spacing (c # r) = good_spacing r"
  by (cases r) auto

lemma good_spacing_simplify_run: "good_spacing (simplify_run pend cs)"
proof (induction cs arbitrary: pend)
  case Nil
  then show ?case by simp
next
  case (Cons c cs)
  then show ?case by (auto simp: good_spacing_Cons_nonspace)
qed

lemma good_spacing_hd_last:
  "good_spacing r \<Longrightarrow> r \<noteq> [] \<Longrightarrow> \<not> qt_isSpace (last r)"
  by (induction r rule: good_spacing.induct) (auto split: if_splits)

lemma good_spacing_no_double_blank:
  "good_spacing r \<Longrightarrow> \<not> sublist [CHR '' '', CHR '' ''] r"
proof (induction r rule: good_spacing.induct)
  case (3 c d cs)
  then show ?case by (auto simp: sublist_Cons_right split: if_splits)
qed (auto simp: sublist_Cons_right)

lemma good_spacing_blank_only:
  "good_spacing r \<Longrightarrow> c \<in> set r \<Longrightarrow> qt_isSpace c \<Longrightarrow> c = CHR '' ''"
  by (induction r rule: good_spacing.induct) (auto split: if_splits)

lemma simplify_run_nonspace_hd:
  "\<not> qt_isSpace c \<Longrightarrow> simplify_run False (c # cs) = c # simplify_run False cs"
  by simp

lemma simplify_run_good:
  "good_spacing r \<Longrightarrow>
   simplify_run pend r = (if pend \<and> r \<noteq> [] \<and> \<not> qt_isSpace (hd r) then CHR '' '' # r else r)"
proof (induction r arbitrary: pend rule: good_spacing.induct)
  case (3 c d cs)
  show ?case
  proof (cases "qt_isSpace c")
    case True
    with "3.prems" have "c = CHR '' ''" and d: "\<not> qt_isSpace d" and g: "good_spacing (d # cs)"
      by simp_all
    with "3.IH"(1) [of True] True show ?thesis by simp
  next
    case False
    with "3.prems" have g: "good_spacing (d # cs)" by simp
    with "3.IH"(2) [of False] False show ?thesis by (cases "qt_isSpace d") auto
  qed
qed auto

lemma filter_simplify_run:
  "filter (\<lambda>c. \<not> qt_isSpace c) (simplify_run pend cs) = filter (\<lambda>c. \<not> qt_isSpace c) cs"
  by (induction cs arbitrary: pend) auto

lemma length_simplify_run:
  "length (simplify_run pend cs) \<le> length cs + (if pend then 1 else 0)"
proof (induction cs arbitrary: pend)
  case (Cons c cs)
  show ?case using Cons.IH [of True] Cons.IH [of False] by auto
qed simp

text \<open>The properties of \<open>simplified\<close> that the preview relies on.\<close>

lemma qt_simplified_shape:
  "good_spacing (qt_simplified s) \<and>
   (qt_simplified s \<noteq> [] \<longrightarrow> \<not> qt_isSpace (hd (qt_simplified s)))"
proof -
  have "good_spacing (qt_simplified s)"
    by (simp add: qt_simplified_def good_spacing_simplify_run)
  moreover have "qt_simplified s \<noteq> [] \<longrightarrow> \<not> qt_isSpace (hd (qt_simplified s))"
  proof (cases "dropWhile qt_isSpace s")
    case Nil
    have "qt_simplified s = []" unfolding qt_simplified_def Nil by simp
    then show ?thesis by simp
  next
    case (Cons c cs)
    then have "\<not> qt_isSpace c" using hd_dropWhile_not [of qt_isSpace s] by simp
    with Cons show ?thesis by (simp add: qt_simplified_def)
  qed
  ultimately show ?thesis by blast
qed

lemma qt_simplified_idem: "qt_simplified (qt_simplified s) = qt_simplified s"
proof -
  have sh: "good_spacing (qt_simplified s)"
    and hd: "qt_simplified s \<noteq> [] \<longrightarrow> \<not> qt_isSpace (hd (qt_simplified s))"
    using qt_simplified_shape by blast+
  have "dropWhile qt_isSpace (qt_simplified s) = qt_simplified s"
    using hd by (cases "qt_simplified s") auto
  then show ?thesis
    using simplify_run_good [OF sh, of False] by (simp add: qt_simplified_def)
qed

lemma filter_dropWhile_space:
  "filter (\<lambda>c. \<not> qt_isSpace c) (dropWhile qt_isSpace s) = filter (\<lambda>c. \<not> qt_isSpace c) s"
  by (induction s) auto

lemma qt_simplified_content:
  "filter (\<lambda>c. \<not> qt_isSpace c) (qt_simplified s) = filter (\<lambda>c. \<not> qt_isSpace c) s"
  by (simp add: qt_simplified_def filter_simplify_run filter_dropWhile_space)

lemma length_qt_simplified: "length (qt_simplified s) \<le> length s"
proof -
  have "length (qt_simplified s) \<le> length (dropWhile qt_isSpace s)"
    using length_simplify_run [of False] by (simp add: qt_simplified_def)
  also have "\<dots> \<le> length s" by (rule length_dropWhile_le)
  finally show ?thesis .
qed

subsection \<open>Lemmas: lower case\<close>

lemma qt_toLower_char_idem: "qt_toLower_char (qt_toLower_char c) = qt_toLower_char c"
  by (auto simp: qt_toLower_char_def Let_def of_char_of)

lemma qt_toLower_idem [simp]: "qt_toLower (qt_toLower s) = qt_toLower s"
  by (simp add: qt_toLower_def qt_toLower_char_idem)

lemma length_qt_toLower [simp]: "length (qt_toLower s) = length s"
  by (simp add: qt_toLower_def)

lemma qt_toLower_append [simp]: "qt_toLower (xs @ ys) = qt_toLower xs @ qt_toLower ys"
  by (simp add: qt_toLower_def)

lemma qt_contains_toLower:
  "qt_contains s t \<Longrightarrow> qt_contains (qt_toLower s) (qt_toLower t)"
proof -
  assume "qt_contains s t"
  then obtain ps ss where "s = ps @ t @ ss" by (auto simp: qt_contains_def sublist_def)
  then have "qt_toLower s = qt_toLower ps @ qt_toLower t @ qt_toLower ss" by simp
  then show ?thesis unfolding qt_contains_def by (metis sublist_appendI)
qed

lemma qt_contains_refl [simp]: "qt_contains s s"
  by (simp add: qt_contains_def)

lemma qt_contains_Nil [simp]: "qt_contains s []"
  by (simp add: qt_contains_def)

subsection \<open>Lemmas: decimal numbers\<close>

lemma digit_val_digit_char [simp]: "d < 10 \<Longrightarrow> digit_val (digit_char d) = Some d"
  by (simp add: digit_val_def digit_char_def of_char_of)

lemma parse_digits_append:
  "parse_digits acc (xs @ ys) =
     (case parse_digits acc xs of None \<Rightarrow> None | Some a \<Rightarrow> parse_digits a ys)"
  by (induction acc xs rule: parse_digits.induct) (auto split: option.splits)

lemma qt_number_not_Nil [simp]: "qt_number n \<noteq> []"
  by (subst qt_number.simps) simp

lemma parse_digits_qt_number: "parse_digits 0 (qt_number n) = Some n"
proof (induction n rule: qt_number.induct)
  case (1 n)
  show ?case
  proof (cases "n < 10")
    case True
    then show ?thesis by (subst qt_number.simps) simp
  next
    case False
    with "1.IH" have "parse_digits 0 (qt_number (n div 10)) = Some (n div 10)" by simp
    with False show ?thesis
      by (subst qt_number.simps) (simp add: parse_digits_append)
  qed
qed

lemma parse_nat_qt_number: "parse_nat (qt_number n) = Some n"
  by (simp add: parse_nat_def parse_digits_qt_number)

lemma qt_number_inj: "qt_number a = qt_number b \<longleftrightarrow> a = b"
  by (metis option.inject parse_nat_qt_number)

lemma qt_number_digits: "c \<in> set (qt_number n) \<Longrightarrow> \<exists>d<10. c = digit_char d"
proof (induction n rule: qt_number.induct)
  case (1 n)
  show ?case
  proof (cases "n < 10")
    case True
    with "1.prems" show ?thesis by (subst (asm) qt_number.simps) auto
  next
    case False
    with "1.prems" have "c \<in> set (qt_number (n div 10)) \<or> c = digit_char (n mod 10)"
      by (subst (asm) qt_number.simps) auto
    then show ?thesis
    proof
      assume "c \<in> set (qt_number (n div 10))"
      with "1.IH" False show ?thesis by blast
    next
      assume "c = digit_char (n mod 10)"
      then show ?thesis by (intro exI [of _ "n mod 10"]) simp
    qed
  qed
qed

end
