(* ===== verification/Regex.thy ===== *)
theory Regex
  imports Clip_Prelude
begin

text \<open>
  The part of \<open>QRegularExpression\<close> (PCRE2) that the classifier uses: regular
  expressions over characters with character classes, their meaning as an
  inductive matching relation, and an executable matcher by Brzozowski
  derivatives proved equal to it.  The anchored match \<open>^r$\<close> is modelled with
  PCRE2's default meaning of \<open>$\<close>: end of subject, or before a newline that
  ends the subject.  The classes \<open>\s\<close> and \<open>\w\<close> are PCRE2's without
  Unicode properties, which is how \<open>QRegularExpression\<close> compiles by default.
\<close>

datatype rexp =
    Nul
  | Eps
  | Sym "char \<Rightarrow> bool"
  | Alt rexp rexp
  | Cat rexp rexp
  | Rep rexp

inductive rmatch :: "rexp \<Rightarrow> string \<Rightarrow> bool" where
  eps: "rmatch Eps []"
| sym: "P c \<Longrightarrow> rmatch (Sym P) [c]"
| alt1: "rmatch r w \<Longrightarrow> rmatch (Alt r s) w"
| alt2: "rmatch s w \<Longrightarrow> rmatch (Alt r s) w"
| cat: "rmatch r u \<Longrightarrow> rmatch s v \<Longrightarrow> rmatch (Cat r s) (u @ v)"
| rep_nil: "rmatch (Rep r) []"
| rep_cons: "rmatch r u \<Longrightarrow> rmatch (Rep r) v \<Longrightarrow> rmatch (Rep r) (u @ v)"

primrec nullable :: "rexp \<Rightarrow> bool" where
  "nullable Nul = False"
| "nullable Eps = True"
| "nullable (Sym P) = False"
| "nullable (Alt r s) = (nullable r \<or> nullable s)"
| "nullable (Cat r s) = (nullable r \<and> nullable s)"
| "nullable (Rep r) = True"

text \<open>
  Derivatives are built with constructors that drop \<open>Nul\<close> branches and
  \<open>Eps\<close> factors; without them the derivatives of a starred pattern double
  in size at every character.
\<close>

fun alt :: "rexp \<Rightarrow> rexp \<Rightarrow> rexp" where
  "alt Nul r = r"
| "alt r Nul = r"
| "alt r s = Alt r s"

fun cat :: "rexp \<Rightarrow> rexp \<Rightarrow> rexp" where
  "cat Nul r = Nul"
| "cat r Nul = Nul"
| "cat Eps r = r"
| "cat r Eps = r"
| "cat r s = Cat r s"

primrec deriv :: "char \<Rightarrow> rexp \<Rightarrow> rexp" where
  "deriv c Nul = Nul"
| "deriv c Eps = Nul"
| "deriv c (Sym P) = (if P c then Eps else Nul)"
| "deriv c (Alt r s) = alt (deriv c r) (deriv c s)"
| "deriv c (Cat r s) =
     (if nullable r then alt (cat (deriv c r) s) (deriv c s) else cat (deriv c r) s)"
| "deriv c (Rep r) = cat (deriv c r) (Rep r)"

primrec derivs :: "string \<Rightarrow> rexp \<Rightarrow> rexp" where
  "derivs [] r = r"
| "derivs (c # cs) r = derivs cs (deriv c r)"

definition re_match :: "rexp \<Rightarrow> string \<Rightarrow> bool" where
  "re_match r s = nullable (derivs s r)"

text \<open>\<open>^r$\<close> against the whole subject.\<close>

definition re_anchored :: "rexp \<Rightarrow> string \<Rightarrow> bool" where
  "re_anchored r s =
     (re_match r s \<or> (s \<noteq> [] \<and> last s = CHR 0x0A \<and> re_match r (butlast s)))"

subsection \<open>Building blocks of the patterns\<close>

definition lit :: "char \<Rightarrow> rexp" where
  "lit c = Sym (\<lambda>x. x = c)"

definition lits :: "string \<Rightarrow> rexp" where
  "lits s = foldr (\<lambda>c r. Cat (lit c) r) s Eps"

definition opt :: "rexp \<Rightarrow> rexp" where
  "opt r = Alt r Eps"

definition plus :: "rexp \<Rightarrow> rexp" where
  "plus r = Cat r (Rep r)"

text \<open>PCRE2 \<open>\s\<close>: tab, line feed, vertical tab, form feed, carriage return, space.\<close>

definition re_space :: "char \<Rightarrow> bool" where
  "re_space c = (let n = (of_char c :: nat) in (9 \<le> n \<and> n \<le> 13) \<or> n = 32)"

text \<open>PCRE2 \<open>\w\<close>: ASCII letters, digits and the underscore.\<close>

definition re_alnum :: "char \<Rightarrow> bool" where
  "re_alnum c = (let n = (of_char c :: nat) in
     (48 \<le> n \<and> n \<le> 57) \<or> (65 \<le> n \<and> n \<le> 90) \<or> (97 \<le> n \<and> n \<le> 122))"

definition re_word :: "char \<Rightarrow> bool" where
  "re_word c = (re_alnum c \<or> c = CHR ''_'')"

declare re_match_def [model_defs] re_anchored_def [model_defs] lit_def [model_defs]
  lits_def [model_defs] opt_def [model_defs] plus_def [model_defs] re_space_def [model_defs]
  re_alnum_def [model_defs] re_word_def [model_defs]

subsection \<open>The matcher is correct\<close>

inductive_simps rmatch_Nul [simp]: "rmatch Nul w"
inductive_simps rmatch_Eps [simp]: "rmatch Eps w"
inductive_simps rmatch_Sym [simp]: "rmatch (Sym P) w"
inductive_simps rmatch_Alt [simp]: "rmatch (Alt r s) w"
inductive_simps rmatch_Cat [simp]: "rmatch (Cat r s) w"

lemma nullable_iff: "nullable r \<longleftrightarrow> rmatch r []"
  by (induction r) (auto intro: rmatch.intros)

lemma rmatch_alt [simp]: "rmatch (alt r s) w \<longleftrightarrow> rmatch r w \<or> rmatch s w"
  by (induction r s rule: alt.induct) auto

lemma rmatch_cat [simp]: "rmatch (cat r s) w \<longleftrightarrow> rmatch (Cat r s) w"
  by (induction r s rule: cat.induct) auto

lemma rmatch_Rep_Cons:
  assumes "rmatch R w" and "R = Rep r" and "w = c # s"
  shows "\<exists>u v. s = u @ v \<and> rmatch r (c # u) \<and> rmatch (Rep r) v"
  using assms
proof (induction arbitrary: s rule: rmatch.induct)
  case (rep_cons r' u v)
  show ?case
  proof (cases u)
    case Nil
    with rep_cons show ?thesis by simp
  next
    case (Cons x u')
    with rep_cons show ?thesis by auto
  qed
qed simp_all

lemma rmatch_Cat_Cons:
  "rmatch (Cat r1 r2) (c # s) \<longleftrightarrow>
   (\<exists>u v. s = u @ v \<and> rmatch r1 (c # u) \<and> rmatch r2 v) \<or> (rmatch r1 [] \<and> rmatch r2 (c # s))"
  by (auto simp: Cons_eq_append_conv)

lemma rmatch_deriv: "rmatch (deriv c r) s \<longleftrightarrow> rmatch r (c # s)"
proof (induction r arbitrary: s)
  case (Cat r1 r2)
  have "rmatch (deriv c (Cat r1 r2)) s \<longleftrightarrow>
        (\<exists>u v. s = u @ v \<and> rmatch r1 (c # u) \<and> rmatch r2 v) \<or> (rmatch r1 [] \<and> rmatch r2 (c # s))"
    by (auto simp: Cat.IH nullable_iff)
  then show ?case by (simp only: rmatch_Cat_Cons)
next
  case (Rep r)
  show ?case
  proof
    assume "rmatch (deriv c (Rep r)) s"
    then obtain u v where "s = u @ v" "rmatch r (c # u)" "rmatch (Rep r) v"
      using Rep.IH by auto
    then show "rmatch (Rep r) (c # s)" using rmatch.rep_cons [of r "c # u" v] by simp
  next
    assume "rmatch (Rep r) (c # s)"
    then obtain u v where "s = u @ v" "rmatch r (c # u)" "rmatch (Rep r) v"
      using rmatch_Rep_Cons by blast
    then show "rmatch (deriv c (Rep r)) s" using Rep.IH by auto
  qed
qed auto

lemma rmatch_derivs: "rmatch (derivs s r) w \<longleftrightarrow> rmatch r (s @ w)"
  by (induction s arbitrary: r) (simp_all add: rmatch_deriv)

theorem re_match_correct: "re_match r s \<longleftrightarrow> rmatch r s"
  using rmatch_derivs [of s r "[]"] by (simp add: re_match_def nullable_iff)

subsection \<open>Meaning of the building blocks\<close>

lemma rmatch_lit [simp]: "rmatch (lit c) w \<longleftrightarrow> w = [c]"
  by (auto simp: lit_def)

lemma rmatch_lits [simp]: "rmatch (lits s) w \<longleftrightarrow> w = s"
  by (induction s arbitrary: w) (auto simp: lits_def)

lemma rmatch_opt [simp]: "rmatch (opt r) w \<longleftrightarrow> w = [] \<or> rmatch r w"
  by (auto simp: opt_def)

lemma rmatch_Rep_Sym_imp: "rmatch R w \<Longrightarrow> R = Rep (Sym P) \<Longrightarrow> \<forall>c\<in>set w. P c"
  by (induction rule: rmatch.induct) auto

lemma rmatch_Rep_Sym [simp]: "rmatch (Rep (Sym P)) w \<longleftrightarrow> (\<forall>c\<in>set w. P c)"
proof
  assume "\<forall>c\<in>set w. P c"
  then show "rmatch (Rep (Sym P)) w"
  proof (induction w)
    case Nil
    show ?case by (rule rmatch.rep_nil)
  next
    case (Cons c w)
    then have "rmatch (Sym P) [c]" and "rmatch (Rep (Sym P)) w" by (auto intro: rmatch.sym)
    then show ?case using rmatch.rep_cons [of "Sym P" "[c]" w] by simp
  qed
qed (auto dest: rmatch_Rep_Sym_imp)

lemma rmatch_plus_Sym [simp]:
  "rmatch (plus (Sym P)) w \<longleftrightarrow> w \<noteq> [] \<and> (\<forall>c\<in>set w. P c)"
proof
  assume "rmatch (plus (Sym P)) w"
  then show "w \<noteq> [] \<and> (\<forall>c\<in>set w. P c)" by (auto simp: plus_def)
next
  assume a: "w \<noteq> [] \<and> (\<forall>c\<in>set w. P c)"
  then obtain c u where "w = c # u" by (cases w) auto
  with a have "rmatch (Sym P) [c]" and "rmatch (Rep (Sym P)) u" by (auto intro: rmatch.sym)
  then have "rmatch (Cat (Sym P) (Rep (Sym P))) ([c] @ u)" by (rule rmatch.cat)
  with \<open>w = c # u\<close> show "rmatch (plus (Sym P)) w" by (simp add: plus_def)
qed

lemma re_anchored_no_newline:
  "(s = [] \<or> last s \<noteq> CHR 0x0A) \<Longrightarrow> re_anchored r s \<longleftrightarrow> rmatch r s"
  by (auto simp: re_anchored_def re_match_correct)
end
