(* ===== verification/ClipboardItem.thy ===== *)
theory ClipboardItem
  imports QString Regex
begin

text \<open>
  Model of \<open>src/src/ClipboardItem.{h,cpp}\<close>: the immutable history entry.  An
  item is built once from a snapshot of the system clipboard (the
  \<open>QMimeData\<close> constructor) and classified into one of six types by the
  checks of \<open>determineType\<close> in the source's order (URL, code, file path,
  text).  Its preview, icon and equality are derived from its text and type.
  The capture time is a parameter (\<open>QDateTime::currentDateTime\<close>), in
  milliseconds.
\<close>

subsection \<open>Data\<close>

datatype item_type = Text | Image | Html | Url | File | Code

text \<open>
  A \<open>QPixmap\<close>: \<open>None\<close> is the null pixmap (width and height 0); a non-null
  pixmap has dimensions and pixel data.
\<close>

record pixmap =
  pm_width :: nat
  pm_height :: nat
  pm_pixels :: "nat list"

type_synonym qpixmap = "pixmap option"

definition qpixmap_width :: "qpixmap \<Rightarrow> nat" where
  "qpixmap_width p = (case p of None \<Rightarrow> 0 | Some q \<Rightarrow> pm_width q)"

definition qpixmap_height :: "qpixmap \<Rightarrow> nat" where
  "qpixmap_height p = (case p of None \<Rightarrow> 0 | Some q \<Rightarrow> pm_height q)"

text \<open>The standard icons \<open>loadIcon\<close> picks from \<open>QStyle\<close>.\<close>

datatype std_icon = SP_FileDialogDetailView | SP_ComputerIcon | SP_DriveNetIcon | SP_FileIcon

text \<open>
  A clipboard snapshot (\<open>QMimeData\<close>): \<open>hasImage\<close>, \<open>hasHtml\<close> and
  \<open>hasText\<close> are the presence of the three fields.  The image field holds what
  \<open>qvariant_cast<QPixmap>(imageData())\<close> yields, which may be the null pixmap.
\<close>

record mime_data =
  md_image :: "qpixmap option"
  md_html :: "string option"
  md_text :: "string option"

text \<open>The fields of \<open>class ClipboardItem\<close>.\<close>

record clip_item =
  ci_text :: string
  ci_preview :: string
  ci_type :: item_type
  ci_timestamp :: int
  ci_icon :: std_icon
  ci_image :: qpixmap

subsection \<open>The three patterns of \<open>determineType\<close>\<close>

text \<open>\<open>^https?://[^\s]+$\<close>\<close>

definition url_regex :: rexp where
  "url_regex =
     Cat (lits ''http'') (Cat (opt (lit (CHR ''s''))) (Cat (lits ''://'') (plus (Sym (\<lambda>c. \<not> re_space c)))))"

text \<open>\<open>^[/\\]?([^/\\]+[/\\])*[^/\\]+\.[a-zA-Z0-9]+$\<close>\<close>

definition is_sep :: "char \<Rightarrow> bool" where
  "is_sep c = (c = CHR ''/'' \<or> c = CHR 0x5C)"

definition file_regex :: rexp where
  "file_regex =
     Cat (opt (Sym is_sep))
      (Cat (Rep (Cat (plus (Sym (\<lambda>c. \<not> is_sep c))) (Sym is_sep)))
       (Cat (plus (Sym (\<lambda>c. \<not> is_sep c))) (Cat (lit (CHR ''.'')) (plus (Sym re_alnum)))))"

text \<open>
  \<open>\b(function|class|import|export|const|let|var|if|else|for|while|return)\b|[{}();]|\s{4,}|\t\<close>,
  searched anywhere in the text.  The word boundaries make the first branch a
  search for a keyword whose neighbours are not word characters; the other
  branches are a bracket or semicolon, four whitespace characters in a row, or
  a tab.
\<close>

definition code_keywords :: "string list" where
  "code_keywords = [''function'', ''class'', ''import'', ''export'', ''const'', ''let'', ''var'',
                    ''if'', ''else'', ''for'', ''while'', ''return'']"

definition kw_at :: "string \<Rightarrow> string \<Rightarrow> bool" where
  "kw_at s kw =
     (take (length kw) s = kw \<and> (case drop (length kw) s of [] \<Rightarrow> True | d # _ \<Rightarrow> \<not> re_word d))"

fun keyword_search :: "bool \<Rightarrow> string \<Rightarrow> bool" where
  "keyword_search prev_word [] = False"
| "keyword_search prev_word (c # cs) =
     ((\<not> prev_word \<and> list_ex (kw_at (c # cs)) code_keywords) \<or> keyword_search (re_word c) cs)"

fun ws_run :: "nat \<Rightarrow> string \<Rightarrow> bool" where
  "ws_run k [] = False"
| "ws_run k (c # cs) = (if re_space c then 3 \<le> k \<or> ws_run (Suc k) cs else ws_run 0 cs)"

definition code_regex_search :: "string \<Rightarrow> bool" where
  "code_regex_search s =
     (keyword_search False s \<or> list_ex (\<lambda>c. c \<in> set ''{}();'') s \<or> ws_run 0 s \<or> CHR 0x09 \<in> set s)"

subsection \<open>Operations\<close>

text \<open>\<open>ClipboardItem::determineType\<close>: the first check that succeeds wins.\<close>

definition determine_type :: "string \<Rightarrow> item_type" where
  "determine_type t =
     (if re_anchored url_regex (qt_trimmed t) then Url
      else if code_regex_search t \<or> qt_contains t ''```'' then Code
      else if re_anchored file_regex (qt_trimmed t) then File
      else Text)"

definition determineType :: "clip_item \<Rightarrow> clip_item" where
  "determineType it = it\<lparr>ci_type := determine_type (ci_text it)\<rparr>"

text \<open>\<open>ClipboardItem::truncateText\<close> (the source's default bound is 100).\<close>

definition truncateText :: "string \<Rightarrow> nat \<Rightarrow> string" where
  "truncateText text maxLength =
     (if length text \<le> maxLength then text else qt_left maxLength text @ ''...'')"

text \<open>\<open>QString("Image (%1x%2)").arg(width).arg(height)\<close>\<close>

definition image_descriptor :: "qpixmap \<Rightarrow> string" where
  "image_descriptor p =
     ''Image ('' @ qt_number (qpixmap_width p) @ ''x'' @ qt_number (qpixmap_height p) @ '')''"

text \<open>\<open>ClipboardItem::generatePreview\<close>\<close>

definition generatePreview :: "clip_item \<Rightarrow> clip_item" where
  "generatePreview it =
     it\<lparr>ci_preview :=
          (if ci_type it = Image then image_descriptor (ci_image it)
           else truncateText (qt_simplified (ci_text it)) 100)\<rparr>"

text \<open>\<open>ClipboardItem::loadIcon\<close>\<close>

primrec icon_for :: "item_type \<Rightarrow> std_icon" where
  "icon_for Text = SP_FileDialogDetailView"
| "icon_for Image = SP_FileDialogDetailView"
| "icon_for Html = SP_ComputerIcon"
| "icon_for Url = SP_DriveNetIcon"
| "icon_for File = SP_FileIcon"
| "icon_for Code = SP_FileDialogDetailView"

definition loadIcon :: "clip_item \<Rightarrow> clip_item" where
  "loadIcon it = it\<lparr>ci_icon := icon_for (ci_type it)\<rparr>"

text \<open>
  The freshly constructed object before the constructor body runs: the text is
  empty, the pixmaps are null; the type and icon are overwritten on every path
  before they are read.
\<close>

definition blank_item :: "int \<Rightarrow> clip_item" where
  "blank_item now =
     \<lparr>ci_text = [], ci_preview = [], ci_type = Text, ci_timestamp = now,
      ci_icon = SP_FileDialogDetailView, ci_image = None\<rparr>"

text \<open>\<open>ClipboardItem::ClipboardItem(const QMimeData*)\<close>\<close>

definition ClipboardItem_mime :: "mime_data \<Rightarrow> int \<Rightarrow> clip_item" where
  "ClipboardItem_mime md now =
     (let it0 = blank_item now;
          it1 = (case md_image md of
                   Some img \<Rightarrow> it0\<lparr>ci_image := img, ci_type := Image, ci_text := image_descriptor img\<rparr>
                 | None \<Rightarrow>
                   (case md_html md of
                      Some h \<Rightarrow> it0\<lparr>ci_text := h, ci_type := Html\<rparr>
                    | None \<Rightarrow>
                      (case md_text md of
                         Some t \<Rightarrow> determineType (it0\<lparr>ci_text := t\<rparr>)
                       | None \<Rightarrow> it0\<lparr>ci_text := ''Unknown format'', ci_type := Text\<rparr>)))
      in loadIcon (generatePreview it1))"

text \<open>\<open>ClipboardItem::ClipboardItem(const QString&, ItemType)\<close> (not called in the sources)\<close>

definition ClipboardItem_text :: "string \<Rightarrow> item_type \<Rightarrow> int \<Rightarrow> clip_item" where
  "ClipboardItem_text t ty now =
     (let it0 = (blank_item now)\<lparr>ci_text := t, ci_type := ty\<rparr>;
          it1 = (if ty = Text then determineType it0 else it0)
      in loadIcon (generatePreview it1))"

text \<open>\<open>ClipboardItem::typeString\<close>\<close>

primrec typeString :: "item_type \<Rightarrow> string" where
  "typeString Text = ''Text''"
| "typeString Image = ''Image''"
| "typeString Html = ''HTML''"
| "typeString Url = ''URL''"
| "typeString File = ''File''"
| "typeString Code = ''Code''"

text \<open>\<open>ClipboardItem::operator==\<close>: text and type, the timestamp is ignored.\<close>

definition item_eq :: "clip_item \<Rightarrow> clip_item \<Rightarrow> bool" where
  "item_eq a b = (ci_text a = ci_text b \<and> ci_type a = ci_type b)"

definition item_key :: "clip_item \<Rightarrow> string \<times> item_type" where
  "item_key it = (ci_text it, ci_type it)"

text \<open>
  \<open>QClipboard::setPixmap\<close> and \<open>QClipboard::setText\<close>: the snapshot the
  clipboard holds afterwards.
\<close>

definition clipboard_setPixmap :: "pixmap \<Rightarrow> mime_data" where
  "clipboard_setPixmap p = \<lparr>md_image = Some (Some p), md_html = None, md_text = None\<rparr>"

definition clipboard_setText :: "string \<Rightarrow> mime_data" where
  "clipboard_setText t = \<lparr>md_image = None, md_html = None, md_text = Some t\<rparr>"

text \<open>\<open>ClipboardItem::copyToClipboard\<close>: the write-back of an item.\<close>

definition copyToClipboard :: "clip_item \<Rightarrow> mime_data" where
  "copyToClipboard it =
     (if ci_type it = Image \<and> ci_image it \<noteq> None then clipboard_setPixmap (the (ci_image it))
      else clipboard_setText (ci_text it))"

subsection \<open>Well-formed items\<close>

text \<open>
  What every item the constructor builds satisfies: the preview and the icon
  are derived from text and type, an image item's text is its descriptor, a
  non-image item holds the null pixmap, and the type of a plain-text item is
  the classification of its text.
\<close>

definition item_wf :: "clip_item \<Rightarrow> bool" where
  "item_wf it =
     (ci_preview it = (if ci_type it = Image then image_descriptor (ci_image it)
                       else truncateText (qt_simplified (ci_text it)) 100) \<and>
      ci_icon it = icon_for (ci_type it) \<and>
      (ci_type it = Image \<longrightarrow> ci_text it = image_descriptor (ci_image it)) \<and>
      (ci_type it \<noteq> Image \<longrightarrow> ci_image it = None) \<and>
      (ci_type it \<notin> {Image, Html} \<longrightarrow> ci_type it = determine_type (ci_text it)))"

text \<open>The equality key an item built from a snapshot gets.\<close>

definition mime_key :: "mime_data \<Rightarrow> string \<times> item_type" where
  "mime_key md =
     (case md_image md of
        Some img \<Rightarrow> (image_descriptor img, Image)
      | None \<Rightarrow> (case md_html md of
          Some h \<Rightarrow> (h, Html)
        | None \<Rightarrow> (case md_text md of
            Some t \<Rightarrow> (t, determine_type t)
          | None \<Rightarrow> (''Unknown format'', Text))))"

text \<open>Sample snapshots used by the witnesses below.\<close>

definition spaced_snapshot :: mime_data where
  "spaced_snapshot = clipboard_setText ''  hello   world  ''"

definition sample_pixmap :: "nat list \<Rightarrow> pixmap" where
  "sample_pixmap px = \<lparr>pm_width = 2, pm_height = 3, pm_pixels = px\<rparr>"

declare url_regex_def [model_defs] is_sep_def [model_defs] file_regex_def [model_defs]
  code_keywords_def [model_defs] kw_at_def [model_defs] code_regex_search_def [model_defs]
  determine_type_def [model_defs] determineType_def [model_defs] truncateText_def [model_defs]
  image_descriptor_def [model_defs] generatePreview_def [model_defs] loadIcon_def [model_defs]
  blank_item_def [model_defs] ClipboardItem_mime_def [model_defs] ClipboardItem_text_def [model_defs]
  item_eq_def [model_defs] item_key_def [model_defs] clipboard_setPixmap_def [model_defs]
  clipboard_setText_def [model_defs] copyToClipboard_def [model_defs] qpixmap_width_def [model_defs]
  qpixmap_height_def [model_defs] spaced_snapshot_def [model_defs] sample_pixmap_def [model_defs]

subsection \<open>Lemmas\<close>

lemma item_key_ClipboardItem_mime: "item_key (ClipboardItem_mime md now) = mime_key md"
  by (simp add: ClipboardItem_mime_def mime_key_def blank_item_def item_key_def determineType_def
      generatePreview_def loadIcon_def Let_def split: option.splits)

lemma determine_type_unknown: "determine_type ''Unknown format'' = Text"
  by code_simp

lemma determine_type_not_Image [simp]: "determine_type t \<noteq> Image"
  by (simp add: determine_type_def)

lemma determine_type_not_Html [simp]: "determine_type t \<noteq> Html"
  by (simp add: determine_type_def)

lemma item_wf_ClipboardItem_mime: "item_wf (ClipboardItem_mime md now)"
  by (simp add: item_wf_def ClipboardItem_mime_def blank_item_def determineType_def
      generatePreview_def loadIcon_def determine_type_unknown
      Let_def split: option.splits)

lemma length_truncateText: "length (truncateText s n) = (if length s \<le> n then length s else n + 3)"
  by (simp add: truncateText_def qt_left_def)

lemma digit_char_not_x: "d < 10 \<Longrightarrow> digit_char d \<noteq> CHR ''x''"
proof
  assume "d < 10" and "digit_char d = CHR ''x''"
  then have "of_char (digit_char d) = (of_char (CHR ''x'') :: nat)" by simp
  with \<open>d < 10\<close> show False by (simp add: digit_char_def of_char_of)
qed

lemma x_notin_qt_number: "CHR ''x'' \<notin> set (qt_number n)"
proof
  assume "CHR ''x'' \<in> set (qt_number n)"
  then obtain d where "d < 10" and "CHR ''x'' = digit_char d" using qt_number_digits by blast
  then show False using digit_char_not_x by metis
qed

lemma image_descriptor_eq:
  "image_descriptor p = image_descriptor q \<longleftrightarrow>
   qpixmap_width p = qpixmap_width q \<and> qpixmap_height p = qpixmap_height q"
  by (simp add: image_descriptor_def append_Cons_eq_iff x_notin_qt_number qt_number_inj)

lemma qt_trimmed_last_not_newline: "qt_trimmed s = [] \<or> last (qt_trimmed s) \<noteq> CHR 0x0A"
proof (cases "qt_trimmed s = []")
  case False
  then have "\<not> qt_isSpace (last (qt_trimmed s))" using qt_trimmed_ends by blast
  then show ?thesis by (auto simp: qt_isSpace_def)
qed simp

lemma rmatch_url_regex:
  "rmatch url_regex w \<longleftrightarrow>
   (\<exists>rest. (w = ''http://'' @ rest \<or> w = ''https://'' @ rest) \<and> rest \<noteq> [] \<and> (\<forall>c\<in>set rest. \<not> re_space c))"
  by (auto simp: url_regex_def) (rule exI [of _ "''s''"], auto)

lemma truncateText_cases:
  "truncateText s n = (if length s \<le> n then s else take n s @ ''...'')"
  by (simp add: truncateText_def qt_left_def)

lemma truncate_no_double_blank:
  assumes "\<not> sublist [CHR '' '', CHR '' ''] s"
  shows "\<not> sublist [CHR '' '', CHR '' ''] (truncateText s n)"
proof (cases "length s \<le> n")
  case True
  then show ?thesis using assms by (simp add: truncateText_cases)
next
  case False
  have t: "\<not> sublist [CHR '' '', CHR '' ''] (take n s)"
    using assms sublist_order.order.trans sublist_take by blast
  then have "\<not> suffix [CHR '' '', CHR '' ''] (take n s)"
    using suffix_imp_sublist by blast
  moreover have "\<not> sublist [CHR '' '', CHR '' ''] ''...''"
    by (simp add: sublist_Cons_right)
  ultimately show ?thesis
    using False t by (auto simp: truncateText_cases sublist_append Cons_eq_append_conv append_eq_Cons_conv)
qed

lemma truncate_blank_only:
  "(\<forall>c\<in>set s. qt_isSpace c \<longrightarrow> c = CHR '' '') \<Longrightarrow>
   \<forall>c\<in>set (truncateText s n). qt_isSpace c \<longrightarrow> c = CHR '' ''"
  by (auto simp: truncateText_cases qt_isSpace_def dest: in_set_takeD)

lemma truncate_hd:
  "(s \<noteq> [] \<longrightarrow> \<not> qt_isSpace (hd s)) \<Longrightarrow>
   truncateText s n \<noteq> [] \<longrightarrow> \<not> qt_isSpace (hd (truncateText s n))"
  by (cases s; cases n) (auto simp: truncateText_cases qt_isSpace_def)

lemma length_truncateText_le: "length (truncateText s n) \<le> n + 3"
  by (simp add: truncateText_cases)

lemma item_eq_key: "item_eq a b \<longleftrightarrow> item_key a = item_key b"
  by (simp add: item_eq_def item_key_def)

lemma echo_item_key:
  assumes "item_wf it" and "ci_type it \<noteq> Html" and "ci_type it = Image \<longrightarrow> ci_image it \<noteq> None"
  shows "item_key (ClipboardItem_mime (copyToClipboard it) now) = item_key it"
proof -
  have "item_key (ClipboardItem_mime (copyToClipboard it) now) = mime_key (copyToClipboard it)"
    by (rule item_key_ClipboardItem_mime)
  also have "\<dots> = item_key it"
  proof (cases "ci_type it = Image")
    case True
    with assms obtain p where "ci_image it = Some p" by auto
    with True assms(1) show ?thesis
      by (simp add: mime_key_def copyToClipboard_def clipboard_setPixmap_def item_wf_def item_key_def)
  next
    case False
    with assms(1,2) show ?thesis
      by (simp add: mime_key_def copyToClipboard_def clipboard_setText_def item_wf_def item_key_def)
  qed
  finally show ?thesis .
qed

lemma html_echo_type:
  "ci_type it = Html \<Longrightarrow> ci_type (ClipboardItem_mime (copyToClipboard it) now) \<noteq> Html"
  using item_key_ClipboardItem_mime [of "copyToClipboard it" now]
  by (simp add: mime_key_def copyToClipboard_def clipboard_setText_def item_key_def)

subsection \<open>Properties of items\<close>

text \<open>
  C13. A text is classified as a URL exactly when, trimmed, it is
  \<open>http://\<close> or \<open>https://\<close> followed by a non-empty run of characters none
  of which is PCRE whitespace.
\<close>

theorem determine_type_Url:
  "determine_type t = Url \<longleftrightarrow>
   (\<exists>rest. (qt_trimmed t = ''http://'' @ rest \<or> qt_trimmed t = ''https://'' @ rest) \<and>
           rest \<noteq> [] \<and> (\<forall>c\<in>set rest. \<not> re_space c))"
proof -
  have "determine_type t = Url \<longleftrightarrow> re_anchored url_regex (qt_trimmed t)"
    by (simp add: determine_type_def)
  also have "\<dots> \<longleftrightarrow> rmatch url_regex (qt_trimmed t)"
    using qt_trimmed_last_not_newline by (rule re_anchored_no_newline)
  finally show ?thesis by (simp only: rmatch_url_regex)
qed
theorem determine_type_Url_witness:
  "determine_type '' https://example.com '' = Url \<and>
   qt_trimmed '' https://example.com '' = ''https://'' @ ''example.com'' \<and>
   list_all (\<lambda>c. \<not> re_space c) ''example.com''"
proof -
  have h: "qt_trimmed '' https://example.com '' = ''https://'' @ ''example.com''" by code_simp
  have r: "''example.com'' \<noteq> [] \<and> (\<forall>c\<in>set ''example.com''. \<not> re_space c)" by code_simp
  from h r have "determine_type '' https://example.com '' = Url"
    by (subst determine_type_Url) blast
  with h r show ?thesis by (simp add: list_all_iff)
qed

text \<open>
  C14. The preview of every non-image item is the simplified text cut to 100
  characters with \<open>...\<close> appended when it was longer, so it has at most 103
  characters; its only whitespace is single blanks and it does not start with
  whitespace.
\<close>

theorem preview_shape:
  assumes "ci_type (ClipboardItem_mime md now) \<noteq> Image"
  shows "length (ci_preview (ClipboardItem_mime md now)) \<le> 103 \<and>
         ci_preview (ClipboardItem_mime md now) =
           (if length (qt_simplified (ci_text (ClipboardItem_mime md now))) \<le> 100
            then qt_simplified (ci_text (ClipboardItem_mime md now))
            else take 100 (qt_simplified (ci_text (ClipboardItem_mime md now))) @ ''...'') \<and>
         (\<forall>c\<in>set (ci_preview (ClipboardItem_mime md now)). qt_isSpace c \<longrightarrow> c = CHR '' '') \<and>
         \<not> sublist [CHR '' '', CHR '' ''] (ci_preview (ClipboardItem_mime md now)) \<and>
         (ci_preview (ClipboardItem_mime md now) \<noteq> [] \<longrightarrow>
            \<not> qt_isSpace (hd (ci_preview (ClipboardItem_mime md now))))"
proof -
  let ?t = "qt_simplified (ci_text (ClipboardItem_mime md now))"
  have p: "ci_preview (ClipboardItem_mime md now) = truncateText ?t 100"
    using item_wf_ClipboardItem_mime [of md now] assms by (simp add: item_wf_def)
  have g: "good_spacing ?t" and h: "?t \<noteq> [] \<longrightarrow> \<not> qt_isSpace (hd ?t)"
    using qt_simplified_shape by blast+
  have b: "\<forall>c\<in>set ?t. qt_isSpace c \<longrightarrow> c = CHR '' ''"
    using good_spacing_blank_only [OF g] by blast
  have c1: "length (truncateText ?t 100) \<le> 103"
    using length_truncateText_le [of ?t 100] by simp
  have c2: "truncateText ?t 100 = (if length ?t \<le> 100 then ?t else take 100 ?t @ ''...'')"
    by (rule truncateText_cases)
  note c3 = truncate_blank_only [OF b, of 100]
  note c4 = truncate_no_double_blank [OF good_spacing_no_double_blank [OF g], of 100]
  note c5 = truncate_hd [OF h, of 100]
  show ?thesis
    unfolding p by (intro conjI c1 c2 c3 c4 c5)
qed

theorem preview_shape_witness:
  "ci_type (ClipboardItem_mime spaced_snapshot 0) \<noteq> Image \<and>
   length (ci_preview (ClipboardItem_mime spaced_snapshot 0)) \<le> 103 \<and>
   \<not> sublist [CHR '' '', CHR '' ''] (ci_preview (ClipboardItem_mime spaced_snapshot 0))"
proof -
  have t: "ci_type (ClipboardItem_mime spaced_snapshot 0) \<noteq> Image" by code_simp
  with preview_shape [OF t] show ?thesis by blast
qed

text \<open>
  C15. Two image snapshots give items that \<open>operator==\<close> identifies exactly
  when the pixmaps have the same width and height: the comparison sees the
  descriptor \<open>Image (WxH)\<close>, not the pixels.
\<close>

theorem image_items_equal_iff_dimensions:
  assumes "md_image md1 = Some p1" and "md_image md2 = Some p2"
  shows "item_eq (ClipboardItem_mime md1 t1) (ClipboardItem_mime md2 t2) \<longleftrightarrow>
         qpixmap_width p1 = qpixmap_width p2 \<and> qpixmap_height p1 = qpixmap_height p2"
  using assms by (simp add: item_eq_key item_key_ClipboardItem_mime mime_key_def image_descriptor_eq)

theorem image_items_equal_iff_dimensions_witness:
  "item_eq (ClipboardItem_mime (clipboard_setPixmap (sample_pixmap [0])) 1)
           (ClipboardItem_mime (clipboard_setPixmap (sample_pixmap [1])) 2) \<and>
   sample_pixmap [0] \<noteq> sample_pixmap [1]"
proof -
  have a: "md_image (clipboard_setPixmap (sample_pixmap [0])) = Some (Some (sample_pixmap [0]))"
    and b: "md_image (clipboard_setPixmap (sample_pixmap [1])) = Some (Some (sample_pixmap [1]))"
    by (simp_all add: clipboard_setPixmap_def)
  have "qpixmap_width (Some (sample_pixmap [0])) = qpixmap_width (Some (sample_pixmap [1])) \<and>
        qpixmap_height (Some (sample_pixmap [0])) = qpixmap_height (Some (sample_pixmap [1]))"
    by (simp add: qpixmap_width_def qpixmap_height_def sample_pixmap_def)
  with image_items_equal_iff_dimensions [OF a b, of 1 2] show ?thesis
    by (simp add: sample_pixmap_def)
qed

text \<open>
  The spec's classification examples: a URL, a line of code, a file path
  and plain words.
\<close>

theorem classify_examples:
  "determine_type ''https://example.com'' = Url \<and> determine_type ''function f(){}'' = Code \<and>
   determine_type ''/usr/local/bin/file.txt'' = File \<and> determine_type ''hello world'' = Text"
  by code_simp

text \<open>
  C17. Writing an item back and reading the clipboard again gives the item
  back: for a well-formed item that is not HTML and not an image holding the
  null pixmap, the constructor applied to the snapshot \<open>copyToClipboard\<close>
  leaves, at the item's own capture time, rebuilds the item field by field.
\<close>

theorem copyToClipboard_roundtrip:
  assumes "item_wf it" "ci_type it \<noteq> Html" "ci_type it = Image \<longrightarrow> ci_image it \<noteq> None"
  shows "ClipboardItem_mime (copyToClipboard it) (ci_timestamp it) = it"
  using assms
  by (cases it) (auto simp: ClipboardItem_mime_def copyToClipboard_def clipboard_setPixmap_def
      clipboard_setText_def item_wf_def blank_item_def generatePreview_def loadIcon_def determineType_def)

theorem copyToClipboard_roundtrip_witness:
  "ClipboardItem_mime (copyToClipboard (ClipboardItem_mime (clipboard_setText ''hello'') 7)) 7 =
   ClipboardItem_mime (clipboard_setText ''hello'') 7"
proof -
  have t: "ci_type (ClipboardItem_mime (clipboard_setText ''hello'') 7) \<noteq> Html"
    and i: "ci_type (ClipboardItem_mime (clipboard_setText ''hello'') 7) = Image \<longrightarrow>
            ci_image (ClipboardItem_mime (clipboard_setText ''hello'') 7) \<noteq> None"
    and ts: "ci_timestamp (ClipboardItem_mime (clipboard_setText ''hello'') 7) = 7"
    by code_simp+
  show ?thesis
    using copyToClipboard_roundtrip [OF item_wf_ClipboardItem_mime t i] by (simp only: ts)
qed

end
