(* ===== verification/QtFormat.thy ===== *)
theory QtFormat
  imports QString
begin

text \<open>
  The formatting primitives of Qt and C++ that the views call: C++ integer
  division, which truncates toward zero; \<open>QString::arg\<close>, which substitutes
  its argument for the lowest-numbered \<open>%N\<close> escape of the template; and the
  environment that the views read, the current time and the local-time
  rendering of a timestamp by \<open>QDateTime::toString\<close>.
\<close>

subsection \<open>C++ integer division\<close>

definition c_div :: "int \<Rightarrow> int \<Rightarrow> int" where
  "c_div a b = (if 0 \<le> a then a div b else - ((- a) div b))"

subsection \<open>\<open>QString::arg\<close>\<close>

text \<open>
  The template is read as literal characters and escapes.  An escape is
  \<open>%\<close>, an optional \<open>L\<close>, one digit and a second digit if there is one, so it
  carries a number from 0 to 99.  A \<open>%\<close> that is not followed by a digit
  (after the optional \<open>L\<close>) is a literal, and the scan goes on at the next
  character, as in \<open>findArgEscapes\<close> of \<open>qstring.cpp\<close>.  Digits are the ASCII
  ones (\<open>digit_val\<close>).
\<close>

datatype arg_tok = ALit char | AEsc nat string

definition arg_escape :: "string \<Rightarrow> (nat \<times> nat) option" where
  "arg_escape cs =
     (let k = (if cs \<noteq> [] \<and> hd cs = CHR ''L'' then 1 else 0) in
      case drop k cs of
        [] \<Rightarrow> None
      | d # r \<Rightarrow> (case digit_val d of
          None \<Rightarrow> None
        | Some v \<Rightarrow> (case r of
            [] \<Rightarrow> Some (v, k + 1)
          | e # _ \<Rightarrow> (case digit_val e of
              None \<Rightarrow> Some (v, k + 1)
            | Some w \<Rightarrow> Some (10 * v + w, k + 2)))))"

function arg_scan :: "string \<Rightarrow> arg_tok list" where
  "arg_scan [] = []"
| "arg_scan (c # cs) =
     (if c = CHR ''%'' then
        (case arg_escape cs of
           None \<Rightarrow> ALit c # arg_scan cs
         | Some (n, l) \<Rightarrow> AEsc n (c # take l cs) # arg_scan (drop l cs))
      else ALit c # arg_scan cs)"
  by pat_completeness auto
termination by (relation "measure length") auto

primrec arg_raw :: "arg_tok \<Rightarrow> string" where
  "arg_raw (ALit c) = [c]"
| "arg_raw (AEsc n raw) = raw"

primrec arg_num :: "arg_tok \<Rightarrow> nat list" where
  "arg_num (ALit c) = []"
| "arg_num (AEsc n raw) = [n]"

primrec arg_subst :: "nat \<Rightarrow> string \<Rightarrow> arg_tok \<Rightarrow> string" where
  "arg_subst m a (ALit c) = [c]"
| "arg_subst m a (AEsc n raw) = (if n = m then a else raw)"

text \<open>
  \<open>QString::arg(const QString &a)\<close>: every escape with the lowest number is
  replaced by \<open>a\<close>; the replacement text is not scanned again.  A template
  without escapes is returned unchanged (Qt prints a warning).  The
  \<open>arg(int)\<close> overloads format the number first; the templates of the
  program use no \<open>%L\<close> escape, so the locale's digit grouping never applies.
\<close>

definition qt_arg :: "string \<Rightarrow> string \<Rightarrow> string" where
  "qt_arg s a =
     (let ts = arg_scan s; ns = concat (map arg_num ts) in
      if ns = [] then s else concat (map (arg_subst (min_list ns) a) ts))"

subsection \<open>The environment of the views\<close>

text \<open>
  \<open>env_now\<close> is \<open>QDateTime::currentDateTime()\<close> in milliseconds since the
  epoch, the unit of the items' timestamps.  \<open>env_date_text\<close> is
  \<open>QDateTime::toString("MMM dd, hh:mm")\<close> of a timestamp: it depends on the
  time zone and the locale of the machine, so the model takes it from the
  environment.
\<close>

record qt_env =
  env_now :: int
  env_date_text :: "int \<Rightarrow> string"

declare c_div_def [model_defs] arg_escape_def [model_defs] qt_arg_def [model_defs]

subsection \<open>Lemmas\<close>

lemma c_div_nonneg [simp]: "0 \<le> a \<Longrightarrow> c_div a b = a div b"
  by (simp add: c_div_def)

lemma arg_scan_raw: "concat (map arg_raw (arg_scan s)) = s"
  by (induction s rule: arg_scan.induct) (auto split: option.splits)

lemma arg_scan_no_pct:
  "CHR ''%'' \<notin> set a \<Longrightarrow> arg_scan (a @ b) = map ALit a @ arg_scan b"
  by (induction a) auto

lemma qt_arg_no_escape:
  "concat (map arg_num (arg_scan s)) = [] \<Longrightarrow> qt_arg s a = s"
  by (simp add: qt_arg_def)

lemma qt_arg_no_pct: "CHR ''%'' \<notin> set s \<Longrightarrow> qt_arg s a = s"
  using arg_scan_no_pct [of s "[]"] by (simp add: qt_arg_no_escape)

lemma arg_escape_digit:
  "digit_val d = Some v \<Longrightarrow> d \<noteq> CHR ''L'' \<Longrightarrow> (r = [] \<or> digit_val (hd r) = None) \<Longrightarrow>
   arg_escape (d # r) = Some (v, 1)"
  by (cases r) (auto simp: arg_escape_def)

lemma digit_val_pct [simp]: "digit_val CHR ''%'' = None"
  by (simp add: digit_val_def)

lemma digit_val_1 [simp]: "digit_val CHR ''1'' = Some 1"
  by (simp add: digit_val_def)

lemma digit_val_2 [simp]: "digit_val CHR ''2'' = Some 2"
  by (simp add: digit_val_def)

text \<open>The scan of a two-escape template \<open>%1 m %2 s\<close>.\<close>

lemma arg_scan_two:
  assumes "CHR ''%'' \<notin> set m" "CHR ''%'' \<notin> set s" "m \<noteq> []" "digit_val (hd m) = None"
    "s = [] \<or> digit_val (hd s) = None"
  shows "arg_scan (''%1'' @ m @ ''%2'' @ s) =
         AEsc 1 ''%1'' # map ALit m @ AEsc 2 ''%2'' # map ALit s"
proof -
  have e1: "arg_escape (CHR ''1'' # m @ ''%2'' @ s) = Some (1, 1)"
    using assms(3,4) by (intro arg_escape_digit) (auto simp: hd_append)
  have e2: "arg_escape (CHR ''2'' # s) = Some (2, 1)"
    using assms(5) by (intro arg_escape_digit) auto
  have "arg_scan (CHR ''%'' # CHR ''2'' # s) = AEsc 2 ''%2'' # map ALit s"
    using e2 arg_scan_no_pct [of s "[]"] assms(2) by simp
  then show ?thesis
    using e1 arg_scan_no_pct [of m "''%2'' @ s"] assms(1) by simp
qed

lemma arg_subst_comp_ALit [simp]: "arg_subst n a \<circ> ALit = (\<lambda>c. [c])"
  by auto

lemma arg_num_comp_ALit [simp]: "arg_num \<circ> ALit = (\<lambda>c. [])"
  by auto

lemma concat_map_Nil [simp]: "concat (map (\<lambda>c. []) xs) = []"
  by (induction xs) auto

text \<open>\<open>QString(p %1 q).arg(a)\<close>\<close>

lemma qt_arg_one:
  assumes "CHR ''%'' \<notin> set p" "CHR ''%'' \<notin> set q" "q = [] \<or> digit_val (hd q) = None"
  shows "qt_arg (p @ ''%1'' @ q) a = p @ a @ q"
proof -
  have "arg_escape (CHR ''1'' # q) = Some (1, 1)"
    using assms(3) by (intro arg_escape_digit) auto
  then have "arg_scan (''%1'' @ q) = AEsc 1 ''%1'' # map ALit q"
    using arg_scan_no_pct [of q "[]"] assms(2) by simp
  then have "arg_scan (p @ ''%1'' @ q) = map ALit p @ AEsc 1 ''%1'' # map ALit q"
    using arg_scan_no_pct [of p "''%1'' @ q"] assms(1) by simp
  then show ?thesis unfolding qt_arg_def by simp
qed

text \<open>\<open>QString(%1 m %2 s).arg(a)\<close>: the argument, whatever it holds, replaces
  \<open>%1\<close> and is not scanned again.\<close>

lemma qt_arg_first:
  assumes "CHR ''%'' \<notin> set m" "CHR ''%'' \<notin> set s" "m \<noteq> []" "digit_val (hd m) = None"
    "s = [] \<or> digit_val (hd s) = None"
  shows "qt_arg (''%1'' @ m @ ''%2'' @ s) a = a @ m @ ''%2'' @ s"
proof -
  have "arg_scan (''%1'' @ m @ ''%2'' @ s) = AEsc 1 ''%1'' # map ALit m @ AEsc 2 ''%2'' # map ALit s"
    using assms by (rule arg_scan_two)
  then show ?thesis unfolding qt_arg_def by simp
qed

text \<open>
  \<open>QString(t).arg(a).arg(b)\<close> for a template \<open>%1 m %2 s\<close>: when the first
  argument has no \<open>%\<close>, each argument lands at its escape.
\<close>

lemma qt_arg_arg:
  assumes "CHR ''%'' \<notin> set a" "CHR ''%'' \<notin> set m" "CHR ''%'' \<notin> set s" "m \<noteq> []"
    "digit_val (hd m) = None" "s = [] \<or> digit_val (hd s) = None"
  shows "qt_arg (qt_arg (''%1'' @ m @ ''%2'' @ s) a) b = a @ m @ b @ s"
proof -
  have first: "qt_arg (''%1'' @ m @ ''%2'' @ s) a = a @ m @ ''%2'' @ s"
    using assms(2-6) by (rule qt_arg_first)
  have sc2: "arg_scan (a @ m @ ''%2'' @ s) = map ALit (a @ m) @ AEsc 2 ''%2'' # map ALit s"
  proof -
    have e2: "arg_escape (CHR ''2'' # s) = Some (2, 1)"
      using assms(6) by (intro arg_escape_digit) auto
    then have "arg_scan (''%2'' @ s) = AEsc 2 ''%2'' # map ALit s"
      using arg_scan_no_pct [of s "[]"] assms(3) by simp
    then show ?thesis using arg_scan_no_pct [of "a @ m" "''%2'' @ s"] assms(1,2) by simp
  qed
  have "qt_arg (a @ m @ ''%2'' @ s) b = a @ m @ b @ s"
    unfolding qt_arg_def sc2 by simp
  then show ?thesis by (simp only: first)
qed

end
