(* ===== verification/ViewModel.thy ===== *)
theory ViewModel
  imports ClipboardItem QtFormat
begin

text \<open>
  What the two list views share: \<open>ClipboardItem::formattedTimestamp\<close>, the
  rows of a \<open>QListWidget\<close> as the views fill them, the integer values of the
  \<open>ItemType\<close> enumeration that the filter combo box stores, and the commands
  a view hands to the rest of the program (a write to the system clipboard, a
  call of the manager, hiding the popup).  The views never change the manager
  themselves; the composition in \<open>SystemTray\<close> runs their commands.
\<close>

subsection \<open>\<open>ClipboardItem::formattedTimestamp\<close>\<close>

text \<open>
  \<open>QDateTime::secsTo\<close> is the difference in milliseconds divided by 1000 in
  C++ integer division.
\<close>

definition formattedTimestamp :: "qt_env \<Rightarrow> clip_item \<Rightarrow> string" where
  "formattedTimestamp env it =
     (let secondsAgo = c_div (env_now env - ci_timestamp it) 1000 in
      if secondsAgo < 60 then ''Just now''
      else if secondsAgo < 3600 then
        (let minutes = nat (secondsAgo div 60) in
         qt_arg (qt_arg ''%1 minute%2 ago'' (qt_number minutes)) (if minutes = 1 then [] else ''s''))
      else if secondsAgo < 86400 then
        (let hours = nat (secondsAgo div 3600) in
         qt_arg (qt_arg ''%1 hour%2 ago'' (qt_number hours)) (if hours = 1 then [] else ''s''))
      else env_date_text env (ci_timestamp it))"

subsection \<open>Rows of a list widget\<close>

text \<open>
  A \<open>QListWidgetItem\<close> as the views build it: its text, icon, the value
  stored under \<open>Qt::UserRole\<close> (\<open>None\<close> when nothing was stored, an invalid
  \<open>QVariant\<close>), its tool tip, and whether it is enabled (the placeholder row
  gets \<open>Qt::NoItemFlags\<close>).
\<close>

record list_row =
  row_text :: string
  row_icon :: "std_icon option"
  row_data :: "int option"
  row_tooltip :: string
  row_enabled :: bool

text \<open>\<open>QVariant::toInt\<close>: 0 for an invalid variant.\<close>

definition variant_toInt :: "int option \<Rightarrow> int" where
  "variant_toInt v = (case v of None \<Rightarrow> 0 | Some i \<Rightarrow> i)"

text \<open>The disabled, centred row a view shows when it has no item to list.\<close>

definition placeholder_row :: "string \<Rightarrow> list_row" where
  "placeholder_row t =
     \<lparr>row_text = t, row_icon = None, row_data = None, row_tooltip = [], row_enabled = False\<rparr>"

text \<open>
  The subtitle separator \<open>" \<bullet> "\<close> of the views.  Its middle character,
  U+2022, lies outside the 8-bit characters of the model; it is written as
  \<open>0x95\<close>, the bullet of Windows-1252.  The lemmas use only that it is neither
  \<open>%\<close> nor a digit.
\<close>

definition bullet_sep :: string where
  "bullet_sep = [CHR '' '', CHR 0x95, CHR '' '']"

text \<open>\<open>static_cast<int>\<close> of \<open>ClipboardItem::ItemType\<close> (declaration order).\<close>

primrec item_type_int :: "item_type \<Rightarrow> int" where
  "item_type_int Text = 0"
| "item_type_int Image = 1"
| "item_type_int Html = 2"
| "item_type_int Url = 3"
| "item_type_int File = 4"
| "item_type_int Code = 5"

subsection \<open>Commands of the views\<close>

text \<open>
  The effects of the views' slots on the rest of the program, in the order
  the slot performs them: \<open>ClipboardItem::copyToClipboard\<close> (the snapshot
  written), \<open>ClipboardManager::removeItem\<close>, \<open>ClipboardManager::clearHistory\<close>,
  \<open>TrayPopupWidget::hide\<close> and the popup's \<open>openMainWindow\<close> signal.
\<close>

text \<open>
  A modal \<open>QMessageBox\<close> the program shows, with its title and text:
  \<open>information\<close>, \<open>question\<close>, \<open>critical\<close> or \<open>about\<close>.  The answer to a
  question is an input of the slot that asks it.
\<close>

datatype msg_box =
    MsgInformation string string
  | MsgQuestion string string
  | MsgCritical string string
  | MsgAbout string string

datatype ui_cmd =
    WriteClipboard mime_data
  | CallRemoveItem int
  | CallClearHistory
  | HidePopup
  | EmitOpenMainWindow
  | ShowMessage msg_box

text \<open>The context menu of the history widget: which action the user picked.\<close>

datatype menu_choice = MenuCopy | MenuRemove | MenuDismissed

text \<open>The message boxes a list of commands shows, in order.\<close>

fun ui_messages :: "ui_cmd list \<Rightarrow> msg_box list" where
  "ui_messages [] = []"
| "ui_messages (ShowMessage m # cs) = m # ui_messages cs"
| "ui_messages (_ # cs) = ui_messages cs"

declare formattedTimestamp_def [model_defs] variant_toInt_def [model_defs]
  placeholder_row_def [model_defs] bullet_sep_def [model_defs]

subsection \<open>Lemmas\<close>

lemma notin_qt_number:
  assumes "\<not> (48 \<le> (of_char c :: nat) \<and> (of_char c :: nat) \<le> 57)"
  shows "c \<notin> set (qt_number n)"
proof
  assume "c \<in> set (qt_number n)"
  then obtain d where "d < 10" and "c = digit_char d" using qt_number_digits by blast
  with assms show False by (simp add: digit_char_def of_char_of)
qed

lemma pct_notin_qt_number [simp]: "CHR ''%'' \<notin> set (qt_number n)"
  by (rule notin_qt_number) simp

lemma digit_val_blank [simp]: "digit_val CHR '' '' = None"
  by (simp add: digit_val_def)

lemma variant_toInt_Some [simp]: "variant_toInt (Some i) = i"
  by (simp add: variant_toInt_def)

lemma variant_toInt_None [simp]: "variant_toInt None = 0"
  by (simp add: variant_toInt_def)

text \<open>The relative branches of \<open>formattedTimestamp\<close> read as intended.\<close>

lemma qt_arg_count_suffix:
  assumes "CHR ''%'' \<notin> set m" "m \<noteq> []" "digit_val (hd m) = None"
  shows "qt_arg (qt_arg (''%1'' @ m @ ''%2'' @ '' ago'') (qt_number k)) (if k = 1 then [] else ''s'') =
         qt_number k @ m @ (if k = 1 then [] else ''s'') @ '' ago''"
  using assms by (intro qt_arg_arg) auto

end
