(* ===== verification/ClipboardManager.thy ===== *)
theory ClipboardManager
  imports ClipboardItem
begin

text \<open>
  Model of \<open>src/src/ClipboardManager.{h,cpp}\<close>: the history store.  The
  object's fields are a record; every slot and public method is a function
  from the state to the new state and the list of signals it emits, in
  emission order.  The clipboard snapshot read by \<open>onClipboardChanged\<close>
  (\<open>m_clipboard->mimeData()\<close>, possibly a null pointer) and the current time
  are parameters.  The loop \<open>while (size > max) removeLast()\<close> is a
  terminating function whose \<open>removeLast\<close> on an empty list (undefined
  behaviour in Qt, reachable only with a negative bound) is an error value.
\<close>

subsection \<open>State, signals, senders\<close>

record clip_manager =
  cm_history :: "clip_item list"
  cm_maxHistorySize :: int
  cm_timerActive :: bool
  cm_lastClipboardText :: string

datatype cm_signal = HistoryChanged | NewItemAdded clip_item

text \<open>What \<open>sender()\<close> returns inside \<open>onClipboardChanged\<close>.\<close>

datatype sender = NoSender | ClipboardSender | TimerSender

datatype cm_error = RemoveLastOnEmpty

type_synonym cm_result = "cm_error + clip_manager \<times> cm_signal list"

subsection \<open>Operations\<close>

text \<open>\<open>while (m_history.size() > m_maxHistorySize) m_history.removeLast();\<close>\<close>

function trimHistory :: "int \<Rightarrow> 'a list \<Rightarrow> cm_error + 'a list" where
  "trimHistory m h =
     (if int (length h) > m then
        (if h = [] then Inl RemoveLastOnEmpty else trimHistory m (butlast h))
      else Inr h)"
  by pat_completeness auto
termination
  by (relation "measure (\<lambda>(m, h). length h)") auto

declare trimHistory.simps [simp del]

text \<open>The constructor: \<open>m_maxHistorySize(100)\<close>, a stopped single-shot timer.\<close>

definition cm_init :: clip_manager where
  "cm_init = \<lparr>cm_history = [], cm_maxHistorySize = 100, cm_timerActive = False,
              cm_lastClipboardText = []\<rparr>"

text \<open>\<open>ClipboardManager::clearHistory\<close>\<close>

definition clearHistory :: "clip_manager \<Rightarrow> clip_manager \<times> cm_signal list" where
  "clearHistory s = (s\<lparr>cm_history := []\<rparr>, [HistoryChanged])"

text \<open>\<open>ClipboardManager::removeItem\<close>\<close>

definition removeItem :: "int \<Rightarrow> clip_manager \<Rightarrow> clip_manager \<times> cm_signal list" where
  "removeItem index s =
     (if index \<ge> 0 \<and> index < int (length (cm_history s))
      then (s\<lparr>cm_history := qlist_removeAt (nat index) (cm_history s)\<rparr>, [HistoryChanged])
      else (s, []))"

text \<open>\<open>ClipboardManager::setMaxHistorySize\<close> (its parameter \<open>size\<close> is \<open>sz\<close>
  here): the signal test compares the final length with the requested size.\<close>

definition setMaxHistorySize :: "int \<Rightarrow> clip_manager \<Rightarrow> cm_result" where
  "setMaxHistorySize sz s =
     (let s1 = s\<lparr>cm_maxHistorySize := max 1 sz\<rparr> in
      case trimHistory (cm_maxHistorySize s1) (cm_history s1) of
        Inl e \<Rightarrow> Inl e
      | Inr h \<Rightarrow> Inr (s1\<lparr>cm_history := h\<rparr>, if int (length h) < sz then [HistoryChanged] else []))"

text \<open>\<open>ClipboardManager::search\<close>\<close>

definition search_match :: "string \<Rightarrow> clip_item \<Rightarrow> bool" where
  "search_match lowerQuery item =
     (qt_contains (qt_toLower (ci_text item)) lowerQuery \<or>
      qt_contains (qt_toLower (ci_preview item)) lowerQuery \<or>
      qt_contains (qt_toLower (typeString (ci_type item))) lowerQuery)"

definition search :: "string \<Rightarrow> clip_manager \<Rightarrow> clip_item list" where
  "search query s =
     (if query = [] then cm_history s
      else filter (search_match (qt_toLower query)) (cm_history s))"

text \<open>\<open>ClipboardManager::itemCount\<close>\<close>

definition itemCount :: "clip_manager \<Rightarrow> nat" where
  "itemCount s = length (cm_history s)"

text \<open>\<open>ClipboardManager::isDuplicate\<close>: the newest entry only.\<close>

definition isDuplicate :: "clip_item \<Rightarrow> clip_manager \<Rightarrow> bool" where
  "isDuplicate item s = (case cm_history s of [] \<Rightarrow> False | x # _ \<Rightarrow> item_eq x item)"

text \<open>The loop of \<open>addItem\<close> that removes the first entry equal to the item.\<close>

fun removeFirstEqual :: "clip_item \<Rightarrow> clip_item list \<Rightarrow> clip_item list" where
  "removeFirstEqual item [] = []"
| "removeFirstEqual item (x # xs) = (if item_eq x item then xs else x # removeFirstEqual item xs)"

text \<open>\<open>ClipboardManager::addItem\<close>\<close>

definition addItem :: "clip_item \<Rightarrow> clip_manager \<Rightarrow> cm_result" where
  "addItem item s =
     (let h = item # removeFirstEqual item (cm_history s) in
      case trimHistory (cm_maxHistorySize s) h of
        Inl e \<Rightarrow> Inl e
      | Inr h' \<Rightarrow> Inr (s\<lparr>cm_history := h'\<rparr>, [NewItemAdded item, HistoryChanged]))"

text \<open>\<open>ClipboardManager::onClipboardChanged\<close>\<close>

definition onClipboardChanged ::
  "sender \<Rightarrow> mime_data option \<Rightarrow> int \<Rightarrow> clip_manager \<Rightarrow> cm_result" where
  "onClipboardChanged sndr clip now s =
     (case clip of
        None \<Rightarrow> Inr (s, [])
      | Some md \<Rightarrow>
          if sndr = ClipboardSender \<and> cm_timerActive s then Inr (s, [])
          else
            (let newItem = ClipboardItem_mime md now in
             if ci_text newItem = [] \<or> isDuplicate newItem s then Inr (s, [])
             else addItem newItem s))"

text \<open>\<open>ClipboardManager::ClipboardManager\<close>: the constructor ends with a call
  of the slot, outside any signal.\<close>

definition ClipboardManager_new :: "mime_data option \<Rightarrow> int \<Rightarrow> cm_result" where
  "ClipboardManager_new clip now = onClipboardChanged NoSender clip now cm_init"

text \<open>
  The timer's \<open>timeout\<close> is connected to the slot; a single-shot timer is
  inactive when its timeout is delivered.  No code starts the timer.
\<close>

definition timerTimeout :: "mime_data option \<Rightarrow> int \<Rightarrow> clip_manager \<Rightarrow> cm_result" where
  "timerTimeout clip now s =
     (if cm_timerActive s then onClipboardChanged TimerSender clip now (s\<lparr>cm_timerActive := False\<rparr>)
      else Inr (s, []))"

subsection \<open>The manager as a state machine\<close>

text \<open>
  The events that reach the manager: the clipboard's \<open>dataChanged\<close> (with the
  snapshot read and the time), the timer's \<open>timeout\<close>, and the three public
  mutators.
\<close>

datatype cm_event =
    ClipboardChanged "mime_data option" int
  | TimerFired "mime_data option" int
  | ClearHistory
  | RemoveItem int
  | SetMaxHistorySize int

fun cm_step :: "cm_event \<Rightarrow> clip_manager \<Rightarrow> cm_result" where
  "cm_step (ClipboardChanged clip now) s = onClipboardChanged ClipboardSender clip now s"
| "cm_step (TimerFired clip now) s = timerTimeout clip now s"
| "cm_step ClearHistory s = Inr (clearHistory s)"
| "cm_step (RemoveItem i) s = Inr (removeItem i s)"
| "cm_step (SetMaxHistorySize n) s = setMaxHistorySize n s"

inductive cm_reachable :: "clip_manager \<Rightarrow> bool" where
  init: "ClipboardManager_new clip now = Inr (s, sigs) \<Longrightarrow> cm_reachable s"
| step: "cm_reachable s \<Longrightarrow> cm_step e s = Inr (s', sigs) \<Longrightarrow> cm_reachable s'"

text \<open>
  The invariant: the bound is at least one and is respected, no two entries
  share an equality key, the timer is stopped, and every entry is a
  well-formed item with non-empty text.
\<close>

definition cm_inv :: "clip_manager \<Rightarrow> bool" where
  "cm_inv s =
     (1 \<le> cm_maxHistorySize s \<and> int (length (cm_history s)) \<le> cm_maxHistorySize s \<and>
      distinct_on item_key (cm_history s) \<and> \<not> cm_timerActive s \<and>
      list_all (\<lambda>it. item_wf it \<and> ci_text it \<noteq> []) (cm_history s))"

text \<open>
  The abstract history the store promises: a bounded, most-recent-first list
  without two entries of the same key; inserting moves an entry to the front.
\<close>

definition mru_insert :: "nat \<Rightarrow> ('a \<Rightarrow> 'k) \<Rightarrow> 'a \<Rightarrow> 'a list \<Rightarrow> 'a list" where
  "mru_insert cap key x xs = take cap (x # filter (\<lambda>y. key y \<noteq> key x) xs)"

text \<open>
  What \<open>onClipboardChanged\<close> promises for the history: nothing without a
  snapshot, nothing for an empty text or a repeat of the newest entry,
  otherwise the most-recent-first insertion within the bound.
\<close>

definition ingest_spec :: "nat \<Rightarrow> clip_item option \<Rightarrow> clip_item list \<Rightarrow> clip_item list" where
  "ingest_spec cap x h =
     (case x of
        None \<Rightarrow> h
      | Some it \<Rightarrow>
          if ci_text it = [] \<or> (h \<noteq> [] \<and> item_key (hd h) = item_key it) then h
          else mru_insert cap item_key it h)"

text \<open>A run of events from a state, the signals concatenated; the first error stops it.\<close>

fun cm_run :: "cm_event list \<Rightarrow> clip_manager \<Rightarrow> cm_result" where
  "cm_run [] s = Inr (s, [])"
| "cm_run (e # es) s =
     (case cm_step e s of
        Inl err \<Rightarrow> Inl err
      | Inr (s1, sg1) \<Rightarrow> (case cm_run es s1 of Inl err \<Rightarrow> Inl err | Inr (s2, sg2) \<Rightarrow> Inr (s2, sg1 @ sg2)))"

definition copied :: "string \<Rightarrow> int \<Rightarrow> cm_event" where
  "copied t now = ClipboardChanged (Some (clipboard_setText t)) now"

text \<open>Sample items and states used by the witnesses below.\<close>

definition sample_item :: "string \<Rightarrow> int \<Rightarrow> clip_item" where
  "sample_item t now = ClipboardItem_mime (clipboard_setText t) now"

definition sample_state :: clip_manager where
  "sample_state = cm_init\<lparr>cm_history := [sample_item ''beta'' 2, sample_item ''alpha'' 1]\<rparr>"

declare cm_init_def [model_defs] clearHistory_def [model_defs] removeItem_def [model_defs]
  setMaxHistorySize_def [model_defs] search_match_def [model_defs] search_def [model_defs]
  itemCount_def [model_defs] isDuplicate_def [model_defs] addItem_def [model_defs]
  onClipboardChanged_def [model_defs] ClipboardManager_new_def [model_defs]
  timerTimeout_def [model_defs] mru_insert_def [model_defs] ingest_spec_def [model_defs]
  copied_def [model_defs] sample_item_def [model_defs] sample_state_def [model_defs]

subsection \<open>Lemmas\<close>

lemma trimHistory_take: "0 \<le> m \<Longrightarrow> trimHistory m h = Inr (take (nat m) h)"
proof (induction m h rule: trimHistory.induct)
  case (1 m h)
  show ?case
  proof (cases "int (length h) > m")
    case True
    with "1.prems" have "h \<noteq> []" by auto
    with True "1.IH" "1.prems" have "trimHistory m (butlast h) = Inr (take (nat m) (butlast h))"
      by simp
    moreover have "take (nat m) (butlast h) = take (nat m) h"
      using True by (simp add: butlast_conv_take min_def)
    ultimately show ?thesis using True \<open>h \<noteq> []\<close> by (simp add: trimHistory.simps [of m h])
  next
    case False
    then show ?thesis by (simp add: trimHistory.simps [of m h])
  qed
qed

lemma trimHistory_negative: "m < 0 \<Longrightarrow> trimHistory m h = Inl RemoveLastOnEmpty"
proof (induction m h rule: trimHistory.induct)
  case (1 m h)
  then show ?case by (subst trimHistory.simps) simp
qed

lemma removeFirstEqual_filter:
  "distinct_on item_key h \<Longrightarrow>
   removeFirstEqual item h = filter (\<lambda>y. item_key y \<noteq> item_key item) h"
proof (induction h)
  case (Cons x xs)
  show ?case
  proof (cases "item_eq x item")
    case True
    with Cons.prems have "item_key item \<notin> item_key ` set xs"
      by (simp add: item_eq_key)
    then have "filter (\<lambda>y. item_key y \<noteq> item_key item) xs = xs"
      by (auto simp: filter_id_conv) (metis imageI)
    with True show ?thesis by (simp add: item_eq_key)
  next
    case False
    with Cons show ?thesis by (simp add: item_eq_key)
  qed
qed simp

lemma length_mru_insert: "length (mru_insert cap key x xs) \<le> cap"
  by (simp add: mru_insert_def)

lemma distinct_mru_insert: "distinct_on key xs \<Longrightarrow> distinct_on key (mru_insert cap key x xs)"
proof -
  assume d: "distinct_on key xs"
  have "distinct_on key (x # filter (\<lambda>y. key y \<noteq> key x) xs)"
    using d by (auto dest: distinct_on_filter [of key _ "\<lambda>y. key y \<noteq> key x"])
  then show ?thesis unfolding mru_insert_def by (rule distinct_on_take)
qed

lemma set_mru_insert: "set (mru_insert cap key x xs) \<subseteq> insert x (set xs)"
  by (auto simp: mru_insert_def dest: in_set_takeD)

lemma hd_mru_insert: "0 < cap \<Longrightarrow> mru_insert cap key x xs = x # take (cap - 1) (filter (\<lambda>y. key y \<noteq> key x) xs)"
  by (cases cap) (simp_all add: mru_insert_def)

lemma cm_inv_max_nonneg: "cm_inv s \<Longrightarrow> 0 \<le> cm_maxHistorySize s"
  by (simp add: cm_inv_def)

lemma addItem_mru:
  assumes "cm_inv s"
  shows "addItem item s =
         Inr (s\<lparr>cm_history := mru_insert (nat (cm_maxHistorySize s)) item_key item (cm_history s)\<rparr>,
              [NewItemAdded item, HistoryChanged])"
proof -
  have d: "distinct_on item_key (cm_history s)" using assms by (simp add: cm_inv_def)
  show ?thesis
    by (simp add: addItem_def removeFirstEqual_filter [OF d] mru_insert_def
        trimHistory_take [OF cm_inv_max_nonneg [OF assms]])
qed

lemma list_all_mru_insert:
  "P x \<Longrightarrow> list_all P xs \<Longrightarrow> list_all P (mru_insert cap key x xs)"
  using set_mru_insert [of cap key x xs] by (auto simp: list_all_iff)

lemma cm_inv_addItem:
  assumes "cm_inv s" and "item_wf item" and "ci_text item \<noteq> []"
    and "addItem item s = Inr (s', sigs)"
  shows "cm_inv s'"
proof -
  have s': "s' = s\<lparr>cm_history := mru_insert (nat (cm_maxHistorySize s)) item_key item (cm_history s)\<rparr>"
    using assms(4) addItem_mru [OF assms(1)] by simp
  have "int (length (mru_insert (nat (cm_maxHistorySize s)) item_key item (cm_history s))) \<le> cm_maxHistorySize s"
    using length_mru_insert [of "nat (cm_maxHistorySize s)" item_key item "cm_history s"]
      cm_inv_max_nonneg [OF assms(1)] by linarith
  with assms(1-3) show ?thesis
    by (simp add: s' cm_inv_def distinct_mru_insert list_all_mru_insert)
qed

lemma cm_inv_timer: "cm_inv s \<Longrightarrow> \<not> cm_timerActive s"
  by (simp add: cm_inv_def)

lemma onClipboardChanged_inv_eq:
  assumes "cm_inv s"
  shows "onClipboardChanged sndr clip now s =
    (case clip of
       None \<Rightarrow> Inr (s, [])
     | Some md \<Rightarrow>
         (let it = ClipboardItem_mime md now in
          if ci_text it = [] \<or> isDuplicate it s then Inr (s, [])
          else Inr (s\<lparr>cm_history := mru_insert (nat (cm_maxHistorySize s)) item_key it (cm_history s)\<rparr>,
                    [NewItemAdded it, HistoryChanged])))"
  using cm_inv_timer [OF assms]
  by (simp add: onClipboardChanged_def addItem_mru [OF assms] Let_def split: option.splits)

lemma cm_inv_onClipboardChanged [inv_preserved]:
  assumes "cm_inv s" and "onClipboardChanged sndr clip now s = Inr (s', sigs)"
  shows "cm_inv s'"
proof (cases clip)
  case None
  with assms show ?thesis by (simp add: onClipboardChanged_def)
next
  case (Some md)
  let ?it = "ClipboardItem_mime md now"
  show ?thesis
  proof (cases "ci_text ?it = [] \<or> isDuplicate ?it s")
    case True
    with assms Some show ?thesis by (simp add: onClipboardChanged_inv_eq [OF assms(1)])
  next
    case False
    with assms(2) Some cm_inv_timer [OF assms(1)] have "addItem ?it s = Inr (s', sigs)"
      by (simp add: onClipboardChanged_def)
    with assms(1) False show ?thesis
      using cm_inv_addItem item_wf_ClipboardItem_mime by blast
  qed
qed

lemma cm_inv_clearHistory [inv_preserved]: "cm_inv s \<Longrightarrow> cm_inv (fst (clearHistory s))"
  by (simp add: cm_inv_def clearHistory_def)

lemma cm_inv_removeItem [inv_preserved]: "cm_inv s \<Longrightarrow> cm_inv (fst (removeItem i s))"
  using set_qlist_removeAt [of "nat i" "cm_history s"]
  by (auto simp: cm_inv_def removeItem_def list_all_iff)

lemma setMaxHistorySize_eq:
  "setMaxHistorySize sz s =
   Inr (s\<lparr>cm_maxHistorySize := max 1 sz, cm_history := take (nat (max 1 sz)) (cm_history s)\<rparr>,
        if int (length (take (nat (max 1 sz)) (cm_history s))) < sz then [HistoryChanged] else [])"
  by (simp add: setMaxHistorySize_def trimHistory_take)

lemma cm_inv_setMaxHistorySize [inv_preserved]:
  assumes "cm_inv s" and "setMaxHistorySize sz s = Inr (s', sigs)"
  shows "cm_inv s'"
proof -
  have s': "s' = s\<lparr>cm_maxHistorySize := max 1 sz, cm_history := take (nat (max 1 sz)) (cm_history s)\<rparr>"
    using assms(2) by (simp add: setMaxHistorySize_eq)
  have "int (length (take (nat (max 1 sz)) (cm_history s))) \<le> max 1 sz" by simp
  with assms(1) show ?thesis
    by (auto simp: s' cm_inv_def list_all_iff dest: in_set_takeD)
qed

lemma timerTimeout_inv: "cm_inv s \<Longrightarrow> timerTimeout clip now s = Inr (s, [])"
  by (simp add: timerTimeout_def cm_inv_timer)

lemma cm_inv_cm_step [inv_preserved]:
  assumes inv: "cm_inv s" and st: "cm_step e s = Inr (s', sigs)"
  shows "cm_inv s'"
proof (cases e)
  case (ClipboardChanged clip now)
  with assms show ?thesis using cm_inv_onClipboardChanged by simp
next
  case (TimerFired clip now)
  with assms show ?thesis by (simp add: timerTimeout_inv)
next
  case ClearHistory
  with st have "s' = fst (clearHistory s)" by simp
  with inv show ?thesis by (simp add: cm_inv_clearHistory)
next
  case (RemoveItem i)
  with st have "s' = fst (removeItem i s)" by simp
  with inv show ?thesis by (simp add: cm_inv_removeItem)
next
  case (SetMaxHistorySize n)
  with assms show ?thesis using cm_inv_setMaxHistorySize by simp
qed

lemma cm_inv_init: "cm_inv cm_init"
  by (simp add: cm_inv_def cm_init_def)

lemma cm_inv_ClipboardManager_new:
  "ClipboardManager_new clip now = Inr (s, sigs) \<Longrightarrow> cm_inv s"
  unfolding ClipboardManager_new_def using cm_inv_init by (rule cm_inv_onClipboardChanged)

lemma cm_reachable_inv: "cm_reachable s \<Longrightarrow> cm_inv s"
proof (induction rule: cm_reachable.induct)
  case (init clip now s sigs)
  then show ?case by (rule cm_inv_ClipboardManager_new)
next
  case (step s e s' sigs)
  then show ?case using cm_inv_cm_step by blast
qed

lemma cm_step_no_error: "cm_inv s \<Longrightarrow> \<exists>s' sigs. cm_step e s = Inr (s', sigs)"
  by (cases e) (auto simp: onClipboardChanged_inv_eq timerTimeout_inv setMaxHistorySize_eq
      Let_def split: option.splits)

lemma search_empty: "search [] s = cm_history s"
  by (simp add: search_def)

lemma removeItem_in_range:
  "0 \<le> i \<Longrightarrow> i < int (length (cm_history s)) \<Longrightarrow>
   removeItem i s = (s\<lparr>cm_history := qlist_removeAt (nat i) (cm_history s)\<rparr>, [HistoryChanged])"
  by (simp add: removeItem_def)

lemma isDuplicate_hd:
  "isDuplicate it s \<longleftrightarrow> cm_history s \<noteq> [] \<and> item_key (hd (cm_history s)) = item_key it"
  by (auto simp: isDuplicate_def item_eq_key split: list.splits)

lemma reachable_sample:
  "cm_reachable (cm_init\<lparr>cm_history := [sample_item ''hello'' 0]\<rparr>)"
proof (rule cm_reachable.init)
  show "ClipboardManager_new (Some (clipboard_setText ''hello'')) 0 =
        Inr (cm_init\<lparr>cm_history := [sample_item ''hello'' 0]\<rparr>,
             [NewItemAdded (sample_item ''hello'' 0), HistoryChanged])"
    by code_simp
qed

lemma cm_inv_sample_state: "cm_inv sample_state"
  by code_simp

lemma onClipboardChanged_promote_keys:
  assumes inv: "cm_inv s"
    and present: "item_key (ClipboardItem_mime md now) \<in> set (map item_key (cm_history s))"
    and run: "onClipboardChanged sndr (Some md) now s = Inr (s', sigs)"
  shows "map item_key (cm_history s') =
         item_key (ClipboardItem_mime md now) #
         filter (\<lambda>k. k \<noteq> item_key (ClipboardItem_mime md now)) (map item_key (cm_history s))"
proof -
  let ?it = "ClipboardItem_mime md now"
  let ?h = "cm_history s"
  have d: "distinct (map item_key ?h)" and b: "int (length ?h) \<le> cm_maxHistorySize s"
    and ne: "list_all (\<lambda>it. item_wf it \<and> ci_text it \<noteq> []) ?h"
    using inv by (simp_all add: cm_inv_def)
  have "ci_text ?it \<noteq> []"
    using present ne by (auto simp: list_all_iff item_key_def)
  show ?thesis
  proof (cases "isDuplicate ?it s")
    case True
    then obtain x xs where h: "?h = x # xs" and k: "item_key x = item_key ?it"
      by (auto simp: isDuplicate_def item_eq_key split: list.splits)
    with d have "item_key ?it \<notin> set (map item_key xs)" by simp
    then have "filter (\<lambda>k. k \<noteq> item_key ?it) (map item_key xs) = map item_key xs"
      by (induction xs) auto
    with run True h k show ?thesis
      by (simp add: onClipboardChanged_inv_eq [OF inv])
  next
    case False
    have "length (filter (\<lambda>y. item_key y \<noteq> item_key ?it) ?h) < length ?h"
      using present by (auto simp: length_filter_less)
    then have "length (?it # filter (\<lambda>y. item_key y \<noteq> item_key ?it) ?h) \<le> nat (cm_maxHistorySize s)"
      using b by simp
    with run False \<open>ci_text ?it \<noteq> []\<close> show ?thesis
      by (auto simp: onClipboardChanged_inv_eq [OF inv] mru_insert_def filter_map comp_def Let_def)
  qed
qed

subsection \<open>Properties of the history store\<close>

text \<open>
  C1. In every state the manager can reach, the bound \<open>m_maxHistorySize\<close> is
  at least one, the history holds at most that many entries, and no two
  entries are equal under \<open>ClipboardItem::operator==\<close>.
\<close>

theorem reachable_history_invariant:
  assumes "cm_reachable s"
  shows "1 \<le> cm_maxHistorySize s \<and> int (length (cm_history s)) \<le> cm_maxHistorySize s \<and>
         distinct_on item_key (cm_history s)"
  using cm_reachable_inv [OF assms] by (simp add: cm_inv_def)

theorem reachable_history_invariant_witness:
  "1 \<le> cm_maxHistorySize (cm_init\<lparr>cm_history := [sample_item ''hello'' 0]\<rparr>) \<and>
   int (length (cm_history (cm_init\<lparr>cm_history := [sample_item ''hello'' 0]\<rparr>)))
     \<le> cm_maxHistorySize (cm_init\<lparr>cm_history := [sample_item ''hello'' 0]\<rparr>) \<and>
   distinct_on item_key (cm_history (cm_init\<lparr>cm_history := [sample_item ''hello'' 0]\<rparr>))"
  by (rule reachable_history_invariant [OF reachable_sample])

text \<open>
  C2. \<open>onClipboardChanged\<close> refines the abstract ingestion: from a state of the
  invariant, the new history is the most-recent-first insertion of the item
  built from the snapshot, except that a missing snapshot, an empty text or a
  repeat of the newest entry leaves the history as it is; the bound is not
  changed.
\<close>

theorem onClipboardChanged_refines_ingest:
  assumes inv: "cm_inv s" and run: "onClipboardChanged sndr clip now s = Inr (s', sigs)"
  shows "cm_history s' =
           ingest_spec (nat (cm_maxHistorySize s)) (map_option (\<lambda>md. ClipboardItem_mime md now) clip)
             (cm_history s) \<and>
         cm_maxHistorySize s' = cm_maxHistorySize s"
  using run by (auto simp: onClipboardChanged_inv_eq [OF inv] ingest_spec_def isDuplicate_hd Let_def
      split: option.splits if_splits)

theorem onClipboardChanged_refines_ingest_witness:
  "cm_history (fst (projr (onClipboardChanged ClipboardSender (Some (clipboard_setText ''gamma'')) 3 sample_state))) =
     ingest_spec 100 (Some (sample_item ''gamma'' 3)) (cm_history sample_state)"
proof -
  have run: "onClipboardChanged ClipboardSender (Some (clipboard_setText ''gamma'')) 3 sample_state =
     Inr (sample_state\<lparr>cm_history := [sample_item ''gamma'' 3, sample_item ''beta'' 2, sample_item ''alpha'' 1]\<rparr>,
          [NewItemAdded (sample_item ''gamma'' 3), HistoryChanged])"
    by code_simp
  from onClipboardChanged_refines_ingest [OF cm_inv_sample_state run] run show ?thesis
    by (simp add: sample_item_def sample_state_def cm_init_def)
qed

text \<open>
  C3. Promote on repeat: when the snapshot's item is equal to an entry already
  in the history, the history afterwards has the same entries' keys with that
  key moved to the front; no entry is added or evicted.
\<close>

theorem onClipboardChanged_promote:
  assumes "cm_inv s"
    and "item_key (ClipboardItem_mime md now) \<in> set (map item_key (cm_history s))"
    and "onClipboardChanged sndr (Some md) now s = Inr (s', sigs)"
  shows "map item_key (cm_history s') =
         item_key (ClipboardItem_mime md now) #
         filter (\<lambda>k. k \<noteq> item_key (ClipboardItem_mime md now)) (map item_key (cm_history s))"
  using assms by (rule onClipboardChanged_promote_keys)

theorem onClipboardChanged_promote_witness:
  "map item_key (cm_history (fst (projr (onClipboardChanged ClipboardSender (Some (clipboard_setText ''alpha'')) 3 sample_state)))) =
   [item_key (sample_item ''alpha'' 3), item_key (sample_item ''beta'' 2)]"
proof -
  have present: "item_key (ClipboardItem_mime (clipboard_setText ''alpha'') 3) \<in> set (map item_key (cm_history sample_state))"
    by code_simp
  have run: "onClipboardChanged ClipboardSender (Some (clipboard_setText ''alpha'')) 3 sample_state =
     Inr (sample_state\<lparr>cm_history := [sample_item ''alpha'' 3, sample_item ''beta'' 2]\<rparr>,
          [NewItemAdded (sample_item ''alpha'' 3), HistoryChanged])"
    by code_simp
  from onClipboardChanged_promote [OF cm_inv_sample_state present run] run show ?thesis
    by (simp add: sample_item_def)
qed

text \<open>
  C4. A snapshot whose item is equal to no entry (and whose text is not empty)
  is prepended, and the history is cut to the bound, which evicts the oldest
  entries; \<open>newItemAdded\<close> and \<open>historyChanged\<close> are emitted in that order.
\<close>

theorem onClipboardChanged_fresh_item:
  assumes inv: "cm_inv s"
    and fresh: "item_key (ClipboardItem_mime md now) \<notin> set (map item_key (cm_history s))"
    and ne: "ci_text (ClipboardItem_mime md now) \<noteq> []"
  shows "onClipboardChanged sndr (Some md) now s =
         Inr (s\<lparr>cm_history := take (nat (cm_maxHistorySize s)) (ClipboardItem_mime md now # cm_history s)\<rparr>,
              [NewItemAdded (ClipboardItem_mime md now), HistoryChanged])"
proof -
  let ?it = "ClipboardItem_mime md now"
  have "\<not> isDuplicate ?it s"
    using fresh by (auto simp: isDuplicate_def item_eq_key split: list.splits)
  moreover have "filter (\<lambda>y. item_key y \<noteq> item_key ?it) (cm_history s) = cm_history s"
    using fresh by (auto simp: filter_id_conv) (metis imageI)
  ultimately show ?thesis
    using ne by (simp add: onClipboardChanged_inv_eq [OF inv] mru_insert_def Let_def)
qed

theorem onClipboardChanged_fresh_item_witness:
  "onClipboardChanged NoSender (Some (clipboard_setText ''gamma'')) 3 sample_state =
   Inr (sample_state\<lparr>cm_history := take 100 (sample_item ''gamma'' 3 # cm_history sample_state)\<rparr>,
        [NewItemAdded (sample_item ''gamma'' 3), HistoryChanged])"
proof -
  have fresh: "item_key (ClipboardItem_mime (clipboard_setText ''gamma'') 3) \<notin> set (map item_key (cm_history sample_state))"
    by code_simp
  have ne: "ci_text (ClipboardItem_mime (clipboard_setText ''gamma'') 3) \<noteq> []"
    by code_simp
  have m: "nat (cm_maxHistorySize sample_state) = 100"
    by (simp add: sample_state_def cm_init_def)
  show ?thesis
    using onClipboardChanged_fresh_item [OF cm_inv_sample_state fresh ne, of NoSender] m
    by (simp add: sample_item_def)
qed

text \<open>
  C5. The trimming loop of \<open>addItem\<close> and \<open>setMaxHistorySize\<close> terminates
  and keeps the first \<open>m\<close> entries; only a negative bound, which the
  clamping in \<open>setMaxHistorySize\<close> excludes, runs it into \<open>removeLast\<close> on
  an empty list.
\<close>

theorem trimHistory_spec:
  "trimHistory m h = (if 0 \<le> m then Inr (take (nat m) h) else Inl RemoveLastOnEmpty)"
  by (simp add: trimHistory_take trimHistory_negative)

text \<open>
  C6. From every reachable state every event is handled without reaching the
  undefined \<open>removeLast\<close> on an empty list.
\<close>

theorem reachable_step_no_error:
  assumes "cm_reachable s"
  shows "\<exists>s' sigs. cm_step e s = Inr (s', sigs)"
  using cm_step_no_error [OF cm_reachable_inv [OF assms]] .

theorem reachable_step_no_error_witness:
  "\<exists>s' sigs. cm_step (SetMaxHistorySize 0) (cm_init\<lparr>cm_history := [sample_item ''hello'' 0]\<rparr>) = Inr (s', sigs)"
  by (rule reachable_step_no_error [OF reachable_sample])

text \<open>
  C7. The update timer is never started, so in every reachable state it is
  inactive and the self-echo test \<open>sender() == m_clipboard && isActive()\<close>
  never suppresses a change: the slot behaves the same whoever sent it.
\<close>

theorem reachable_echo_guard_dead:
  assumes "cm_reachable s"
  shows "\<not> cm_timerActive s \<and>
         onClipboardChanged ClipboardSender clip now s = onClipboardChanged NoSender clip now s"
proof -
  have inv: "cm_inv s" using assms by (rule cm_reachable_inv)
  then show ?thesis by (simp add: cm_inv_timer onClipboardChanged_inv_eq)
qed

theorem reachable_echo_guard_dead_witness:
  "\<not> cm_timerActive (cm_init\<lparr>cm_history := [sample_item ''hello'' 0]\<rparr>) \<and>
   onClipboardChanged ClipboardSender (Some (clipboard_setText ''hello'')) 1
     (cm_init\<lparr>cm_history := [sample_item ''hello'' 0]\<rparr>) =
   onClipboardChanged NoSender (Some (clipboard_setText ''hello'')) 1
     (cm_init\<lparr>cm_history := [sample_item ''hello'' 0]\<rparr>)"
  by (rule reachable_echo_guard_dead [OF reachable_sample])

text \<open>
  C8. Shrinking the bound below the current length trims the history and emits
  no \<open>historyChanged\<close>: the test \<open>m_history.size() < size\<close> is false
  after the trim.
\<close>

theorem setMaxHistorySize_shrink_silent:
  assumes "1 \<le> n" and "n < int (length (cm_history s))"
  shows "setMaxHistorySize n s =
         Inr (s\<lparr>cm_maxHistorySize := n, cm_history := take (nat n) (cm_history s)\<rparr>, [])"
  using assms by (simp add: setMaxHistorySize_eq)

theorem setMaxHistorySize_shrink_silent_witness:
  "setMaxHistorySize 1 sample_state =
   Inr (sample_state\<lparr>cm_maxHistorySize := 1, cm_history := [sample_item ''beta'' 2]\<rparr>, [])"
proof -
  have "1 < int (length (cm_history sample_state))" by (simp add: sample_state_def)
  from setMaxHistorySize_shrink_silent [OF _ this] show ?thesis
    by (simp add: sample_state_def)
qed

text \<open>
  C9. \<open>removeItem\<close> on an index out of range changes nothing and emits
  nothing; on an index in range it removes exactly that entry and emits
  \<open>historyChanged\<close>.
\<close>

theorem removeItem_spec:
  assumes inv: "cm_inv s" and res: "removeItem i s = (s', sigs)"
  shows "if 0 \<le> i \<and> i < int (length (cm_history s))
         then sigs = [HistoryChanged] \<and> length (cm_history s') = length (cm_history s) - 1 \<and>
              set (cm_history s') = set (cm_history s) - {cm_history s ! nat i}
         else s' = s \<and> sigs = []"
proof (cases "0 \<le> i \<and> i < int (length (cm_history s))")
  case True
  have "distinct (cm_history s)" using inv by (simp add: cm_inv_def distinct_map)
  moreover have "nat i < length (cm_history s)" using True by linarith
  ultimately show ?thesis
    using True res by (auto simp: removeItem_in_range set_qlist_removeAt_distinct)
next
  case False
  with res show ?thesis by (simp add: removeItem_def)
qed

theorem removeItem_spec_witness:
  "length (cm_history (fst (removeItem 0 sample_state))) = 1 \<and>
   snd (removeItem 0 sample_state) = [HistoryChanged] \<and>
   set (cm_history (fst (removeItem 0 sample_state))) = set (cm_history sample_state) - {sample_item ''beta'' 2}"
proof -
  have "0 \<le> (0::int) \<and> (0::int) < int (length (cm_history sample_state))"
    by (simp add: sample_state_def)
  with removeItem_spec [OF cm_inv_sample_state prod.collapse [symmetric], of 0] show ?thesis
    by (simp add: sample_state_def)
qed

text \<open>
  The spec's promote example: copying \<open>alpha\<close>, \<open>beta\<close>, \<open>alpha\<close> leaves
  the history \<open>[alpha, beta]\<close>, the entry for \<open>alpha\<close> carrying the
  latest time.
\<close>

theorem dedup_promote_example:
  "(case cm_run [copied ''alpha'' 1, copied ''beta'' 2, copied ''alpha'' 3] cm_init of
      Inr (s, _) \<Rightarrow> map ci_text (cm_history s) = [''alpha'', ''beta''] \<and> map ci_timestamp (cm_history s) = [3, 2]
    | Inl _ \<Rightarrow> False)"
  by code_simp

text \<open>
  The spec's capacity example: with the bound set to 3, five distinct
  copies leave the three most recent, newest first.
\<close>

theorem capacity_trim_example:
  "(case cm_run [SetMaxHistorySize 3, copied ''a1'' 1, copied ''a2'' 2, copied ''a3'' 3,
                 copied ''a4'' 4, copied ''a5'' 5] cm_init of
      Inr (s, _) \<Rightarrow> map ci_text (cm_history s) = [''a5'', ''a4'', ''a3'']
    | Inl _ \<Rightarrow> False)"
  by code_simp

end
