(* ===== verification/HistoryWidget.thy ===== *)
theory HistoryWidget
  imports ViewModel ClipboardManager
begin

text \<open>
  Model of \<open>src/src/ClipboardHistoryWidget.{h,cpp}\<close>, the list of the main
  window.  It holds a pointer to the manager, a search box, a type filter
  combo box, the list of rows and a statistics label.  It reads the manager
  (\<open>search\<close>, \<open>history\<close>, \<open>itemCount\<close>) and passes its effects on the manager
  and the clipboard out as \<open>ui_cmd\<close> values.  Each row stores under
  \<open>Qt::UserRole\<close> its position in the list it was built from, the filtered
  list; the slots that act on a row read that number as a position of the
  whole history.
\<close>

subsection \<open>State\<close>

text \<open>
  \<open>hw_manager\<close>: whether \<open>m_clipboardManager\<close> is set; \<open>hw_search\<close>: the
  text of \<open>m_searchEdit\<close>; \<open>hw_filter\<close>: the current index of
  \<open>m_filterCombo\<close>; \<open>hw_rows\<close>: the items of \<open>m_historyList\<close>; \<open>hw_stats\<close>:
  the text of \<open>m_statsLabel\<close>; \<open>hw_list_tooltip\<close>: the tool tip of the list.
\<close>

record history_widget =
  hw_manager :: bool
  hw_search :: string
  hw_filter :: nat
  hw_rows :: "list_row list"
  hw_stats :: string
  hw_list_tooltip :: string

text \<open>The entries of \<open>m_filterCombo\<close> as \<open>setupUI\<close> adds them: label and data.\<close>

definition filter_combo :: "(string \<times> int) list" where
  "filter_combo =
     [(''All Types'', -1), (''Text'', item_type_int Text), (''Images'', item_type_int Image),
      (''URLs'', item_type_int Url), (''Code'', item_type_int Code), (''Files'', item_type_int File)]"

text \<open>\<open>m_filterCombo->currentData().toInt()\<close>\<close>

definition hw_filterType :: "history_widget \<Rightarrow> int" where
  "hw_filterType w = snd (filter_combo ! hw_filter w)"

text \<open>
  \<open>ClipboardHistoryWidget::setupUI\<close> on the widget the constructor's member
  initialisation leaves (no manager): an empty search box, the combo at its
  first entry (All Types), an empty list, the label "0 items", no tool tip.
  The layout carries no state; the connections it makes are the main
  window's cases of the program's step function.
\<close>

definition hw_setupUI :: history_widget where
  "hw_setupUI =
     \<lparr>hw_manager = False, hw_search = [], hw_filter = 0, hw_rows = [], hw_stats = ''0 items'',
      hw_list_tooltip = []\<rparr>"

text \<open>The constructor: no manager, \<open>setupUI\<close>, then \<open>applyMacStyle\<close>, which only
  sets a style sheet.\<close>

definition ClipboardHistoryWidget_new :: history_widget where
  "ClipboardHistoryWidget_new = hw_setupUI"

subsection \<open>Building the list\<close>

text \<open>\<open>ClipboardHistoryWidget::getFilteredItems\<close>\<close>

definition getFilteredItems :: "clip_manager \<Rightarrow> history_widget \<Rightarrow> clip_item list" where
  "getFilteredItems cm w =
     (if \<not> hw_manager w then []
      else
        (let items = search (hw_search w) cm; filterType = hw_filterType w in
         if filterType \<noteq> -1 then filter (\<lambda>it. item_type_int (ci_type it) = filterType) items
         else items))"

text \<open>\<open>ClipboardHistoryWidget::createHistoryItem\<close>\<close>

definition createHistoryItem :: "qt_env \<Rightarrow> clip_item \<Rightarrow> int \<Rightarrow> list_row" where
  "createHistoryItem env it index =
     (let mainText = ci_preview it;
          subtitle = qt_arg (qt_arg (''%1'' @ bullet_sep @ ''%2'') (typeString (ci_type it)))
                            (formattedTimestamp env it);
          displayText = qt_arg (qt_arg (''%1'' @ [CHR 0x0A] @ ''%2'') mainText) subtitle
      in \<lparr>row_text = displayText, row_icon = Some (ci_icon it), row_data = Some index,
          row_tooltip = qt_arg (''Double-click to copy'' @ [CHR 0x0A] @ ''Original: %1'') (ci_text it),
          row_enabled = True\<rparr>)"

text \<open>\<open>ClipboardHistoryWidget::updateHistoryList(const QList<ClipboardItem>&)\<close>: row
  \<open>i\<close> stores \<open>i\<close>.\<close>

definition hw_rows_for :: "qt_env \<Rightarrow> clip_item list \<Rightarrow> list_row list" where
  "hw_rows_for env items =
     map (\<lambda>(i, it). createHistoryItem env it (int i)) (enumerate 0 items) @
     (if items = [] then [placeholder_row ''No clipboard items match your search''] else [])"

text \<open>\<open>ClipboardHistoryWidget::updateHistoryList()\<close>\<close>

definition updateHistoryList :: "qt_env \<Rightarrow> clip_manager \<Rightarrow> history_widget \<Rightarrow> history_widget" where
  "updateHistoryList env cm w =
     (if \<not> hw_manager w then w else w\<lparr>hw_rows := hw_rows_for env (getFilteredItems cm w)\<rparr>)"

text \<open>The text \<open>ClipboardHistoryWidget::updateStats\<close> gives the label.\<close>

definition stats_text :: "clip_manager \<Rightarrow> history_widget \<Rightarrow> string" where
  "stats_text cm w =
     (let totalItems = itemCount cm; filteredItems = length (getFilteredItems cm w);
          plural = (if totalItems = 1 then [] else ''s'') in
      if hw_search w = [] \<and> hw_filterType w = -1
      then qt_arg (qt_arg ''%1 item%2'' (qt_number totalItems)) plural
      else qt_arg (qt_arg (qt_arg ''%1 of %2 item%3'' (qt_number filteredItems))
                     (qt_number totalItems)) plural)"

definition updateStats :: "clip_manager \<Rightarrow> history_widget \<Rightarrow> history_widget" where
  "updateStats cm w =
     (if \<not> hw_manager w then w\<lparr>hw_stats := ''0 items''\<rparr> else w\<lparr>hw_stats := stats_text cm w\<rparr>)"

text \<open>\<open>ClipboardHistoryWidget::onHistoryChanged\<close>\<close>

definition hw_onHistoryChanged :: "qt_env \<Rightarrow> clip_manager \<Rightarrow> history_widget \<Rightarrow> history_widget" where
  "hw_onHistoryChanged env cm w = updateStats cm (updateHistoryList env cm w)"

text \<open>
  \<open>ClipboardHistoryWidget::setClipboardManager\<close> with a manager: the
  connection to \<open>historyChanged\<close>, then the list and the label.
\<close>

definition setClipboardManager :: "qt_env \<Rightarrow> clip_manager \<Rightarrow> history_widget \<Rightarrow> history_widget" where
  "setClipboardManager env cm w = updateStats cm (updateHistoryList env cm (w\<lparr>hw_manager := True\<rparr>))"

subsection \<open>Slots\<close>

text \<open>
  Editing the search box: \<open>QLineEdit::textChanged\<close> is emitted when the text
  changes and calls \<open>onSearchTextChanged\<close>, which rebuilds the list only.
\<close>

definition hw_setSearchText ::
  "qt_env \<Rightarrow> clip_manager \<Rightarrow> string \<Rightarrow> history_widget \<Rightarrow> history_widget" where
  "hw_setSearchText env cm t w =
     (if t = hw_search w then w else updateHistoryList env cm (w\<lparr>hw_search := t\<rparr>))"

text \<open>
  Picking entry \<open>k\<close> of the combo box: \<open>currentIndexChanged\<close> is emitted when
  the index changes and calls \<open>onFilterChanged\<close>, which rebuilds the list only.
\<close>

definition hw_setFilterIndex ::
  "qt_env \<Rightarrow> clip_manager \<Rightarrow> nat \<Rightarrow> history_widget \<Rightarrow> history_widget" where
  "hw_setFilterIndex env cm k w =
     (if k = hw_filter w \<or> length filter_combo \<le> k then w
      else updateHistoryList env cm (w\<lparr>hw_filter := k\<rparr>))"

text \<open>\<open>ClipboardHistoryWidget::onItemDoubleClicked\<close>\<close>

definition onItemDoubleClicked ::
  "clip_manager \<Rightarrow> list_row \<Rightarrow> history_widget \<Rightarrow> history_widget \<times> ui_cmd list" where
  "onItemDoubleClicked cm item w =
     (if \<not> hw_manager w then (w, [])
      else
        (let index = variant_toInt (row_data item); history = cm_history cm in
         if 0 \<le> index \<and> index < int (length history)
         then (w\<lparr>hw_list_tooltip := ''Copied to clipboard!''\<rparr>,
               [WriteClipboard (copyToClipboard (history ! nat index))])
         else (w, [])))"

text \<open>The single-shot timer that clears the tool tip a second later.\<close>

definition hw_tooltipTimeout :: "history_widget \<Rightarrow> history_widget" where
  "hw_tooltipTimeout w = w\<lparr>hw_list_tooltip := []\<rparr>"

text \<open>\<open>ClipboardHistoryWidget::showItemContextMenu\<close> on a row, with the action picked.\<close>

definition showItemContextMenu :: "clip_manager \<Rightarrow> list_row \<Rightarrow> menu_choice \<Rightarrow> history_widget \<Rightarrow> ui_cmd list" where
  "showItemContextMenu cm item choice w =
     (if \<not> hw_manager w then []
      else
        (let index = variant_toInt (row_data item); history = cm_history cm in
         if index < 0 \<or> int (length history) \<le> index then []
         else (case choice of
                 MenuCopy \<Rightarrow> [WriteClipboard (copyToClipboard (history ! nat index))]
               | MenuRemove \<Rightarrow> [CallRemoveItem index]
               | MenuDismissed \<Rightarrow> [])))"

text \<open>\<open>ClipboardHistoryWidget::onClearHistoryClicked\<close>: the question, then the
  clear when the answer \<open>yes\<close> is \<open>QMessageBox::Yes\<close>.\<close>

definition clear_question :: msg_box where
  "clear_question =
     MsgQuestion ''Clear History''
       (''Are you sure you want to clear all clipboard history?'' @ [CHR 0x0A] @ ''This action cannot be undone.'')"

definition onClearHistoryClicked :: "bool \<Rightarrow> history_widget \<Rightarrow> ui_cmd list" where
  "onClearHistoryClicked yes w =
     (if \<not> hw_manager w then [] else ShowMessage clear_question # (if yes then [CallClearHistory] else []))"

text \<open>The rows the widget shows when it is up to date with the manager.\<close>

definition hw_current :: "clip_manager \<Rightarrow> history_widget \<Rightarrow> bool" where
  "hw_current cm w = (\<exists>env. hw_rows w = hw_rows_for env (getFilteredItems cm w))"

declare filter_combo_def [model_defs] hw_filterType_def [model_defs]
  ClipboardHistoryWidget_new_def [model_defs] getFilteredItems_def [model_defs]
  createHistoryItem_def [model_defs] hw_rows_for_def [model_defs] updateHistoryList_def [model_defs]
  stats_text_def [model_defs] updateStats_def [model_defs] hw_onHistoryChanged_def [model_defs]
  setClipboardManager_def [model_defs] hw_setSearchText_def [model_defs]
  hw_setFilterIndex_def [model_defs] onItemDoubleClicked_def [model_defs]
  hw_tooltipTimeout_def [model_defs] showItemContextMenu_def [model_defs]
  onClearHistoryClicked_def [model_defs] hw_setupUI_def [model_defs] clear_question_def [model_defs]

subsection \<open>Lemmas\<close>

lemma length_hw_rows_for [simp]: "length (hw_rows_for env items) = max 1 (length items)"
  by (cases items) (simp_all add: hw_rows_for_def)

lemma hw_rows_for_nth:
  "k < length items \<Longrightarrow> hw_rows_for env items ! k = createHistoryItem env (items ! k) (int k)"
  by (simp add: hw_rows_for_def nth_append nth_enumerate_eq)

lemma hw_rows_for_Nil:
  "hw_rows_for env [] = [placeholder_row ''No clipboard items match your search'']"
  by (simp add: hw_rows_for_def)

lemma row_data_createHistoryItem [simp]: "row_data (createHistoryItem env it i) = Some i"
  by (simp add: createHistoryItem_def Let_def)

lemma row_enabled_createHistoryItem [simp]: "row_enabled (createHistoryItem env it i)"
  by (simp add: createHistoryItem_def Let_def)

lemma row_enabled_hw_rows_for:
  "k < length (hw_rows_for env items) \<Longrightarrow> row_enabled (hw_rows_for env items ! k) \<longleftrightarrow> k < length items"
  by (cases items) (auto simp: hw_rows_for_nth hw_rows_for_Nil placeholder_row_def)

lemma subseq_search: "subseq (search q cm) (cm_history cm)"
  by (simp add: search_def)

lemma getFilteredItems_subseq: "subseq (getFilteredItems cm w) (cm_history cm)"
  by (auto simp: getFilteredItems_def search_def Let_def)

lemma getFilteredItems_rows [simp]: "getFilteredItems cm (w\<lparr>hw_rows := r\<rparr>) = getFilteredItems cm w"
  by (simp add: getFilteredItems_def hw_filterType_def)

lemma getFilteredItems_stats [simp]: "getFilteredItems cm (w\<lparr>hw_stats := t\<rparr>) = getFilteredItems cm w"
  by (simp add: getFilteredItems_def hw_filterType_def)

lemma getFilteredItems_tooltip [simp]:
  "getFilteredItems cm (w\<lparr>hw_list_tooltip := t\<rparr>) = getFilteredItems cm w"
  by (simp add: getFilteredItems_def hw_filterType_def)

lemma length_getFilteredItems: "length (getFilteredItems cm w) \<le> length (cm_history cm)"
  using getFilteredItems_subseq by (rule list_emb_length)

lemma getFilteredItems_unfiltered:
  "hw_manager w \<Longrightarrow> hw_search w = [] \<Longrightarrow> hw_filterType w = -1 \<Longrightarrow> getFilteredItems cm w = cm_history cm"
  by (simp add: getFilteredItems_def search_empty)

text \<open>A double click on row \<open>k\<close> of the filtered list writes history entry \<open>k\<close>.\<close>

lemma onItemDoubleClicked_row:
  assumes "hw_manager w" "k < length (getFilteredItems cm w)"
  shows "onItemDoubleClicked cm (hw_rows_for env (getFilteredItems cm w) ! k) w =
           (w\<lparr>hw_list_tooltip := ''Copied to clipboard!''\<rparr>,
            [WriteClipboard (copyToClipboard (cm_history cm ! k))])"
  using assms length_getFilteredItems [of cm w]
  by (simp add: hw_rows_for_nth onItemDoubleClicked_def)

lemma showItemContextMenu_row:
  assumes "hw_manager w" "k < length (getFilteredItems cm w)"
  shows "showItemContextMenu cm (hw_rows_for env (getFilteredItems cm w) ! k) MenuRemove w =
           [CallRemoveItem (int k)]"
  using assms length_getFilteredItems [of cm w]
  by (simp add: hw_rows_for_nth showItemContextMenu_def)

lemma showItemContextMenu_placeholder:
  "hw_manager w \<Longrightarrow> cm_history cm \<noteq> [] \<Longrightarrow>
   showItemContextMenu cm (placeholder_row t) c w =
     (case c of MenuCopy \<Rightarrow> [WriteClipboard (copyToClipboard (hd (cm_history cm)))]
              | MenuRemove \<Rightarrow> [CallRemoveItem 0] | MenuDismissed \<Rightarrow> [])"
  by (cases "cm_history cm") (auto simp: showItemContextMenu_def placeholder_row_def split: menu_choice.split)

lemma hw_manager_updateHistoryList [simp]: "hw_manager (updateHistoryList env cm w) = hw_manager w"
  by (simp add: updateHistoryList_def)

lemma hw_filter_updateHistoryList [simp]: "hw_filter (updateHistoryList env cm w) = hw_filter w"
  by (simp add: updateHistoryList_def)

lemma hw_search_updateHistoryList [simp]: "hw_search (updateHistoryList env cm w) = hw_search w"
  by (simp add: updateHistoryList_def)

lemma hw_filter_updateStats [simp]: "hw_filter (updateStats cm w) = hw_filter w"
  by (simp add: updateStats_def)

lemma hw_search_updateStats [simp]: "hw_search (updateStats cm w) = hw_search w"
  by (simp add: updateStats_def)

lemma hw_manager_updateStats [simp]: "hw_manager (updateStats cm w) = hw_manager w"
  by (simp add: updateStats_def)

lemma hw_stats_updateHistoryList [simp]: "hw_stats (updateHistoryList env cm w) = hw_stats w"
  by (simp add: updateHistoryList_def)

lemma hw_stats_hw_setSearchText [simp]: "hw_stats (hw_setSearchText env cm t w) = hw_stats w"
  by (simp add: hw_setSearchText_def)

lemma hw_stats_hw_setFilterIndex [simp]: "hw_stats (hw_setFilterIndex env cm k w) = hw_stats w"
  by (simp add: hw_setFilterIndex_def)

lemma hw_current_updateHistoryList [intro]:
  "hw_manager w \<Longrightarrow> hw_current cm (updateHistoryList env cm w)"
  by (auto simp: hw_current_def updateHistoryList_def)

lemma hw_current_updateStats [intro]: "hw_current cm w \<Longrightarrow> hw_current cm (updateStats cm w)"
  by (simp add: hw_current_def updateStats_def)

lemma hw_filter_range_set:
  "hw_filter w < length filter_combo \<Longrightarrow> hw_filter (hw_setFilterIndex env cm k w) < length filter_combo"
  by (simp add: hw_setFilterIndex_def updateHistoryList_def)

end
