(* ===== verification/MainWindow.thy ===== *)
theory MainWindow
  imports HistoryWidget
begin

text \<open>
  Model of \<open>src/src/MainWindow.{h,cpp}\<close>: the main window, which holds the
  history widget, hides instead of closing while there is a system tray, and
  explains this once in a message box.  Its operations return the window and
  the message boxes they show, in order; the program records those boxes.
\<close>

subsection \<open>State\<close>

text \<open>
  \<open>mw_historyWidget\<close>: \<open>m_historyWidget\<close> (the manager pointer
  \<open>m_clipboardManager\<close> is the widget's \<open>hw_manager\<close>); \<open>mw_visible\<close>:
  \<open>isVisible()\<close>; \<open>mw_firstTime\<close>: the \<open>static bool firstTime\<close> of
  \<open>closeEvent\<close>, which lives as long as the program, as the only main window
  does.  Title, layouts, labels and buttons carry no state.
\<close>

record main_window =
  mw_historyWidget :: history_widget
  mw_visible :: bool
  mw_firstTime :: bool

subsection \<open>Construction\<close>

text \<open>\<open>MainWindow::setupUI\<close>: of the header (title, "Preferences" and "Hide to
  Tray" buttons, whose connections are the main window's cases of the
  program's step function), the history widget and the status bar, only the
  history widget carries state.\<close>

definition mw_setupUI :: history_widget where
  "mw_setupUI = ClipboardHistoryWidget_new"

text \<open>\<open>MainWindow::MainWindow\<close>: title and size, \<open>setupUI\<close>, \<open>applyMacStyle\<close>; the
  window is not shown, and \<open>firstTime\<close> starts true.\<close>

definition MainWindow_new :: main_window where
  "MainWindow_new = \<lparr>mw_historyWidget = mw_setupUI, mw_visible = False, mw_firstTime = True\<rparr>"

text \<open>\<open>MainWindow::setClipboardManager\<close> hands the manager to the history
  widget, which always exists after \<open>setupUI\<close>.\<close>

definition mw_setClipboardManager :: "qt_env \<Rightarrow> clip_manager \<Rightarrow> main_window \<Rightarrow> main_window" where
  "mw_setClipboardManager env cm mw =
     mw\<lparr>mw_historyWidget := setClipboardManager env cm (mw_historyWidget mw)\<rparr>"

subsection \<open>Showing and hiding\<close>

text \<open>\<open>show()\<close>, \<open>raise()\<close>, \<open>activateWindow()\<close>, as \<open>SystemTrayManager::showMainWindow\<close>
  calls them.\<close>

definition mw_show :: "main_window \<Rightarrow> main_window" where
  "mw_show mw = mw\<lparr>mw_visible := True\<rparr>"

text \<open>\<open>MainWindow::hideToTray\<close>, the slot of the "Hide to Tray" button.\<close>

definition mw_hideToTray :: "main_window \<Rightarrow> main_window" where
  "mw_hideToTray mw = mw\<lparr>mw_visible := False\<rparr>"

text \<open>
  \<open>MainWindow::closeEvent\<close>, with \<open>QSystemTrayIcon::isSystemTrayAvailable()\<close>
  at the time of the event as \<open>trayAvailable\<close>.  With a tray the window hides
  and ignores the event, and the first time it explains, in a message box,
  that the program keeps running; without one the event is accepted and the
  window closes (hides), and the program keeps running, since \<open>main\<close> turned
  off quitting on the last window's close.
\<close>

definition close_notice :: msg_box where
  "close_notice =
     MsgInformation ''Clipboard Manager''
       (''The application will keep running in the system tray. '' @
        ''To terminate the application, choose Quit from the context menu '' @
        ''of the system tray entry.'')"

definition mw_closeEvent :: "bool \<Rightarrow> main_window \<Rightarrow> main_window \<times> msg_box list" where
  "mw_closeEvent trayAvailable mw =
     (if trayAvailable then
        (let mw1 = mw\<lparr>mw_visible := False\<rparr> in
         if mw_firstTime mw1 then (mw1\<lparr>mw_firstTime := False\<rparr>, [close_notice])
         else (mw1, []))
      else (mw\<lparr>mw_visible := False\<rparr>, []))"

text \<open>\<open>MainWindow::changeEvent\<close> on a \<open>WindowStateChange\<close>: a minimised window
  hides when there is a system tray.\<close>

definition mw_changeEvent :: "bool \<Rightarrow> bool \<Rightarrow> main_window \<Rightarrow> main_window" where
  "mw_changeEvent minimized trayAvailable mw =
     (if minimized \<and> trayAvailable then mw\<lparr>mw_visible := False\<rparr> else mw)"

text \<open>\<open>MainWindow::showPreferences\<close>, the slot of the "Preferences" button: a
  message box and nothing else.\<close>

definition preferences_box :: msg_box where
  "preferences_box =
     (let nl = [CHR 0x0A]; item = \<lambda>t. nl @ [CHR 0x95, CHR '' ''] @ t in
      MsgInformation ''Preferences''
        (''Preferences dialog would be implemented here.'' @ nl @ nl @ ''Available settings:'' @
         item ''Maximum history size'' @ item ''Keyboard shortcuts'' @ item ''Startup behavior'' @
         item ''Content filtering''))"

definition mw_showPreferences :: "msg_box list" where
  "mw_showPreferences = [preferences_box]"

declare mw_setupUI_def [model_defs] MainWindow_new_def [model_defs] mw_setClipboardManager_def [model_defs]
  mw_show_def [model_defs] mw_hideToTray_def [model_defs] close_notice_def [model_defs]
  mw_closeEvent_def [model_defs] mw_changeEvent_def [model_defs] preferences_box_def [model_defs]
  mw_showPreferences_def [model_defs]

subsection \<open>Lemmas\<close>

text \<open>Only \<open>setClipboardManager\<close> touches the history widget.\<close>

lemma mw_historyWidget_ops [simp]:
  "mw_historyWidget (mw_show mw) = mw_historyWidget mw"
  "mw_historyWidget (mw_hideToTray mw) = mw_historyWidget mw"
  "mw_historyWidget (fst (mw_closeEvent t mw)) = mw_historyWidget mw"
  "mw_historyWidget (mw_changeEvent m t mw) = mw_historyWidget mw"
  by (simp_all add: mw_show_def mw_hideToTray_def mw_closeEvent_def mw_changeEvent_def Let_def)

lemma mw_firstTime_ops [simp]:
  "mw_firstTime (mw_show mw) = mw_firstTime mw"
  "mw_firstTime (mw_hideToTray mw) = mw_firstTime mw"
  "mw_firstTime (mw_changeEvent m t mw) = mw_firstTime mw"
  "mw_firstTime (mw_setClipboardManager env cm mw) = mw_firstTime mw"
  by (simp_all add: mw_show_def mw_hideToTray_def mw_changeEvent_def mw_setClipboardManager_def)

lemma mw_visible_ops [simp]:
  "mw_visible (mw_show mw) = True"
  "mw_visible (mw_hideToTray mw) = False"
  "mw_visible (fst (mw_closeEvent t mw)) = False"
  by (simp_all add: mw_show_def mw_hideToTray_def mw_closeEvent_def Let_def)

text \<open>A close shows the notice exactly when there is a tray and \<open>firstTime\<close>
  holds, and clears \<open>firstTime\<close> then; it shows no other box.\<close>

lemma mw_closeEvent_notice:
  "snd (mw_closeEvent t mw) = (if t \<and> mw_firstTime mw then [close_notice] else [])"
  "mw_firstTime (fst (mw_closeEvent t mw)) = (mw_firstTime mw \<and> \<not> t)"
  by (simp_all add: mw_closeEvent_def Let_def)

lemma close_notice_preferences [simp]:
  "preferences_box \<noteq> close_notice" "close_notice \<noteq> preferences_box"
  by (simp_all add: close_notice_def preferences_box_def)

end
