(* ===== verification/TrayPopup.thy ===== *)
theory TrayPopup
  imports ViewModel ClipboardManager
begin

text \<open>
  Model of \<open>src/src/TrayPopupWidget.{h,cpp}\<close>, the frameless list that opens
  under the tray icon.  It shows at most ten entries of the history, or of
  the result of its search box, and restores an entry with one click.  Like
  the main list, each row stores its position in the list it was built from
  (the comment in the source says "original index"), and the click handler
  reads that number as a position of the whole history.  Showing and hiding
  the widget run its \<open>showEvent\<close> and \<open>hideEvent\<close>; both clear the search box,
  whose \<open>textChanged\<close> signal rebuilds the list.
\<close>

subsection \<open>State\<close>

text \<open>
  \<open>tp_visible\<close>: \<open>isVisible()\<close>; \<open>tp_search\<close>: the text of \<open>m_searchEdit\<close>;
  \<open>tp_rows\<close>: the items of \<open>m_historyList\<close>; \<open>tp_geometry\<close>: the last
  \<open>setGeometry(x, y, w, h)\<close>, none before the first placement.
\<close>

record tray_popup =
  tp_visible :: bool
  tp_search :: string
  tp_rows :: "list_row list"
  tp_geometry :: "(int \<times> int \<times> int \<times> int) option"

subsection \<open>Building the list\<close>

text \<open>\<open>TrayPopupWidget::createHistoryItem\<close>, with the index that
  \<open>updateHistoryList\<close> stores in it afterwards.\<close>

definition tp_createHistoryItem :: "qt_env \<Rightarrow> clip_item \<Rightarrow> int \<Rightarrow> list_row" where
  "tp_createHistoryItem env it i =
     \<lparr>row_text = qt_arg (qt_arg (''%1'' @ bullet_sep @ ''%2'') (typeString (ci_type it))) (ci_preview it),
      row_icon = Some (ci_icon it), row_data = Some i,
      row_tooltip = qt_arg (qt_arg (''%1'' @ [CHR 0x0A] @ ''%2'') (formattedTimestamp env it)) (ci_text it),
      row_enabled = True\<rparr>"

text \<open>\<open>TrayPopupWidget::updateHistoryList(const QList<ClipboardItem>&)\<close>:
  the first ten items, row \<open>i\<close> storing \<open>i\<close>.\<close>

definition tp_rows_for :: "qt_env \<Rightarrow> clip_item list \<Rightarrow> list_row list" where
  "tp_rows_for env items =
     map (\<lambda>(i, it). tp_createHistoryItem env it (int i)) (enumerate 0 (take 10 items)) @
     (if items = [] then [placeholder_row ''No clipboard items''] else [])"

text \<open>\<open>TrayPopupWidget::updateHistoryList()\<close>, also \<open>refreshHistory\<close>.\<close>

definition tp_updateHistoryList :: "qt_env \<Rightarrow> clip_manager \<Rightarrow> tray_popup \<Rightarrow> tray_popup" where
  "tp_updateHistoryList env cm p = p\<lparr>tp_rows := tp_rows_for env (cm_history cm)\<rparr>"

text \<open>\<open>TrayPopupWidget::onSearchTextChanged\<close>\<close>

definition tp_onSearchTextChanged :: "qt_env \<Rightarrow> clip_manager \<Rightarrow> tray_popup \<Rightarrow> tray_popup" where
  "tp_onSearchTextChanged env cm p = p\<lparr>tp_rows := tp_rows_for env (search (tp_search p) cm)\<rparr>"

text \<open>Setting the text of the search box (typing, or \<open>clear()\<close>): \<open>textChanged\<close>
  is emitted when the text changes.\<close>

definition tp_setSearchText ::
  "qt_env \<Rightarrow> clip_manager \<Rightarrow> string \<Rightarrow> tray_popup \<Rightarrow> tray_popup" where
  "tp_setSearchText env cm t p =
     (if t = tp_search p then p else tp_onSearchTextChanged env cm (p\<lparr>tp_search := t\<rparr>))"

text \<open>\<open>TrayPopupWidget::setupUI\<close>: the widget, hidden and not yet placed, with an
  empty search box and an empty list; the title, the buttons and the layout
  carry no state, and the connections it makes are the popup's cases of the
  program's step function.\<close>

definition tp_setupUI :: tray_popup where
  "tp_setupUI = \<lparr>tp_visible = False, tp_search = [], tp_rows = [], tp_geometry = None\<rparr>"

text \<open>The constructor: \<open>setupUI\<close>, \<open>applyMacStyle\<close> (a style sheet), the
  connection to \<open>historyChanged\<close>, then one \<open>updateHistoryList\<close>.\<close>

definition TrayPopupWidget_new :: "qt_env \<Rightarrow> clip_manager \<Rightarrow> tray_popup" where
  "TrayPopupWidget_new env cm = tp_updateHistoryList env cm tp_setupUI"

subsection \<open>Showing and hiding\<close>

text \<open>\<open>QWidget::show\<close> on a hidden popup runs \<open>TrayPopupWidget::showEvent\<close>:
  focus and clear the search box, then rebuild the list.\<close>

definition tp_show :: "qt_env \<Rightarrow> clip_manager \<Rightarrow> tray_popup \<Rightarrow> tray_popup" where
  "tp_show env cm p =
     (if tp_visible p then p
      else tp_updateHistoryList env cm (tp_setSearchText env cm [] (p\<lparr>tp_visible := True\<rparr>)))"

text \<open>\<open>QWidget::hide\<close> on a visible popup runs \<open>TrayPopupWidget::hideEvent\<close>,
  which clears the search box.\<close>

definition tp_hide :: "qt_env \<Rightarrow> clip_manager \<Rightarrow> tray_popup \<Rightarrow> tray_popup" where
  "tp_hide env cm p =
     (if \<not> tp_visible p then p else tp_setSearchText env cm [] (p\<lparr>tp_visible := False\<rparr>))"

subsection \<open>Slots\<close>

text \<open>\<open>TrayPopupWidget::onItemClicked\<close>; \<open>onItemDoubleClicked\<close> calls it too.\<close>

definition tp_onItemClicked :: "clip_manager \<Rightarrow> list_row \<Rightarrow> ui_cmd list" where
  "tp_onItemClicked cm item =
     (let index = variant_toInt (row_data item); history = cm_history cm in
      if 0 \<le> index \<and> index < int (length history)
      then [WriteClipboard (copyToClipboard (history ! nat index)), HidePopup]
      else [])"

text \<open>\<open>TrayPopupWidget::onClearHistoryClicked\<close> and \<open>onOpenMainWindowClicked\<close>\<close>

definition tp_onClearHistoryClicked :: "ui_cmd list" where
  "tp_onClearHistoryClicked = [CallClearHistory, HidePopup]"

definition tp_onOpenMainWindowClicked :: "ui_cmd list" where
  "tp_onOpenMainWindowClicked = [EmitOpenMainWindow, HidePopup]"

text \<open>\<open>TrayPopupWidget::keyPressEvent\<close>: Escape hides the popup, other keys go
  to the focused child (the search box, modelled by \<open>tp_setSearchText\<close>).\<close>

definition tp_keyPressEscape :: "ui_cmd list" where
  "tp_keyPressEscape = [HidePopup]"

text \<open>\<open>TrayPopupWidget::focusOutEvent\<close>: 100 ms later the popup hides unless it,
  its search box or its list has the focus again.\<close>

definition tp_focusOutEvent :: "bool \<Rightarrow> ui_cmd list" where
  "tp_focusOutEvent focused = (if focused then [] else [HidePopup])"

declare tp_focusOutEvent_def [model_defs] tp_createHistoryItem_def [model_defs] tp_rows_for_def [model_defs]
  tp_updateHistoryList_def [model_defs] tp_onSearchTextChanged_def [model_defs]
  tp_setSearchText_def [model_defs] TrayPopupWidget_new_def [model_defs] tp_show_def [model_defs]
  tp_hide_def [model_defs] tp_onItemClicked_def [model_defs] tp_onClearHistoryClicked_def [model_defs] tp_setupUI_def [model_defs]
  tp_onOpenMainWindowClicked_def [model_defs] tp_keyPressEscape_def [model_defs]

subsection \<open>Lemmas\<close>

lemma length_tp_rows_for [simp]: "length (tp_rows_for env items) = max 1 (min 10 (length items))"
  by (cases items) (simp_all add: tp_rows_for_def)

lemma tp_rows_for_nth:
  "k < min 10 (length items) \<Longrightarrow> tp_rows_for env items ! k = tp_createHistoryItem env (items ! k) (int k)"
  by (simp add: tp_rows_for_def nth_append nth_enumerate_eq)

lemma tp_rows_for_Nil: "tp_rows_for env [] = [placeholder_row ''No clipboard items'']"
  by (simp add: tp_rows_for_def)

lemma tp_rows_for_bound: "length (tp_rows_for env items) \<le> 10"
  by simp

lemma tp_search_tp_setSearchText [simp]: "tp_search (tp_setSearchText env cm t p) = t"
  by (simp add: tp_setSearchText_def tp_onSearchTextChanged_def)

lemma tp_visible_tp_setSearchText [simp]: "tp_visible (tp_setSearchText env cm t p) = tp_visible p"
  by (simp add: tp_setSearchText_def tp_onSearchTextChanged_def)

lemma tp_visible_tp_hide [simp]: "tp_visible (tp_hide env cm p) = False"
  by (simp add: tp_hide_def)

lemma tp_visible_tp_show [simp]: "tp_visible (tp_show env cm p) = True"
  by (simp add: tp_show_def tp_updateHistoryList_def)

lemma tp_search_tp_hide [simp]:
  "tp_search (tp_hide env cm p) = (if tp_visible p then [] else tp_search p)"
  by (simp add: tp_hide_def)

lemma tp_search_tp_show: "tp_search (tp_show env cm p) = (if tp_visible p then tp_search p else [])"
  by (simp add: tp_show_def tp_updateHistoryList_def)

lemma tp_rows_tp_setSearchText_bound:
  "length (tp_rows p) \<le> 10 \<Longrightarrow> length (tp_rows (tp_setSearchText env cm t p)) \<le> 10"
  by (simp add: tp_setSearchText_def tp_onSearchTextChanged_def)

text \<open>A click on row \<open>k\<close> of the popup's list restores history entry \<open>k\<close>.\<close>

lemma tp_onItemClicked_row:
  assumes "k < min 10 (length items)" "length items \<le> length (cm_history cm)"
  shows "tp_onItemClicked cm (tp_rows_for env items ! k) =
           [WriteClipboard (copyToClipboard (cm_history cm ! k)), HidePopup]"
  using assms by (simp add: tp_rows_for_nth tp_onItemClicked_def tp_createHistoryItem_def)

end
