(* ===== verification/SystemTray.thy ===== *)
theory SystemTray
  imports MainWindow TrayPopup
begin

text \<open>
  Model of \<open>src/src/SystemTrayManager.{h,cpp}\<close> and of the program that
  \<open>src/src/main.cpp\<close> assembles: one manager, the main window's history
  widget, the tray popup and the tray icon, wired by Qt connections.  The
  manager's \<open>historyChanged\<close> reaches three slots in the order the connections
  are made: the popup's \<open>updateHistoryList\<close> (popup constructor), the tray
  manager's \<open>onHistoryChanged\<close> (tray manager constructor) and the history
  widget's \<open>onHistoryChanged\<close> (\<open>MainWindow::setClipboardManager\<close>).  The
  commands of the views (\<open>ui_cmd\<close>) run in order; a write to the clipboard
  comes back as a later \<open>dataChanged\<close> event.  The program is a step function
  on the whole state, and its reachable states are defined inductively.
  The event loop of \<open>main\<close> runs the step function until an event calls
  \<open>quit()\<close>, which only the "Quit" action of the tray icon's menu does.
\<close>

subsection \<open>Tray icon and popup placement\<close>

datatype activation_reason = Unknown | Context | DoubleClick | Trigger | MiddleClick

text \<open>A \<open>QRect\<close> by its corners: \<open>left()\<close>, \<open>top()\<close>, \<open>right()\<close>, \<open>bottom()\<close>.\<close>

record qrect =
  rc_left :: int
  rc_top :: int
  rc_right :: int
  rc_bottom :: int

text \<open>\<open>QRect::center().x()\<close>: the sum is taken in 64 bits and halved in C++ division.\<close>

definition qrect_center_x :: "qrect \<Rightarrow> int" where
  "qrect_center_x r = c_div (rc_left r + rc_right r) 2"

text \<open>
  \<open>SystemTrayManager::positionTrayPopup\<close>: the geometry given to the popup,
  from the tray icon's geometry and the screen's available geometry.  The flag
  is the \<open>Q_OS_MACOS\<close> build.
\<close>

definition positionTrayPopup :: "bool \<Rightarrow> qrect \<Rightarrow> qrect \<Rightarrow> int \<times> int \<times> int \<times> int" where
  "positionTrayPopup macos tray screen =
     (let popupWidth = 320; popupHeight = 400;
          x0 = qrect_center_x tray - c_div popupWidth 2;
          y0 = rc_bottom tray + 5;
          x1 = (if x0 + popupWidth > rc_right screen then rc_right screen - popupWidth - 10 else x0);
          x2 = (if x1 < rc_left screen then rc_left screen + 10 else x1);
          y = (if macos then rc_top screen + 25 else y0)
      in (x2, y, popupWidth, popupHeight))"

text \<open>\<open>SystemTrayManager::updateTrayIcon\<close>: the tool tip of the icon.\<close>

definition updateTrayIcon :: "clip_manager \<Rightarrow> string" where
  "updateTrayIcon cm = qt_arg ''Clipboard Manager (%1 items)'' (qt_number (itemCount cm))"

text \<open>\<open>SystemTrayManager::onHistoryChanged\<close>: the tool tip, and the popup's
  \<open>refreshHistory\<close> when it is visible.\<close>

definition stm_onHistoryChanged :: "qt_env \<Rightarrow> clip_manager \<Rightarrow> tray_popup \<Rightarrow> string \<times> tray_popup" where
  "stm_onHistoryChanged env cm p =
     (updateTrayIcon cm, if tp_visible p then tp_updateHistoryList env cm p else p)"

subsection \<open>The tray icon and its menu\<close>

text \<open>
  The actions of the icon's context menu, and the menu's entries: an action
  with its text, or a separator.  Each action is connected to one slot of
  \<open>SystemTrayManager\<close>: \<open>showMainWindow\<close>, \<open>showAbout\<close>, \<open>quitApplication\<close>.
\<close>

datatype tray_action = ShowAction | AboutAction | QuitAction

datatype menu_entry = MenuAction string tray_action | MenuSeparator

text \<open>
  The \<open>QSystemTrayIcon\<close>: whether it is shown, its tool tip, and its context
  menu (\<open>m_trayMenu\<close> with \<open>m_showAction\<close>, \<open>m_aboutAction\<close>,
  \<open>m_quitAction\<close>).  The constructor creates the icon before anything reads
  \<open>m_trayIcon\<close>, so the null tests of \<open>show\<close>, \<open>hide\<close> and
  \<open>positionTrayPopup\<close> always pass and the icon is not optional here.
\<close>

record tray_icon =
  ti_visible :: bool
  ti_tooltip :: string
  ti_menu :: "menu_entry list"

text \<open>\<open>SystemTrayManager::createTrayIcon\<close>: a new icon is hidden and has no
  menu; its tool tip is set.  The icon image is not modelled.\<close>

definition createTrayIcon :: tray_icon where
  "createTrayIcon = \<lparr>ti_visible = False, ti_tooltip = ''Clipboard Manager'', ti_menu = []\<rparr>"

text \<open>\<open>SystemTrayManager::createContextMenu\<close>: the three actions in order,
  a separator after the first.\<close>

definition createContextMenu :: "tray_icon \<Rightarrow> tray_icon" where
  "createContextMenu ti =
     ti\<lparr>ti_menu := [MenuAction ''Show Clipboard Manager'' ShowAction, MenuSeparator,
                    MenuAction ''About'' AboutAction, MenuAction ''Quit'' QuitAction]\<rparr>"

text \<open>\<open>SystemTrayManager::show\<close> and \<open>SystemTrayManager::hide\<close>\<close>

definition stm_show :: "tray_icon \<Rightarrow> tray_icon" where
  "stm_show ti = ti\<lparr>ti_visible := True\<rparr>"

definition stm_hide :: "tray_icon \<Rightarrow> tray_icon" where
  "stm_hide ti = ti\<lparr>ti_visible := False\<rparr>"

subsection \<open>The assembled program\<close>

text \<open>
  \<open>app_cm\<close>: the manager; \<open>app_mw\<close>: the main window (\<open>main\<close>'s
  \<open>mainWindow\<close>); \<open>app_tp\<close>: the popup; \<open>app_tray\<close>: the tray icon;
  \<open>app_clipboard\<close>: what the system clipboard holds; \<open>app_quit\<close>: whether
  \<open>QApplication::quit\<close> has been called, which ends the event loop when
  control returns to it; \<open>app_dialogs\<close>: the message boxes shown so far,
  oldest first.  \<open>app_hw\<close>, \<open>app_main_visible\<close> and \<open>app_firstTime\<close> name
  the main window's history widget, visibility and \<open>firstTime\<close>.
\<close>

record app_state =
  app_cm :: clip_manager
  app_mw :: main_window
  app_tp :: tray_popup
  app_tray :: tray_icon
  app_clipboard :: "mime_data option"
  app_quit :: bool
  app_dialogs :: "msg_box list"

abbreviation app_hw :: "app_state \<Rightarrow> history_widget" where
  "app_hw s \<equiv> mw_historyWidget (app_mw s)"

abbreviation app_main_visible :: "app_state \<Rightarrow> bool" where
  "app_main_visible s \<equiv> mw_visible (app_mw s)"

abbreviation app_firstTime :: "app_state \<Rightarrow> bool" where
  "app_firstTime s \<equiv> mw_firstTime (app_mw s)"

text \<open>The three slots connected to \<open>historyChanged\<close>, in connection order.\<close>

definition historyChanged_slots :: "qt_env \<Rightarrow> app_state \<Rightarrow> app_state" where
  "historyChanged_slots env s =
     (let cm = app_cm s;
          p1 = tp_updateHistoryList env cm (app_tp s);
          (tip, p2) = stm_onHistoryChanged env cm p1;
          w = hw_onHistoryChanged env cm (app_hw s)
      in s\<lparr>app_tp := p2, app_tray := (app_tray s)\<lparr>ti_tooltip := tip\<rparr>,
           app_mw := (app_mw s)\<lparr>mw_historyWidget := w\<rparr>\<rparr>)"

text \<open>Delivery of the manager's signals; \<open>newItemAdded\<close> has no receiver.\<close>

fun deliver :: "qt_env \<Rightarrow> cm_signal list \<Rightarrow> app_state \<Rightarrow> app_state" where
  "deliver env [] s = s"
| "deliver env (HistoryChanged # sigs) s = deliver env sigs (historyChanged_slots env s)"
| "deliver env (NewItemAdded it # sigs) s = deliver env sigs s"

text \<open>A call into the manager, its signals delivered when it returns.\<close>

definition manager_call :: "qt_env \<Rightarrow> cm_event \<Rightarrow> app_state \<Rightarrow> cm_error + app_state" where
  "manager_call env e s =
     (case cm_step e (app_cm s) of
        Inl err \<Rightarrow> Inl err
      | Inr (cm', sigs) \<Rightarrow> Inr (deliver env sigs (s\<lparr>app_cm := cm'\<rparr>)))"

text \<open>\<open>SystemTrayManager::showMainWindow\<close>\<close>

definition showMainWindow :: "qt_env \<Rightarrow> app_state \<Rightarrow> app_state" where
  "showMainWindow env s =
     s\<lparr>app_mw := mw_show (app_mw s),
       app_tp := (if tp_visible (app_tp s) then tp_hide env (app_cm s) (app_tp s) else app_tp s)\<rparr>"

text \<open>\<open>SystemTrayManager::toggleTrayPopup\<close>\<close>

definition toggleTrayPopup :: "qt_env \<Rightarrow> bool \<Rightarrow> qrect \<Rightarrow> qrect \<Rightarrow> app_state \<Rightarrow> app_state" where
  "toggleTrayPopup env macos tray screen s =
     (if tp_visible (app_tp s) then s\<lparr>app_tp := tp_hide env (app_cm s) (app_tp s)\<rparr>
      else s\<lparr>app_tp := tp_show env (app_cm s)
               ((app_tp s)\<lparr>tp_geometry := Some (positionTrayPopup macos tray screen)\<rparr>)\<rparr>)"

text \<open>\<open>SystemTrayManager::onTrayIconActivated\<close>\<close>

definition onTrayIconActivated ::
  "qt_env \<Rightarrow> activation_reason \<Rightarrow> bool \<Rightarrow> qrect \<Rightarrow> qrect \<Rightarrow> app_state \<Rightarrow> app_state" where
  "onTrayIconActivated env reason macos tray screen s =
     (case reason of
        Trigger \<Rightarrow> toggleTrayPopup env macos tray screen s
      | DoubleClick \<Rightarrow> toggleTrayPopup env macos tray screen s
      | MiddleClick \<Rightarrow> showMainWindow env s
      | _ \<Rightarrow> s)"

text \<open>\<open>SystemTrayManager::quitApplication\<close>: \<open>QApplication::quit()\<close>.\<close>

definition quitApplication :: "app_state \<Rightarrow> app_state" where
  "quitApplication s = s\<lparr>app_quit := True\<rparr>"

text \<open>\<open>SystemTrayManager::showAbout\<close>: \<open>QMessageBox::about\<close> with the program's
  description (the bullet U+2022 represented by \<open>0x95\<close>, as in the row texts).\<close>

definition about_box :: msg_box where
  "about_box =
     (let nl = [CHR 0x0A]; item = \<lambda>t. [CHR 0x95, CHR '' ''] @ t @ nl in
      MsgAbout ''About Clipboard Manager''
        (''Clipboard Manager v1.0.0'' @ nl @ nl @
         ''A beautiful Mac-style clipboard history manager.'' @ nl @ nl @
         ''Features:'' @ nl @ item ''System tray integration'' @ item ''Clipboard history tracking'' @
         item ''Search and filtering'' @ item ''Multiple content types support'' @ nl @
         ''Built with Qt and C++''))"

text \<open>The slot a menu action is connected to.\<close>

definition tray_menu_action :: "qt_env \<Rightarrow> tray_action \<Rightarrow> app_state \<Rightarrow> app_state" where
  "tray_menu_action env a s =
     (case a of
        ShowAction \<Rightarrow> showMainWindow env s
      | AboutAction \<Rightarrow> s\<lparr>app_dialogs := app_dialogs s @ [about_box]\<rparr>
      | QuitAction \<Rightarrow> quitApplication s)"

text \<open>A click on entry \<open>k\<close> of the icon's context menu: an action triggers its
  slot, a separator does nothing.\<close>

definition tray_menu_click :: "qt_env \<Rightarrow> nat \<Rightarrow> app_state \<Rightarrow> app_state" where
  "tray_menu_click env k s =
     (let m = ti_menu (app_tray s) in
      if k < length m
      then (case m ! k of MenuAction _ a \<Rightarrow> tray_menu_action env a s | MenuSeparator \<Rightarrow> s)
      else s)"

text \<open>One command of a view.\<close>

definition exec_cmd :: "qt_env \<Rightarrow> ui_cmd \<Rightarrow> app_state \<Rightarrow> cm_error + app_state" where
  "exec_cmd env c s =
     (case c of
        WriteClipboard md \<Rightarrow> Inr (s\<lparr>app_clipboard := Some md\<rparr>)
      | CallRemoveItem i \<Rightarrow> manager_call env (RemoveItem i) s
      | CallClearHistory \<Rightarrow> manager_call env ClearHistory s
      | HidePopup \<Rightarrow> Inr (s\<lparr>app_tp := tp_hide env (app_cm s) (app_tp s)\<rparr>)
      | EmitOpenMainWindow \<Rightarrow> Inr (showMainWindow env s)
      | ShowMessage m \<Rightarrow> Inr (s\<lparr>app_dialogs := app_dialogs s @ [m]\<rparr>))"

fun run_cmds :: "qt_env \<Rightarrow> ui_cmd list \<Rightarrow> app_state \<Rightarrow> cm_error + app_state" where
  "run_cmds env [] s = Inr s"
| "run_cmds env (c # cs) s = (case exec_cmd env c s of Inl e \<Rightarrow> Inl e | Inr s' \<Rightarrow> run_cmds env cs s')"

text \<open>
  The events of the program: the clipboard's \<open>dataChanged\<close> (for what it
  holds), a copy in another application, the manager's timer, the user's
  actions on the main window's list, on the popup and on the tray icon, and
  closing the main window or changing its state (minimised or not), with
  whether a system tray is available at that moment.  A row event names the
  row by its position in the list; a click or double click reaches only an
  enabled row, a context menu any row under the cursor
  (\<open>QListWidget::itemAt\<close>).  The buttons and the close box of the main
  window act only while it is shown.
\<close>

datatype app_event =
    ClipboardDataChanged
  | ExternalCopy mime_data
  | UpdateTimerTimeout
  | MainSearchEdited string
  | MainFilterPicked nat
  | MainRowDoubleClicked nat
  | MainRowContextMenu nat menu_choice
  | MainClearClicked bool
  | MainTooltipTimeout
  | PopupSearchEdited string
  | PopupRowClicked nat
  | PopupClearClicked
  | PopupOpenMainClicked
  | PopupEscape
  | PopupFocusLost bool
  | TrayActivated activation_reason bool qrect qrect
  | TrayMenuTriggered nat
  | MainWindowClosed bool
  | MainWindowStateChanged bool bool
  | MainHideClicked
  | MainPreferencesClicked

definition popup_row_click :: "qt_env \<Rightarrow> nat \<Rightarrow> app_state \<Rightarrow> cm_error + app_state" where
  "popup_row_click env k s =
     (let rows = tp_rows (app_tp s) in
      if tp_visible (app_tp s) \<and> k < length rows \<and> row_enabled (rows ! k)
      then run_cmds env (tp_onItemClicked (app_cm s) (rows ! k)) s else Inr s)"

definition main_row_double_click :: "qt_env \<Rightarrow> nat \<Rightarrow> app_state \<Rightarrow> cm_error + app_state" where
  "main_row_double_click env k s =
     (let rows = hw_rows (app_hw s) in
      if app_main_visible s \<and> k < length rows \<and> row_enabled (rows ! k)
      then (let (w', cmds) = onItemDoubleClicked (app_cm s) (rows ! k) (app_hw s) in
            run_cmds env cmds (s\<lparr>app_mw := (app_mw s)\<lparr>mw_historyWidget := w'\<rparr>\<rparr>))
      else Inr s)"

definition main_row_menu :: "qt_env \<Rightarrow> nat \<Rightarrow> menu_choice \<Rightarrow> app_state \<Rightarrow> cm_error + app_state" where
  "main_row_menu env k c s =
     (let rows = hw_rows (app_hw s) in
      if app_main_visible s \<and> k < length rows
      then run_cmds env (showItemContextMenu (app_cm s) (rows ! k) c (app_hw s)) s else Inr s)"

fun app_step :: "qt_env \<Rightarrow> app_event \<Rightarrow> app_state \<Rightarrow> cm_error + app_state" where
  "app_step env ClipboardDataChanged s =
     manager_call env (ClipboardChanged (app_clipboard s) (env_now env)) s"
| "app_step env (ExternalCopy md) s =
     manager_call env (ClipboardChanged (Some md) (env_now env)) (s\<lparr>app_clipboard := Some md\<rparr>)"
| "app_step env UpdateTimerTimeout s = manager_call env (TimerFired (app_clipboard s) (env_now env)) s"
| "app_step env (MainSearchEdited t) s =
     Inr (if app_main_visible s
          then s\<lparr>app_mw := (app_mw s)\<lparr>mw_historyWidget := hw_setSearchText env (app_cm s) t (app_hw s)\<rparr>\<rparr>
          else s)"
| "app_step env (MainFilterPicked k) s =
     Inr (if app_main_visible s
          then s\<lparr>app_mw := (app_mw s)\<lparr>mw_historyWidget := hw_setFilterIndex env (app_cm s) k (app_hw s)\<rparr>\<rparr>
          else s)"
| "app_step env (MainRowDoubleClicked k) s = main_row_double_click env k s"
| "app_step env (MainRowContextMenu k c) s = main_row_menu env k c s"
| "app_step env (MainClearClicked yes) s =
     (if app_main_visible s then run_cmds env (onClearHistoryClicked yes (app_hw s)) s else Inr s)"
| "app_step env MainTooltipTimeout s =
     Inr (s\<lparr>app_mw := (app_mw s)\<lparr>mw_historyWidget := hw_tooltipTimeout (app_hw s)\<rparr>\<rparr>)"
| "app_step env (PopupSearchEdited t) s =
     Inr (if tp_visible (app_tp s) then s\<lparr>app_tp := tp_setSearchText env (app_cm s) t (app_tp s)\<rparr> else s)"
| "app_step env (PopupRowClicked k) s = popup_row_click env k s"
| "app_step env PopupClearClicked s =
     (if tp_visible (app_tp s) then run_cmds env tp_onClearHistoryClicked s else Inr s)"
| "app_step env PopupOpenMainClicked s =
     (if tp_visible (app_tp s) then run_cmds env tp_onOpenMainWindowClicked s else Inr s)"
| "app_step env PopupEscape s =
     (if tp_visible (app_tp s) then run_cmds env tp_keyPressEscape s else Inr s)"
| "app_step env (PopupFocusLost focused) s = run_cmds env (tp_focusOutEvent focused) s"
| "app_step env (TrayActivated r macos tray screen) s =
     Inr (if ti_visible (app_tray s) then onTrayIconActivated env r macos tray screen s else s)"
| "app_step env (TrayMenuTriggered k) s =
     Inr (if ti_visible (app_tray s) then tray_menu_click env k s else s)"
| "app_step env (MainWindowClosed trayAvailable) s =
     Inr (if app_main_visible s
          then (let r = mw_closeEvent trayAvailable (app_mw s) in
                s\<lparr>app_mw := fst r, app_dialogs := app_dialogs s @ snd r\<rparr>)
          else s)"
| "app_step env (MainWindowStateChanged minimized trayAvailable) s =
     Inr (s\<lparr>app_mw := mw_changeEvent minimized trayAvailable (app_mw s)\<rparr>)"
| "app_step env MainHideClicked s = Inr (s\<lparr>app_mw := mw_hideToTray (app_mw s)\<rparr>)"
| "app_step env MainPreferencesClicked s =
     Inr (if app_main_visible s then s\<lparr>app_dialogs := app_dialogs s @ mw_showPreferences\<rparr> else s)"

text \<open>
  Start-up as \<open>main\<close> does it: the main window (its history widget without a
  manager), then the tray manager, whose constructor builds the manager (its
  constructor's signals have no receiver yet), the popup, the connections,
  hands the manager to the main window and sets the tool tip; then \<open>main\<close>
  shows the tray icon (\<open>trayManager.show()\<close>).  The main window is not shown.
\<close>

definition app_init :: "qt_env \<Rightarrow> mime_data option \<Rightarrow> cm_error + app_state" where
  "app_init env clip =
     (case ClipboardManager_new clip (env_now env) of
        Inl e \<Rightarrow> Inl e
      | Inr (cm, sigs) \<Rightarrow>
          Inr \<lparr>app_cm = cm, app_mw = mw_setClipboardManager env cm MainWindow_new,
               app_tp = TrayPopupWidget_new env cm,
               app_tray = stm_show ((createContextMenu createTrayIcon)\<lparr>ti_tooltip := updateTrayIcon cm\<rparr>),
               app_clipboard = clip, app_quit = False, app_dialogs = []\<rparr>)"

text \<open>
  \<open>main\<close>: without a system tray it shows an error box and returns 1;
  otherwise it builds the window and the tray manager and enters the event
  loop (\<open>app_step\<close> on each event) from the state \<open>app_init\<close> builds.
\<close>

datatype main_outcome = ExitCode int | Aborted cm_error | EventLoop app_state

definition main_start :: "bool \<Rightarrow> qt_env \<Rightarrow> mime_data option \<Rightarrow> main_outcome" where
  "main_start trayAvailable env clip =
     (if \<not> trayAvailable then ExitCode 1
      else (case app_init env clip of Inl e \<Rightarrow> Aborted e | Inr s \<Rightarrow> EventLoop s))"

text \<open>
  \<open>QApplication::exec\<close> on a sequence of events: each is handled by
  \<open>app_step\<close>; after an event whose handling called \<open>quit()\<close> the loop
  returns 0, which \<open>main\<close> returns.  \<open>EventLoop\<close> is a loop still waiting
  for events when the sequence ends.
\<close>

fun app_exec :: "qt_env \<Rightarrow> app_event list \<Rightarrow> app_state \<Rightarrow> main_outcome" where
  "app_exec env [] s = EventLoop s"
| "app_exec env (e # es) s =
     (case app_step env e s of
        Inl err \<Rightarrow> Aborted err
      | Inr s' \<Rightarrow> if app_quit s' then ExitCode 0 else app_exec env es s')"

definition main_run :: "bool \<Rightarrow> qt_env \<Rightarrow> mime_data option \<Rightarrow> app_event list \<Rightarrow> main_outcome" where
  "main_run trayAvailable env clip es =
     (case main_start trayAvailable env clip of EventLoop s \<Rightarrow> app_exec env es s | r \<Rightarrow> r)"

inductive app_reachable :: "app_state \<Rightarrow> bool" where
  init: "app_init env clip = Inr s \<Longrightarrow> app_reachable s"
| step: "app_reachable s \<Longrightarrow> app_step env e s = Inr s' \<Longrightarrow> app_reachable s'"

declare qrect_center_x_def [model_defs] positionTrayPopup_def [model_defs]
  updateTrayIcon_def [model_defs] stm_onHistoryChanged_def [model_defs]
  historyChanged_slots_def [model_defs] manager_call_def [model_defs] showMainWindow_def [model_defs]
  toggleTrayPopup_def [model_defs] onTrayIconActivated_def [model_defs] exec_cmd_def [model_defs]
  popup_row_click_def [model_defs] main_row_double_click_def [model_defs]
  main_row_menu_def [model_defs] app_init_def [model_defs] main_start_def [model_defs]
  about_box_def [model_defs]
  createTrayIcon_def [model_defs] createContextMenu_def [model_defs] stm_show_def [model_defs]
  stm_hide_def [model_defs] quitApplication_def [model_defs] tray_menu_action_def [model_defs]
  tray_menu_click_def [model_defs] main_run_def [model_defs]

end
