(* ===== verification/Program.thy ===== *)
theory Program
  imports SystemTray
begin

text \<open>
  Properties of the assembled program of \<open>SystemTray\<close>: the invariant of its
  reachable states (the views in step with the manager), what the row
  actions of both lists do, that no event of a reachable state fails, that
  the tray icon stays shown with its menu and only its "Quit" ends the event
  loop, and which message boxes an event shows.
\<close>

subsection \<open>Invariant of the assembled program\<close>

text \<open>The views agree with the manager: the tool tip counts its entries, the
  main list shows the filtered history, the popup shows the history or its
  search result.\<close>

definition tp_current :: "clip_manager \<Rightarrow> tray_popup \<Rightarrow> bool" where
  "tp_current cm p =
     (\<exists>env. tp_rows p = tp_rows_for env (cm_history cm) \<or>
            tp_rows p = tp_rows_for env (search (tp_search p) cm))"

definition views_synced :: "clip_manager \<Rightarrow> app_state \<Rightarrow> bool" where
  "views_synced cm s =
     (ti_tooltip (app_tray s) = updateTrayIcon cm \<and> hw_current cm (app_hw s) \<and> tp_current cm (app_tp s))"

definition app_inv :: "app_state \<Rightarrow> bool" where
  "app_inv s =
     (cm_reachable (app_cm s) \<and> views_synced (app_cm s) s \<and>
      hw_manager (app_hw s) \<and> hw_filter (app_hw s) < length filter_combo \<and>
      (tp_visible (app_tp s) \<or> tp_search (app_tp s) = []))"

subsection \<open>Lemmas: the views follow the manager\<close>

lemma views_synced_history:
  "cm_history cm = cm_history cm' \<Longrightarrow> views_synced cm s = views_synced cm' s"
  by (simp add: views_synced_def updateTrayIcon_def itemCount_def hw_current_def
      getFilteredItems_def search_def tp_current_def Let_def)

lemma views_synced_app_cm [simp]: "views_synced cm (s\<lparr>app_cm := x\<rparr>) = views_synced cm s"
  by (simp add: views_synced_def)

lemma views_synced_app_clipboard [simp]:
  "views_synced cm (s\<lparr>app_clipboard := x\<rparr>) = views_synced cm s"
  by (simp add: views_synced_def)

lemma views_synced_app_quit [simp]: "views_synced cm (s\<lparr>app_quit := x\<rparr>) = views_synced cm s"
  by (simp add: views_synced_def)

lemma views_synced_app_dialogs [simp]: "views_synced cm (s\<lparr>app_dialogs := x\<rparr>) = views_synced cm s"
  by (simp add: views_synced_def)

lemma views_synced_app_mw [simp]:
  "mw_historyWidget mw = app_hw s \<Longrightarrow> views_synced cm (s\<lparr>app_mw := mw\<rparr>) = views_synced cm s"
  by (simp add: views_synced_def)

lemma tp_current_tp_updateHistoryList [intro]: "tp_current cm (tp_updateHistoryList env cm p)"
  by (auto simp: tp_current_def tp_updateHistoryList_def)

lemma tp_current_tp_setSearchText [intro]:
  "tp_current cm p \<Longrightarrow> tp_current cm (tp_setSearchText env cm t p)"
  by (auto simp: tp_current_def tp_setSearchText_def tp_onSearchTextChanged_def)

lemma tp_current_visible [simp]: "tp_current cm (p\<lparr>tp_visible := b\<rparr>) = tp_current cm p"
  by (simp add: tp_current_def)

lemma tp_current_geometry [simp]: "tp_current cm (p\<lparr>tp_geometry := g\<rparr>) = tp_current cm p"
  by (simp add: tp_current_def)

lemma tp_current_tp_hide [intro]: "tp_current cm p \<Longrightarrow> tp_current cm (tp_hide env cm p)"
  by (auto simp: tp_hide_def)

lemma tp_current_tp_show [intro]: "tp_current cm p \<Longrightarrow> tp_current cm (tp_show env cm p)"
  by (auto simp: tp_show_def)

text \<open>The slots of \<open>historyChanged\<close> bring every view up to date.\<close>

lemma historyChanged_slots_fields [simp]:
  "app_cm (historyChanged_slots env s) = app_cm s"
  "app_main_visible (historyChanged_slots env s) = app_main_visible s"
  "app_clipboard (historyChanged_slots env s) = app_clipboard s"
  "hw_manager (app_hw (historyChanged_slots env s)) = hw_manager (app_hw s)"
  "hw_filter (app_hw (historyChanged_slots env s)) = hw_filter (app_hw s)"
  "tp_visible (app_tp (historyChanged_slots env s)) = tp_visible (app_tp s)"
  "tp_search (app_tp (historyChanged_slots env s)) = tp_search (app_tp s)"
  "ti_visible (app_tray (historyChanged_slots env s)) = ti_visible (app_tray s)"
  "ti_menu (app_tray (historyChanged_slots env s)) = ti_menu (app_tray s)"
  "app_quit (historyChanged_slots env s) = app_quit s"
  "app_dialogs (historyChanged_slots env s) = app_dialogs s"
  "app_firstTime (historyChanged_slots env s) = app_firstTime s"
  by (simp_all add: historyChanged_slots_def stm_onHistoryChanged_def hw_onHistoryChanged_def
      tp_updateHistoryList_def updateHistoryList_def updateStats_def Let_def)

lemma historyChanged_slots_synced:
  "hw_manager (app_hw s) \<Longrightarrow> views_synced (app_cm s) (historyChanged_slots env s)"
  by (auto simp: historyChanged_slots_def stm_onHistoryChanged_def hw_onHistoryChanged_def
      views_synced_def Let_def)

lemma deliver_fields [simp]:
  "app_cm (deliver env sigs s) = app_cm s"
  "app_main_visible (deliver env sigs s) = app_main_visible s"
  "app_clipboard (deliver env sigs s) = app_clipboard s"
  "hw_manager (app_hw (deliver env sigs s)) = hw_manager (app_hw s)"
  "hw_filter (app_hw (deliver env sigs s)) = hw_filter (app_hw s)"
  "tp_visible (app_tp (deliver env sigs s)) = tp_visible (app_tp s)"
  "tp_search (app_tp (deliver env sigs s)) = tp_search (app_tp s)"
  "ti_visible (app_tray (deliver env sigs s)) = ti_visible (app_tray s)"
  "ti_menu (app_tray (deliver env sigs s)) = ti_menu (app_tray s)"
  "app_quit (deliver env sigs s) = app_quit s"
  "app_dialogs (deliver env sigs s) = app_dialogs s"
  "app_firstTime (deliver env sigs s) = app_firstTime s"
  by (induction env sigs s rule: deliver.induct) simp_all

lemma deliver_synced:
  "hw_manager (app_hw s) \<Longrightarrow> views_synced (app_cm s) s \<or> HistoryChanged \<in> set sigs \<Longrightarrow>
   views_synced (app_cm s) (deliver env sigs s)"
proof (induction env sigs s rule: deliver.induct)
  case (2 env sigs s)
  then show ?case using historyChanged_slots_synced [of s env] by simp
qed auto

text \<open>Every call of the manager that the program makes either leaves the
  history alone or emits \<open>historyChanged\<close>.\<close>

lemma cm_step_signals:
  assumes "cm_inv cm" "cm_step e cm = Inr (cm', sigs)" "\<forall>n. e \<noteq> SetMaxHistorySize n"
  shows "HistoryChanged \<in> set sigs \<or> cm_history cm' = cm_history cm"
proof (cases e)
  case (ClipboardChanged clip now)
  with assms(2) show ?thesis
    by (auto simp: onClipboardChanged_def addItem_def Let_def
        split: option.splits if_splits sum.splits)
next
  case (TimerFired clip now)
  with assms(1,2) show ?thesis by (auto simp: timerTimeout_def cm_inv_timer)
next
  case ClearHistory
  with assms(2) show ?thesis by (auto simp: clearHistory_def)
next
  case (RemoveItem i)
  with assms(2) show ?thesis by (auto simp: removeItem_def split: if_splits)
qed (use assms(3) in auto)

subsection \<open>Lemmas: the invariant of the assembled program\<close>

lemma manager_call_inv:
  assumes "app_inv s" "\<forall>n. e \<noteq> SetMaxHistorySize n" "manager_call env e s = Inr s'"
  shows "app_inv s'"
proof -
  obtain cm' sigs where st: "cm_step e (app_cm s) = Inr (cm', sigs)"
    and s': "s' = deliver env sigs (s\<lparr>app_cm := cm'\<rparr>)"
    using assms(3) by (auto simp: manager_call_def split: sum.splits)
  have r: "cm_reachable cm'" using assms(1) st by (auto simp: app_inv_def intro: cm_reachable.step)
  have "HistoryChanged \<in> set sigs \<or> cm_history cm' = cm_history (app_cm s)"
    using assms(1,2) st by (intro cm_step_signals) (auto simp: app_inv_def cm_reachable_inv)
  then have "views_synced cm' (s\<lparr>app_cm := cm'\<rparr>) \<or> HistoryChanged \<in> set sigs"
    using assms(1) views_synced_history [of cm' "app_cm s" s] by (auto simp: app_inv_def)
  then have "views_synced cm' s'"
    using assms(1) deliver_synced [of "s\<lparr>app_cm := cm'\<rparr>" sigs env] by (simp add: s' app_inv_def)
  with r assms(1) show ?thesis by (simp add: s' app_inv_def)
qed

lemma app_inv_clipboard [simp]: "app_inv (s\<lparr>app_clipboard := x\<rparr>) = app_inv s"
  by (simp add: app_inv_def)

lemma app_inv_quit [simp]: "app_inv (s\<lparr>app_quit := x\<rparr>) = app_inv s"
  by (simp add: app_inv_def)

lemma app_inv_dialogs [simp]: "app_inv (s\<lparr>app_dialogs := x\<rparr>) = app_inv s"
  by (simp add: app_inv_def)

lemma app_inv_app_mw [simp]:
  "mw_historyWidget mw = app_hw s \<Longrightarrow> app_inv (s\<lparr>app_mw := mw\<rparr>) = app_inv s"
  by (simp add: app_inv_def)

lemma app_inv_hw:
  "app_inv s \<Longrightarrow> hw_manager w \<Longrightarrow> hw_filter w < length filter_combo \<Longrightarrow> hw_current (app_cm s) w \<Longrightarrow>
   app_inv (s\<lparr>app_mw := (app_mw s)\<lparr>mw_historyWidget := w\<rparr>\<rparr>)"
  by (simp add: app_inv_def views_synced_def)

lemma app_inv_tp:
  "app_inv s \<Longrightarrow> tp_current (app_cm s) p \<Longrightarrow> tp_visible p \<or> tp_search p = [] \<Longrightarrow>
   app_inv (s\<lparr>app_tp := p\<rparr>)"
  by (simp add: app_inv_def views_synced_def)

lemma app_inv_tp_hide [inv_preserved]:
  "app_inv s \<Longrightarrow> app_inv (s\<lparr>app_tp := tp_hide env (app_cm s) (app_tp s)\<rparr>)"
  by (rule app_inv_tp) (auto simp: app_inv_def views_synced_def)

lemma app_inv_showMainWindow [inv_preserved]: "app_inv s \<Longrightarrow> app_inv (showMainWindow env s)"
  by (auto simp: showMainWindow_def app_inv_def views_synced_def)

lemma app_inv_toggleTrayPopup [inv_preserved]:
  "app_inv s \<Longrightarrow> app_inv (toggleTrayPopup env macos tray screen s)"
  by (auto simp: toggleTrayPopup_def app_inv_def views_synced_def tp_search_tp_show
      intro: app_inv_tp_hide)

lemma app_inv_onTrayIconActivated [inv_preserved]:
  "app_inv s \<Longrightarrow> app_inv (onTrayIconActivated env r macos tray screen s)"
  by (cases r) (simp_all add: onTrayIconActivated_def inv_preserved)

lemma app_inv_tray_menu_click [inv_preserved]: "app_inv s \<Longrightarrow> app_inv (tray_menu_click env k s)"
  by (auto simp: tray_menu_click_def tray_menu_action_def quitApplication_def Let_def inv_preserved
      split: menu_entry.split tray_action.split)

lemma exec_cmd_inv [inv_preserved]:
  "app_inv s \<Longrightarrow> exec_cmd env c s = Inr s' \<Longrightarrow> app_inv s'"
  by (cases c) (auto simp: exec_cmd_def inv_preserved intro: manager_call_inv)

lemma run_cmds_inv [inv_preserved]:
  "app_inv s \<Longrightarrow> run_cmds env cs s = Inr s' \<Longrightarrow> app_inv s'"
proof (induction cs arbitrary: s)
  case (Cons c cs)
  then show ?case by (auto split: sum.splits intro: exec_cmd_inv)
qed simp

lemma hw_current_tooltip [simp]: "hw_current cm (w\<lparr>hw_list_tooltip := t\<rparr>) = hw_current cm w"
  by (simp add: hw_current_def)

lemma onItemDoubleClicked_widget:
  "fst (onItemDoubleClicked cm item w) = w \<or>
   fst (onItemDoubleClicked cm item w) = w\<lparr>hw_list_tooltip := ''Copied to clipboard!''\<rparr>"
  by (simp add: onItemDoubleClicked_def Let_def)

lemma app_inv_tooltip_update:
  "app_inv s \<Longrightarrow> app_inv (s\<lparr>app_mw := (app_mw s)\<lparr>mw_historyWidget := (app_hw s)\<lparr>hw_list_tooltip := t\<rparr>\<rparr>\<rparr>)"
  by (rule app_inv_hw) (auto simp: app_inv_def views_synced_def)

lemma app_inv_main_row_double_click:
  assumes "app_inv s" "main_row_double_click env k s = Inr s'"
  shows "app_inv s'"
proof -
  let ?w = "fst (onItemDoubleClicked (app_cm s) (hw_rows (app_hw s) ! k) (app_hw s))"
  have "app_inv (s\<lparr>app_mw := (app_mw s)\<lparr>mw_historyWidget := ?w\<rparr>\<rparr>)"
    using onItemDoubleClicked_widget [of "app_cm s" "hw_rows (app_hw s) ! k" "app_hw s"]
      assms(1) app_inv_tooltip_update [of s] by auto
  with assms show ?thesis
    by (auto simp: main_row_double_click_def Let_def split: prod.splits if_splits
        intro: run_cmds_inv)
qed

lemma app_inv_search_edited:
  "app_inv s \<Longrightarrow>
   app_inv (s\<lparr>app_mw := (app_mw s)\<lparr>mw_historyWidget := hw_setSearchText env (app_cm s) t (app_hw s)\<rparr>\<rparr>)"
  by (rule app_inv_hw)
     (auto simp: app_inv_def views_synced_def hw_setSearchText_def hw_current_updateHistoryList)

lemma app_inv_filter_picked:
  "app_inv s \<Longrightarrow>
   app_inv (s\<lparr>app_mw := (app_mw s)\<lparr>mw_historyWidget := hw_setFilterIndex env (app_cm s) k (app_hw s)\<rparr>\<rparr>)"
  by (rule app_inv_hw)
     (auto simp: app_inv_def views_synced_def hw_setFilterIndex_def hw_current_updateHistoryList
      hw_filter_range_set)

lemma app_inv_popup_search:
  "app_inv s \<Longrightarrow> tp_visible (app_tp s) \<Longrightarrow>
   app_inv (s\<lparr>app_tp := tp_setSearchText env (app_cm s) t (app_tp s)\<rparr>)"
  by (rule app_inv_tp) (auto simp: app_inv_def views_synced_def)

lemma app_inv_app_step [inv_preserved]:
  assumes "app_inv s" "app_step env e s = Inr s'"
  shows "app_inv s'"
proof (cases e)
  case (MainRowDoubleClicked k)
  with assms show ?thesis by (auto intro: app_inv_main_row_double_click)
next
  case (MainRowContextMenu k c)
  with assms show ?thesis by (auto simp: main_row_menu_def Let_def split: if_splits intro: run_cmds_inv)
next
  case (PopupRowClicked k)
  with assms show ?thesis by (auto simp: popup_row_click_def Let_def split: if_splits intro: run_cmds_inv)
next
  case MainTooltipTimeout
  with assms show ?thesis using app_inv_tooltip_update [of s "[]"] by (simp add: hw_tooltipTimeout_def)
next
  case (ExternalCopy md)
  with assms show ?thesis using manager_call_inv [of "s\<lparr>app_clipboard := Some md\<rparr>"] by auto
next
  case (PopupFocusLost focused)
  with assms show ?thesis
    using app_inv_tp_hide [of s env] by (simp add: tp_focusOutEvent_def exec_cmd_def split: if_splits)
next
  case (MainWindowClosed trayAvailable)
  with assms show ?thesis by (auto simp: mw_closeEvent_def Let_def)
next
  case (MainWindowStateChanged minimized trayAvailable)
  with assms show ?thesis by (auto simp: mw_changeEvent_def)
next
  case MainHideClicked
  with assms show ?thesis by (auto simp: mw_hideToTray_def)
qed (use assms in \<open>auto simp: mw_showPreferences_def split: if_splits intro: manager_call_inv run_cmds_inv app_inv_search_edited
      app_inv_filter_picked app_inv_popup_search app_inv_onTrayIconActivated app_inv_showMainWindow
      app_inv_tray_menu_click\<close>)

lemma app_inv_app_init:
  assumes "app_init env clip = Inr s"
  shows "app_inv s"
proof -
  obtain cm sigs where n: "ClipboardManager_new clip (env_now env) = Inr (cm, sigs)"
    and s: "s = \<lparr>app_cm = cm,
               app_mw = \<lparr>mw_historyWidget = setClipboardManager env cm ClipboardHistoryWidget_new,
                         mw_visible = False, mw_firstTime = True\<rparr>,
               app_tp = TrayPopupWidget_new env cm,
               app_tray = stm_show ((createContextMenu createTrayIcon)\<lparr>ti_tooltip := updateTrayIcon cm\<rparr>),
               app_clipboard = clip, app_quit = False, app_dialogs = []\<rparr>"
    using assms
    by (auto simp: app_init_def mw_setClipboardManager_def MainWindow_new_def mw_setupUI_def split: sum.splits)
  have "cm_reachable cm" using n by (rule cm_reachable.init)
  moreover have "hw_current cm (setClipboardManager env cm ClipboardHistoryWidget_new)"
    unfolding setClipboardManager_def
    by (rule hw_current_updateStats, rule hw_current_updateHistoryList) simp
  moreover have "tp_current cm (TrayPopupWidget_new env cm)"
    by (auto simp: TrayPopupWidget_new_def)
  moreover have "hw_manager (setClipboardManager env cm ClipboardHistoryWidget_new)"
    and "hw_filter (setClipboardManager env cm ClipboardHistoryWidget_new) < length filter_combo"
    by (simp_all add: setClipboardManager_def ClipboardHistoryWidget_new_def hw_setupUI_def filter_combo_def)
  moreover have "tp_search (TrayPopupWidget_new env cm) = []"
    by (simp add: TrayPopupWidget_new_def tp_setupUI_def tp_updateHistoryList_def)
  ultimately show ?thesis
    by (simp add: s app_inv_def views_synced_def stm_show_def createContextMenu_def createTrayIcon_def)
qed

lemma app_reachable_inv: "app_reachable s \<Longrightarrow> app_inv s"
  by (induction rule: app_reachable.induct) (auto intro: app_inv_app_init app_inv_app_step)

lemma main_start_reachable: "main_start True env clip = EventLoop s \<Longrightarrow> app_reachable s"
  by (auto simp: main_start_def split: sum.splits intro: app_reachable.init)

lemma main_start_no_tray: "main_start False env clip = ExitCode 1"
  by (simp add: main_start_def)

subsection \<open>Lemmas: what the row actions do\<close>

lemma run_cmds_write: "run_cmds env [WriteClipboard md] s = Inr (s\<lparr>app_clipboard := Some md\<rparr>)"
  by (simp add: exec_cmd_def)

lemma app_inv_hw_rows:
  "app_inv s \<Longrightarrow> \<exists>env'. hw_rows (app_hw s) = hw_rows_for env' (getFilteredItems (app_cm s) (app_hw s))"
  by (simp add: app_inv_def views_synced_def hw_current_def)

lemma app_inv_tp_rows:
  "app_inv s \<Longrightarrow> \<exists>env' items. tp_rows (app_tp s) = tp_rows_for env' items \<and>
     (items = cm_history (app_cm s) \<or> items = search (tp_search (app_tp s)) (app_cm s))"
  by (auto simp: app_inv_def views_synced_def tp_current_def)

text \<open>A double click on row \<open>k\<close> of the main list, in a state of the invariant.\<close>

lemma main_row_double_click_filtered:
  assumes "app_inv s" "app_main_visible s" "k < length (getFilteredItems (app_cm s) (app_hw s))"
  shows "(\<exists>env'. hw_rows (app_hw s) ! k =
            createHistoryItem env' (getFilteredItems (app_cm s) (app_hw s) ! k) (int k)) \<and>
         app_step env (MainRowDoubleClicked k) s =
           Inr (s\<lparr>app_mw := (app_mw s)\<lparr>mw_historyWidget := (app_hw s)\<lparr>hw_list_tooltip := ''Copied to clipboard!''\<rparr>\<rparr>,
                  app_clipboard := Some (copyToClipboard (cm_history (app_cm s) ! k))\<rparr>)"
proof -
  let ?F = "getFilteredItems (app_cm s) (app_hw s)"
  obtain env' where rows: "hw_rows (app_hw s) = hw_rows_for env' ?F"
    using app_inv_hw_rows [OF assms(1)] by blast
  have m: "hw_manager (app_hw s)" using assms(1) by (simp add: app_inv_def)
  have nth: "hw_rows (app_hw s) ! k = createHistoryItem env' (?F ! k) (int k)"
    using assms(3) by (simp add: rows hw_rows_for_nth)
  have "k < length (hw_rows (app_hw s))" using assms(3) by (simp add: rows)
  moreover have "row_enabled (hw_rows (app_hw s) ! k)" by (simp add: nth)
  moreover have "onItemDoubleClicked (app_cm s) (hw_rows (app_hw s) ! k) (app_hw s) =
      ((app_hw s)\<lparr>hw_list_tooltip := ''Copied to clipboard!''\<rparr>,
       [WriteClipboard (copyToClipboard (cm_history (app_cm s) ! k))])"
    using onItemDoubleClicked_row [OF m assms(3), of env'] by (simp add: rows)
  ultimately have "app_step env (MainRowDoubleClicked k) s =
           Inr (s\<lparr>app_mw := (app_mw s)\<lparr>mw_historyWidget := (app_hw s)\<lparr>hw_list_tooltip := ''Copied to clipboard!''\<rparr>\<rparr>,
                  app_clipboard := Some (copyToClipboard (cm_history (app_cm s) ! k))\<rparr>)"
    using assms(2) by (simp add: main_row_double_click_def exec_cmd_def)
  with nth show ?thesis by blast
qed

text \<open>The context menu on the placeholder row acts on history entry 0.\<close>

lemma main_row_menu_placeholder:
  assumes "app_inv s" "app_main_visible s" "getFilteredItems (app_cm s) (app_hw s) = []"
    "cm_history (app_cm s) \<noteq> []"
  shows "\<exists>s'. app_step env (MainRowContextMenu 0 MenuRemove) s = Inr s' \<and>
              cm_history (app_cm s') = tl (cm_history (app_cm s))"
proof -
  obtain env' where rows: "hw_rows (app_hw s) = hw_rows_for env' []"
    using app_inv_hw_rows [OF assms(1)] assms(3) by auto
  have m: "hw_manager (app_hw s)" using assms(1) by (simp add: app_inv_def)
  have menu: "showItemContextMenu (app_cm s) (placeholder_row ''No clipboard items match your search'')
                MenuRemove (app_hw s) = [CallRemoveItem 0]"
    using showItemContextMenu_placeholder [OF m assms(4)] by simp
  obtain h1 hs where h: "cm_history (app_cm s) = h1 # hs" using assms(4) by (cases "cm_history (app_cm s)") auto
  have "qlist_removeAt 0 (cm_history (app_cm s)) = tl (cm_history (app_cm s))"
    by (simp add: h qlist_removeAt_def)
  then show ?thesis
    using assms(2) h
    by (simp add: main_row_menu_def rows hw_rows_for_Nil menu exec_cmd_def manager_call_def
        removeItem_def)
qed

text \<open>A click on row \<open>k\<close> of the popup, in a state of the invariant.\<close>

lemma popup_row_click_nth:
  assumes "app_inv s" "tp_visible (app_tp s)" "k < length (tp_rows (app_tp s))"
    "row_enabled (tp_rows (app_tp s) ! k)"
  shows "\<exists>s'. app_step env (PopupRowClicked k) s = Inr s' \<and>
           app_clipboard s' = Some (copyToClipboard (cm_history (app_cm s) ! k)) \<and>
           \<not> tp_visible (app_tp s') \<and> cm_history (app_cm s') = cm_history (app_cm s)"
proof -
  obtain env' items where rows: "tp_rows (app_tp s) = tp_rows_for env' items"
    and src: "items = cm_history (app_cm s) \<or> items = search (tp_search (app_tp s)) (app_cm s)"
    using app_inv_tp_rows [OF assms(1)] by blast
  have le: "length items \<le> length (cm_history (app_cm s))"
    using src subseq_search [of _ "app_cm s"] list_emb_length by auto
  have kl: "k < max 1 (min 10 (length items))" using assms(3) by (simp add: rows)
  have k: "k < min 10 (length items)"
  proof (cases "items = []")
    case True
    with kl assms(4) show ?thesis by (simp add: rows tp_rows_for_Nil placeholder_row_def)
  next
    case False
    then have "max 1 (min 10 (length items)) = min 10 (length items)" by (cases items) auto
    with kl show ?thesis by simp
  qed
  have "tp_onItemClicked (app_cm s) (tp_rows (app_tp s) ! k) =
        [WriteClipboard (copyToClipboard (cm_history (app_cm s) ! k)), HidePopup]"
    using tp_onItemClicked_row [OF k le] by (simp add: rows)
  then show ?thesis
    using assms(2-4) by (simp add: popup_row_click_def exec_cmd_def)
qed

lemma exec_cmd_total: "\<exists>s'. exec_cmd env c s = Inr s'"
  by (cases c) (auto simp: exec_cmd_def manager_call_def clearHistory_def removeItem_def)

lemma run_cmds_total: "\<exists>s'. run_cmds env cs s = Inr s'"
proof (induction cs arbitrary: s)
  case (Cons c cs)
  obtain s1 where "exec_cmd env c s = Inr s1" using exec_cmd_total by blast
  with Cons show ?case by simp
qed simp

lemma manager_call_total: "cm_inv (app_cm s) \<Longrightarrow> \<exists>s'. manager_call env e s = Inr s'"
  using cm_step_no_error [of "app_cm s" e] by (auto simp: manager_call_def)

lemma app_step_total:
  assumes "app_inv s"
  shows "\<exists>s'. app_step env e s = Inr s'"
proof -
  have i: "cm_inv (app_cm s)" using assms by (simp add: app_inv_def cm_reachable_inv)
  then show ?thesis
    by (cases e) (auto simp: main_row_double_click_def main_row_menu_def popup_row_click_def Let_def
        exec_cmd_def tp_focusOutEvent_def split: prod.split intro: run_cmds_total manager_call_total)
qed


subsection \<open>Lemmas: the tray icon and the end of the event loop\<close>

text \<open>Only the menu's actions reach \<open>quit()\<close>; nothing hides the icon or
  changes its menu after start-up.\<close>

lemma manager_call_tray:
  "manager_call env e s = Inr s' \<Longrightarrow>
   ti_visible (app_tray s') = ti_visible (app_tray s) \<and> ti_menu (app_tray s') = ti_menu (app_tray s) \<and>
   app_quit s' = app_quit s"
  by (auto simp: manager_call_def split: sum.splits)

lemma run_cmds_tray:
  "run_cmds env cs s = Inr s' \<Longrightarrow>
   ti_visible (app_tray s') = ti_visible (app_tray s) \<and> ti_menu (app_tray s') = ti_menu (app_tray s) \<and>
   app_quit s' = app_quit s"
proof (induction cs arbitrary: s)
  case (Cons c cs)
  then obtain s1 where c: "exec_cmd env c s = Inr s1" and r: "run_cmds env cs s1 = Inr s'"
    by (auto split: sum.splits)
  have "ti_visible (app_tray s1) = ti_visible (app_tray s) \<and> ti_menu (app_tray s1) = ti_menu (app_tray s) \<and>
        app_quit s1 = app_quit s"
    using c by (cases c) (auto simp: exec_cmd_def showMainWindow_def dest: manager_call_tray)
  with Cons.IH [OF r] show ?case by simp
qed simp

lemma tray_menu_click_tray [simp]:
  "ti_visible (app_tray (tray_menu_click env k s)) = ti_visible (app_tray s)"
  "ti_menu (app_tray (tray_menu_click env k s)) = ti_menu (app_tray s)"
  by (auto simp: tray_menu_click_def tray_menu_action_def showMainWindow_def quitApplication_def Let_def
      split: menu_entry.split tray_action.split)

lemma app_quit_tray_menu_click:
  "app_quit (tray_menu_click env k s) =
   (app_quit s \<or> (k < length (ti_menu (app_tray s)) \<and> (\<exists>t. ti_menu (app_tray s) ! k = MenuAction t QuitAction)))"
  by (auto simp: tray_menu_click_def tray_menu_action_def showMainWindow_def quitApplication_def Let_def
      split: menu_entry.split tray_action.split)

lemma app_step_tray:
  assumes "app_step env e s = Inr s'"
  shows "ti_visible (app_tray s') = ti_visible (app_tray s) \<and> ti_menu (app_tray s') = ti_menu (app_tray s) \<and>
         app_quit s' = (app_quit s \<or> (\<exists>k. e = TrayMenuTriggered k \<and> ti_visible (app_tray s) \<and>
            k < length (ti_menu (app_tray s)) \<and> (\<exists>t. ti_menu (app_tray s) ! k = MenuAction t QuitAction)))"
proof (cases e)
  case (MainRowDoubleClicked k)
  with assms show ?thesis
    by (auto simp: main_row_double_click_def Let_def split: prod.splits if_splits dest!: run_cmds_tray)
next
  case (TrayMenuTriggered k)
  with assms show ?thesis by (auto simp: app_quit_tray_menu_click split: if_splits)
qed (use assms in \<open>auto simp: main_row_menu_def popup_row_click_def onTrayIconActivated_def
       toggleTrayPopup_def showMainWindow_def mw_closeEvent_def mw_changeEvent_def mw_hideToTray_def
       mw_showPreferences_def Let_def
       split: if_splits activation_reason.splits dest!: run_cmds_tray manager_call_tray\<close>)


text \<open>In every reachable state the icon is shown with the menu that
  \<open>createContextMenu\<close> built.\<close>

lemma app_reachable_tray:
  "app_reachable s \<Longrightarrow>
   ti_visible (app_tray s) \<and> ti_menu (app_tray s) = ti_menu (createContextMenu createTrayIcon)"
proof (induction rule: app_reachable.induct)
  case (init env clip s)
  then show ?case
    by (auto simp: app_init_def stm_show_def createContextMenu_def createTrayIcon_def Let_def
        split: sum.splits prod.splits)
next
  case (step s env e s')
  then show ?case using app_step_tray [OF step.hyps(2)] by simp
qed

text \<open>Entry 3 of that menu is "Quit", and it is its only quitting entry.\<close>

lemma quit_entry_iff:
  "(k < length (ti_menu (createContextMenu ti)) \<and> (\<exists>t. ti_menu (createContextMenu ti) ! k = MenuAction t QuitAction))
   = (k = 3)"
proof -
  have "k < 4 \<longleftrightarrow> k = 0 \<or> k = 1 \<or> k = 2 \<or> k = 3" by arith
  then show ?thesis by (auto simp: createContextMenu_def)
qed

lemma app_reachable_quit_step:
  "app_reachable s \<Longrightarrow> app_step env e s = Inr s' \<Longrightarrow> app_quit s' = (app_quit s \<or> e = TrayMenuTriggered 3)"
  using app_step_tray [of env e s s'] app_reachable_tray [of s] quit_entry_iff [of _ createTrayIcon]
  by auto

lemma app_exec_quit:
  "app_reachable s \<Longrightarrow> app_exec env (es @ TrayMenuTriggered 3 # es') s = ExitCode 0"
proof (induction es arbitrary: s)
  case Nil
  obtain s' where st: "app_step env (TrayMenuTriggered 3) s = Inr s'"
    using app_step_total [OF app_reachable_inv [OF Nil]] by blast
  then have "app_quit s'" using app_reachable_quit_step [OF Nil st] by simp
  with st show ?case by simp
next
  case (Cons e es)
  obtain s' where st: "app_step env e s = Inr s'"
    using app_step_total [OF app_reachable_inv [OF Cons.prems]] by blast
  have "app_reachable s'" using Cons.prems st by (rule app_reachable.step)
  with st Cons.IH show ?case by simp
qed

lemma app_init_total: "\<exists>s. app_init env clip = Inr s"
  using cm_inv_init
  by (auto simp: app_init_def ClipboardManager_new_def onClipboardChanged_inv_eq Let_def split: option.splits)


subsection \<open>Lemmas: the message boxes\<close>

text \<open>Running the commands of a view shows exactly their message boxes.\<close>

lemma manager_call_dialogs:
  "manager_call env e s = Inr s' \<Longrightarrow> app_dialogs s' = app_dialogs s \<and> app_firstTime s' = app_firstTime s"
  by (auto simp: manager_call_def split: sum.splits)

lemma run_cmds_dialogs:
  "run_cmds env cs s = Inr s' \<Longrightarrow>
   app_dialogs s' = app_dialogs s @ ui_messages cs \<and> app_firstTime s' = app_firstTime s"
proof (induction cs arbitrary: s)
  case (Cons c cs)
  then obtain s1 where c: "exec_cmd env c s = Inr s1" and r: "run_cmds env cs s1 = Inr s'"
    by (auto split: sum.splits)
  have "app_dialogs s1 = app_dialogs s @ ui_messages [c] \<and> app_firstTime s1 = app_firstTime s"
    using c by (cases c) (auto simp: exec_cmd_def showMainWindow_def dest: manager_call_dialogs)
  with Cons.IH [OF r] show ?case by (cases c) simp_all
qed simp

text \<open>The views' only message box is the main list's clear question.\<close>

lemma ui_messages_views [simp]:
  "ui_messages (onClearHistoryClicked yes w) = (if hw_manager w then [clear_question] else [])"
  "ui_messages (showItemContextMenu cm r c w) = []"
  "ui_messages (snd (onItemDoubleClicked cm r w)) = []"
  "ui_messages (tp_onItemClicked cm r) = []"
  "ui_messages tp_onClearHistoryClicked = []"
  "ui_messages tp_onOpenMainWindowClicked = []"
  "ui_messages tp_keyPressEscape = []"
  "ui_messages (tp_focusOutEvent f) = []"
  by (auto simp: onClearHistoryClicked_def showItemContextMenu_def onItemDoubleClicked_def Let_def
      tp_onItemClicked_def tp_onClearHistoryClicked_def tp_onOpenMainWindowClicked_def
      tp_keyPressEscape_def tp_focusOutEvent_def split: menu_choice.split)

lemma close_notice_other [simp]:
  "clear_question \<noteq> close_notice" "about_box \<noteq> close_notice"
  "close_notice \<noteq> clear_question" "close_notice \<noteq> about_box"
  by (simp_all add: clear_question_def close_notice_def about_box_def)


lemma app_main_visible_tray_menu_click:
  "app_dialogs (tray_menu_click env k s) = app_dialogs s \<or>
   app_dialogs (tray_menu_click env k s) = app_dialogs s @ [about_box]"
  "app_firstTime (tray_menu_click env k s) = app_firstTime s"
  by (auto simp: tray_menu_click_def tray_menu_action_def showMainWindow_def quitApplication_def Let_def
      split: menu_entry.split tray_action.split)

lemma onTrayIconActivated_dialogs [simp]:
  "app_dialogs (onTrayIconActivated env r macos tray screen s) = app_dialogs s"
  "app_firstTime (onTrayIconActivated env r macos tray screen s) = app_firstTime s"
  by (simp_all add: onTrayIconActivated_def toggleTrayPopup_def showMainWindow_def split: activation_reason.split)

text \<open>An event shows the close notice only when it closes the shown main window
  with a tray while \<open>firstTime\<close> holds, and clears \<open>firstTime\<close> only then.\<close>

lemma app_step_dialogs:
  assumes "app_step env e s = Inr s'"
  shows "(e = MainWindowClosed True \<and> app_main_visible s \<and> app_firstTime s \<and>
          app_dialogs s' = app_dialogs s @ [close_notice] \<and> \<not> app_firstTime s') \<or>
         (app_firstTime s' = app_firstTime s \<and> (\<exists>ms. app_dialogs s' = app_dialogs s @ ms \<and> close_notice \<notin> set ms))"
proof (cases e)
  case (MainRowDoubleClicked k)
  with assms show ?thesis
    by (auto simp: main_row_double_click_def onItemDoubleClicked_def exec_cmd_def Let_def
        split: prod.splits if_splits)
next
  case (TrayMenuTriggered k)
  with assms show ?thesis
    using app_main_visible_tray_menu_click [of env k s] by (auto split: if_splits)
next
  case (MainWindowClosed b)
  with assms show ?thesis by (auto simp: mw_closeEvent_def Let_def split: if_splits)
qed (use assms in \<open>auto simp: main_row_menu_def popup_row_click_def mw_changeEvent_def mw_hideToTray_def
       mw_showPreferences_def Let_def split: if_splits dest!: run_cmds_dialogs manager_call_dialogs\<close>)

text \<open>The close notice has been shown once if \<open>firstTime\<close> is false, never
  otherwise.\<close>

lemma app_reachable_close_notice:
  "app_reachable s \<Longrightarrow> count_list (app_dialogs s) close_notice = (if app_firstTime s then 0 else 1)"
proof (induction rule: app_reachable.induct)
  case (init env clip s)
  then show ?case by (auto simp: app_init_def MainWindow_new_def split: sum.splits prod.splits)
next
  case (step s env e s')
  from app_step_dialogs [OF step.hyps(2)] step.IH show ?case by (auto simp: count_list_0_iff)
qed

end
