(* ===== verification/Spec2Isabelle.thy ===== *)
theory Spec2Isabelle
  imports Program
begin

text \<open>
  \<^bold>\<open>Verification development of the clipboard manager\<close> (Qt/C++, \<open>src/src\<close>).

  \<^bold>\<open>The program.\<close> \<open>ClipboardManager\<close> (\<open>ClipboardManager.cpp\<close>) owns the
  history: on every \<open>QClipboard::dataChanged\<close> its slot
  \<open>onClipboardChanged\<close> reads the clipboard's \<open>QMimeData\<close>, builds a
  \<open>ClipboardItem\<close> (\<open>ClipboardItem.cpp\<close>, which classifies the content), skips
  empty texts and repeats of the newest entry, and \<open>addItem\<close> moves or inserts
  the item at the front and trims the list to \<open>m_maxHistorySize\<close> (100).  It
  emits \<open>newItemAdded\<close> and \<open>historyChanged\<close>; \<open>clearHistory\<close>,
  \<open>removeItem\<close> and \<open>setMaxHistorySize\<close> mutate the history too, and
  \<open>search\<close> filters it.  The views (\<open>ClipboardHistoryWidget\<close>,
  \<open>TrayPopupWidget\<close>, \<open>SystemTrayManager\<close>, \<open>MainWindow\<close>) subscribe to
  \<open>historyChanged\<close>, show the history or a search result, and write an entry
  back with \<open>ClipboardItem::copyToClipboard\<close>, which makes the clipboard
  signal \<open>dataChanged\<close> again.

  \<^bold>\<open>Library layout.\<close>
  \<^item> \<open>Clip_Prelude\<close>: theorem collections (\<open>model_defs\<close>, \<open>inv_preserved\<close>),
    keyed distinctness, Qt's \<open>QList::removeAt\<close>, generic list lemmas.
  \<^item> \<open>QString\<close>: Qt's string functions on Latin-1 (\<open>QChar::isSpace\<close>,
    \<open>trimmed\<close>, \<open>simplified\<close>, \<open>toLower\<close>, \<open>contains\<close>, \<open>left\<close>, the decimal
    digits of a number) with their shape lemmas and a decimal parser that
    inverts the digits.
  \<^item> \<open>Regex\<close>: the part of \<open>QRegularExpression\<close> used: regular expressions with
    character classes, their meaning (\<open>rmatch\<close>), an executable derivative
    matcher proved equal to it (\<open>re_match_correct\<close>), PCRE2's \<open>$\<close>.
  \<^item> \<open>QtFormat\<close>: C++ division (\<open>c_div\<close>), \<open>QString::arg\<close> with its escape
    scanner (lowest-numbered \<open>%N\<close> replaced, replacement not rescanned), and
    the environment of the views (\<open>qt_env\<close>: current time in milliseconds and
    the local-time rendering of a date).
  \<^item> \<open>ClipboardItem\<close>: the item record, \<open>determineType\<close> with the three patterns
    of the source written as regular expressions (the code pattern's word
    boundaries as an explicit search), \<open>generatePreview\<close>,
    \<open>truncateText\<close>, \<open>loadIcon\<close>, \<open>typeString\<close>, \<open>operator==\<close>,
    \<open>copyToClipboard\<close> and both constructors.
  \<^item> \<open>ClipboardManager\<close>: the manager record (history, bound, timer state,
    the unused \<open>m_lastClipboardText\<close>), each method returning the new state
    and the signals in order, the trimming loop \<open>trimHistory\<close> as a
    terminating function whose \<open>removeLast\<close> on an empty list is an error
    value, the event type \<open>cm_event\<close> with \<open>cm_step\<close>, the reachable states
    \<open>cm_reachable\<close> and the invariant \<open>cm_inv\<close>; the abstract specification
    \<open>mru_insert\<close>/\<open>ingest_spec\<close> that the ingestion refines.
  \<^item> \<open>ViewModel\<close>: \<open>ClipboardItem::formattedTimestamp\<close>, list rows
    (\<open>QListWidgetItem\<close> with its \<open>Qt::UserRole\<close> value), \<open>QVariant::toInt\<close>,
    the integer values of \<open>ItemType\<close>, and \<open>ui_cmd\<close>, the interface through
    which a view asks for a clipboard write, a manager call, hiding the popup
    or a message box (\<open>msg_box\<close>, read back by \<open>ui_messages\<close>).
  \<^item> \<open>HistoryWidget\<close> (\<open>ClipboardHistoryWidget.cpp\<close>): \<open>setupUI\<close>'s initial
    contents, search box, type filter, rows built from \<open>getFilteredItems\<close>,
    statistics label, the slots for double click, context menu, clear button
    (with its Yes/No question) and \<open>historyChanged\<close>.
  \<^item> \<open>TrayPopup\<close> (\<open>TrayPopupWidget.cpp\<close>): \<open>setupUI\<close>'s initial contents,
    at most ten rows of the history or of the search result, show and hide
    events, click, Escape, focus loss, the clear and open-app buttons.
  \<^item> \<open>MainWindow\<close> (\<open>MainWindow.{h,cpp}\<close>): the class as the record
    \<open>main_window\<close> (history widget, visibility, the \<open>static bool firstTime\<close> of
    \<open>closeEvent\<close>), constructor and \<open>setupUI\<close>, \<open>setClipboardManager\<close>, show,
    hide-to-tray, preferences, close (with the one-time notice) and minimise
    events, each with whether a tray is available; operations return the
    window and the message boxes they show.
  \<^item> \<open>SystemTray\<close> (\<open>SystemTrayManager.cpp\<close>, \<open>main.cpp\<close>): the tray icon
    (\<open>tray_icon\<close>: shown, tool tip, context menu built by
    \<open>createContextMenu\<close>, whose actions trigger \<open>showMainWindow\<close>, the about
    box or \<open>quitApplication\<close>), popup toggling and placement, and the
    assembled program: the state \<open>app_state\<close> of manager, main window (with
    \<open>app_hw\<close>, \<open>app_main_visible\<close>, \<open>app_firstTime\<close> naming its parts), popup,
    tray, clipboard and the message boxes shown (\<open>app_dialogs\<close>); the
    delivery of \<open>historyChanged\<close> to its three slots in connection order; the
    events \<open>app_event\<close> with \<open>app_step\<close>; start-up \<open>app_init\<close>; \<open>main\<close> with its
    exit when there is no system tray and its event loop \<open>app_exec\<close>, which
    returns 0 after \<open>quit()\<close> (\<open>main_run\<close>); the reachable states
    \<open>app_reachable\<close>.
  \<^item> \<open>Program\<close>: the invariant \<open>app_inv\<close> of the reachable states (views in
    step with the manager) by rule induction, what the row actions do, that
    every event of a reachable state is handled, that the tray icon keeps its
    menu and only "Quit" sets \<open>quit()\<close>, and which message boxes an event
    shows.
  \<^item> This theory: sessions of the assembled program (\<open>app_run\<close>,
    \<open>app_session\<close>), concrete sample states, the spec's search with type
    filter as an abstract specification (\<open>spec_filter_search\<close>), and the
    properties that span components.

  \<^bold>\<open>What is proved.\<close>  C1--C9 (\<open>ClipboardManager\<close>): the invariant of all
  reachable states (bound respected, bound at least one, no duplicates), the
  refinement of \<open>onClipboardChanged\<close> to the abstract ingestion, promotion on
  repeat, eviction of the oldest with the order of the two signals, the
  trimming loop's equivalence with \<open>take\<close> and its error branch, absence of
  the undefined \<open>removeLast\<close> from every reachable state, that the self-echo
  guard never fires, the silent shrink of \<open>setMaxHistorySize\<close>, and
  \<open>removeItem\<close> on both branches.  C10 (here): the manager's \<open>search\<close> is
  the spec's case-insensitive substring search (\<open>spec_filter_search\<close>).
  C11--C12 (here): \<open>main\<close> returns 1 without a system tray and 0 once "Quit"
  is chosen in the tray menu, after any events; no other event ends the
  program.  C13--C15 and C17 (\<open>ClipboardItem\<close>): the URL test as a plain
  condition, the shape and bound of the preview, equality of image items by
  dimensions, and the round trip of an item through the clipboard
  (\<open>copyToClipboard\<close>, then the constructor, gives the item back).  C16 and
  C34 (here): the close notice is shown at most once, and once closing the
  shown window with a tray; the main window's clear asks first and clears
  only on Yes, the popup's clears without asking.  C18--C20 (here): writing
  an entry back promotes it without a new entry, except an HTML entry, which
  never comes back as itself; every copy of a non-empty text in another
  application becomes the newest entry (progress over all reachable states).
  C21--C33 (here, over the assembled program): the tray tool tip always
  counts the history; a double click or a popup click restores history entry
  \<open>k\<close> while the row shows entry \<open>k\<close> of the searched and filtered list,
  which is right without search and filter; the placeholder row's context
  menu removes the newest entry; editing the search or the filter rebuilds
  the main list but never the statistics label; the popup has at most ten
  rows and an empty search box while hidden; the main window can always be
  brought back from the tray menu, as it was; a new entry rebuilds the
  popup's list from the whole history while its search box keeps its text;
  the popup's placement stays within the screen horizontally but not
  vertically; the main list refines the spec's search with type filter; a
  preview \<open>p%1q\<close> makes its row read \<open>p\<close>, the subtitle, \<open>q\<close> and a literal
  \<open>%2\<close>.

  \<^bold>\<open>Bounds and evaluation.\<close>  Every loop of the source is a structural or
  measured recursion (no fuel); the trimming loop terminates by the length of
  the list, the \<open>arg\<close> scanner by the length of the template.  Witnesses
  evaluate the model with \<open>code_simp\<close> on small concrete snapshots, states
  and sessions of four or five events; the derivative matcher simplifies
  \<open>Nul\<close> and \<open>Eps\<close> so that a 150-character text classifies in seconds.
  C++ \<open>int\<close> indices, bounds and screen coordinates are \<open>int\<close>: the code
  compares them and adds small constants to coordinates of a screen, far
  from \<open>2^31\<close>, so no wrap-around arises.  Characters are one Latin-1 code
  unit; the bullet U+2022 of the row texts is represented by \<open>0x95\<close>.

  \<^bold>\<open>Not modelled.\<close>  Widget layout, geometry and style sheets (the
  layout calls of \<open>setupUI\<close>, \<open>applyMacStyle\<close>, the window title and sizes,
  the status bar's "Ready"), the icon images, the user's reading of a
  message box (a question's answer is an input of the event; a box is
  recorded in \<open>app_dialogs\<close> when shown), the critical box \<open>main\<close> shows
  before it returns 1; the date text of \<open>formattedTimestamp\<close> beyond one day, which
  depends on the time zone and is taken from the environment; the pixel
  contents of icons; \<open>ClipboardHistoryWidget::onItemClicked\<close>, which only
  selects a row; the branches of the widgets' \<open>setClipboardManager\<close> for a
  null or a second manager (disconnecting the first), which the program
  never takes, as \<open>main\<close> builds one manager and hands it over once.  The
  clipboard's \<open>dataChanged\<close> after a write is a separate later event, as on
  platforms that deliver it through the event loop.
\<close>

section \<open>Writing an entry back\<close>

text \<open>
  \<open>TrayPopupWidget::onItemClicked\<close> (and the history widget's double click)
  copies \<open>history[index]\<close> to the clipboard when the index is in range; the
  clipboard then signals \<open>dataChanged\<close>, delivered to the manager's slot with
  the clipboard as sender.
\<close>

definition restore_and_echo :: "int \<Rightarrow> int \<Rightarrow> clip_manager \<Rightarrow> cm_result" where
  "restore_and_echo index now s =
     (if 0 \<le> index \<and> index < int (length (cm_history s))
      then onClipboardChanged ClipboardSender (Some (copyToClipboard (cm_history s ! nat index))) now s
      else Inr (s, []))"

definition html_snapshot :: mime_data where
  "html_snapshot = \<lparr>md_image = None, md_html = Some ''<b>hi</b>'', md_text = Some ''hi''\<rparr>"

section \<open>Sessions of the assembled program\<close>

text \<open>
  A run of events of the assembled program (\<open>SystemTray.app_step\<close>) from a
  state, stopped by the first error, and a session from start-up with an
  empty clipboard.  The environment below renders every date alike; the
  witnesses use it with a fixed clock.
\<close>

fun app_run :: "qt_env \<Rightarrow> app_event list \<Rightarrow> app_state \<Rightarrow> cm_error + app_state" where
  "app_run env [] s = Inr s"
| "app_run env (e # es) s = (case app_step env e s of Inl err \<Rightarrow> Inl err | Inr s' \<Rightarrow> app_run env es s')"

definition app_session :: "qt_env \<Rightarrow> app_event list \<Rightarrow> cm_error + app_state" where
  "app_session env es = (case app_init env None of Inl err \<Rightarrow> Inl err | Inr s \<Rightarrow> app_run env es s)"

definition sample_env :: "int \<Rightarrow> qt_env" where
  "sample_env now = \<lparr>env_now = now, env_date_text = (\<lambda>_. ''Jan 01, 00:00'')\<rparr>"

definition copy_text :: "string \<Rightarrow> app_event" where
  "copy_text t = ExternalCopy (clipboard_setText t)"

text \<open>A 1920x1080 screen and a tray icon on a panel below it.\<close>

definition demo_screen :: qrect where
  "demo_screen = \<lparr>rc_left = 0, rc_top = 0, rc_right = 1919, rc_bottom = 1079\<rparr>"

definition demo_tray :: qrect where
  "demo_tray = \<lparr>rc_left = 1800, rc_top = 1080, rc_right = 1823, rc_bottom = 1103\<rparr>"

text \<open>Two copies, then the main window shown; then a search for \<open>alp\<close>, or for
  \<open>zzz\<close>; or the popup opened and searched for \<open>alp\<close>.\<close>

definition shown_state :: app_state where
  "shown_state = projr (app_session (sample_env 5000) [copy_text ''alpha'', copy_text ''beta'', TrayMenuTriggered 0])"

definition alp_state :: app_state where
  "alp_state = projr (app_session (sample_env 5000)
     [copy_text ''alpha'', copy_text ''beta'', TrayMenuTriggered 0, MainSearchEdited ''alp''])"

definition zzz_state :: app_state where
  "zzz_state = projr (app_session (sample_env 5000)
     [copy_text ''alpha'', copy_text ''beta'', TrayMenuTriggered 0, MainSearchEdited ''zzz''])"

definition popup_state :: app_state where
  "popup_state = projr (app_session (sample_env 5000)
     [copy_text ''alpha'', copy_text ''beta'', TrayActivated Trigger False demo_tray demo_screen,
      PopupSearchEdited ''alp''])"

text \<open>
  The search of the spec (section 4.4) as an abstract specification: an entry
  matches a non-empty query when the case-folded query is a substring of its
  case-folded text, preview or type label; a type filter, when given, is
  composed by "and"; the history's order is kept.  \<open>combo_filter\<close> reads
  the entries of the main window's filter combo as such filters.
\<close>

definition spec_filter_search :: "string \<Rightarrow> item_type option \<Rightarrow> clip_item list \<Rightarrow> clip_item list" where
  "spec_filter_search q ty h =
     filter (\<lambda>it. (q = [] \<or>
                    list_ex (\<lambda>fld. sublist (qt_toLower q) (qt_toLower fld))
                      [ci_text it, ci_preview it, typeString (ci_type it)]) \<and>
                   (case ty of None \<Rightarrow> True | Some t \<Rightarrow> ci_type it = t)) h"

definition combo_filter :: "nat \<Rightarrow> item_type option" where
  "combo_filter k = [None, Some Text, Some Image, Some Url, Some Code, Some File] ! k"

text \<open>Both windows shown: the main window from the tray menu, then the popup.\<close>

definition both_state :: app_state where
  "both_state = projr (app_session (sample_env 5000)
     [copy_text ''alpha'', TrayMenuTriggered 0, TrayActivated Trigger False demo_tray demo_screen])"

lemma reachable_entry_wf:
  assumes "cm_reachable s" and "i < length (cm_history s)"
  shows "item_wf (cm_history s ! i)"
  using cm_reachable_inv [OF assms(1)] assms(2) by (simp add: cm_inv_def list_all_length)

lemma app_run_reachable: "app_reachable s \<Longrightarrow> app_run env es s = Inr s' \<Longrightarrow> app_reachable s'"
proof (induction es arbitrary: s)
  case (Cons e es)
  then show ?case by (auto split: sum.splits intro: app_reachable.step)
qed simp

lemma app_session_reachable: "app_session env es = Inr s \<Longrightarrow> app_reachable s"
  by (auto simp: app_session_def split: sum.splits intro: app_run_reachable app_reachable.init)

lemma projr_reachable: "\<not> isl (app_session env es) \<Longrightarrow> app_reachable (projr (app_session env es))"
  by (cases "app_session env es") (auto intro: app_session_reachable)

lemma shown_reachable: "app_reachable shown_state"
  unfolding shown_state_def by (rule projr_reachable) code_simp

lemma alp_reachable: "app_reachable alp_state"
  unfolding alp_state_def by (rule projr_reachable) code_simp

lemma zzz_reachable: "app_reachable zzz_state"
  unfolding zzz_state_def by (rule projr_reachable) code_simp

lemma popup_reachable: "app_reachable popup_state"
  unfolding popup_state_def by (rule projr_reachable) code_simp

lemma both_reachable: "app_reachable both_state"
  unfolding both_state_def by (rule projr_reachable) code_simp

lemma pct_notin_typeString [simp]: "CHR ''%'' \<notin> set (typeString t)"
  by (cases t) simp_all

text \<open>
  C18. Writing back an entry that is not HTML (and not a null image) and
  receiving the clipboard's echo adds no entry: the history keeps its length
  and the entry's key moves to the front.
\<close>

theorem writeback_echo_promotes:
  assumes reach: "cm_reachable s" and idx: "0 \<le> i" "i < int (length (cm_history s))"
    and notHtml: "ci_type (cm_history s ! nat i) \<noteq> Html"
    and img: "ci_type (cm_history s ! nat i) = Image \<longrightarrow> ci_image (cm_history s ! nat i) \<noteq> None"
    and run: "restore_and_echo i now s = Inr (s', sigs)"
  shows "length (cm_history s') = length (cm_history s) \<and>
         map item_key (cm_history s') =
           item_key (cm_history s ! nat i) #
           filter (\<lambda>k. k \<noteq> item_key (cm_history s ! nat i)) (map item_key (cm_history s))"
proof -
  let ?it = "cm_history s ! nat i"
  have inv: "cm_inv s" using reach by (rule cm_reachable_inv)
  have n: "nat i < length (cm_history s)" using idx by linarith
  have key: "item_key (ClipboardItem_mime (copyToClipboard ?it) now) = item_key ?it"
    using echo_item_key [OF reachable_entry_wf [OF reach n] notHtml img] .
  have mem: "item_key ?it \<in> set (map item_key (cm_history s))"
    using n by simp
  have run': "onClipboardChanged ClipboardSender (Some (copyToClipboard ?it)) now s = Inr (s', sigs)"
    using run idx by (simp add: restore_and_echo_def)
  have keys: "map item_key (cm_history s') =
           item_key ?it # filter (\<lambda>k. k \<noteq> item_key ?it) (map item_key (cm_history s))"
    using onClipboardChanged_promote_keys [OF inv _ run'] key mem by simp
  have "distinct (map item_key (cm_history s))" using inv by (simp add: cm_inv_def)
  then have "length (filter (\<lambda>k. k \<noteq> item_key ?it) (map item_key (cm_history s))) =
             length (map item_key (cm_history s)) - 1"
    using mem by (rule length_filter_neq_distinct)
  moreover have "length (cm_history s') =
      Suc (length (filter (\<lambda>k. k \<noteq> item_key ?it) (map item_key (cm_history s))))"
    using arg_cong [where f = length, OF keys] by (simp only: length_map length_Cons)
  ultimately have "length (cm_history s') = length (cm_history s)"
    using n by (simp only: length_map)
  with keys show ?thesis by simp
qed

theorem writeback_echo_promotes_witness:
  "length (cm_history (fst (projr (restore_and_echo 0 1 (cm_init\<lparr>cm_history := [sample_item ''hello'' 0]\<rparr>))))) = 1"
proof -
  have run: "restore_and_echo 0 1 (cm_init\<lparr>cm_history := [sample_item ''hello'' 0]\<rparr>) =
             Inr (cm_init\<lparr>cm_history := [sample_item ''hello'' 0]\<rparr>, [])"
    by code_simp
  have t: "ci_type (cm_history (cm_init\<lparr>cm_history := [sample_item ''hello'' 0]\<rparr>) ! nat 0) \<noteq> Html"
    by code_simp
  have i: "ci_type (cm_history (cm_init\<lparr>cm_history := [sample_item ''hello'' 0]\<rparr>) ! nat 0) = Image \<longrightarrow>
           ci_image (cm_history (cm_init\<lparr>cm_history := [sample_item ''hello'' 0]\<rparr>) ! nat 0) \<noteq> None"
    by code_simp
  from writeback_echo_promotes [OF reachable_sample _ _ t i run] run show ?thesis
    by simp
qed

text \<open>
  C19. The write-back of an HTML entry is never recognised as that entry:
  \<open>copyToClipboard\<close> puts the markup on the clipboard as plain text, which is
  classified by \<open>determineType\<close> and never gets the type \<open>Html\<close>.
\<close>

theorem html_writeback_not_recognised:
  assumes "ci_type it = Html"
  shows "\<not> item_eq (ClipboardItem_mime (copyToClipboard it) now) it"
  using html_echo_type [OF assms, of now] assms by (simp add: item_eq_def)

theorem html_writeback_not_recognised_witness:
  "\<not> item_eq (ClipboardItem_mime (copyToClipboard (ClipboardItem_mime html_snapshot 0)) 1)
             (ClipboardItem_mime html_snapshot 0)"
proof -
  have "ci_type (ClipboardItem_mime html_snapshot 0) = Html" by code_simp
  then show ?thesis by (rule html_writeback_not_recognised)
qed

lemma onClipboardChanged_newest:
  assumes "cm_inv cm" "ci_text (ClipboardItem_mime md now) \<noteq> []"
    and "onClipboardChanged sndr (Some md) now cm = Inr (cm', sigs)"
  shows "cm_history cm' \<noteq> [] \<and> item_key (hd (cm_history cm')) = mime_key md"
proof -
  let ?it = "ClipboardItem_mime md now"
  have k: "item_key ?it = mime_key md" by (rule item_key_ClipboardItem_mime)
  have cap: "0 < nat (cm_maxHistorySize cm)" using assms(1) by (simp add: cm_inv_def)
  show ?thesis
  proof (cases "isDuplicate ?it cm")
    case True
    with assms(1,3) k show ?thesis by (simp add: onClipboardChanged_inv_eq isDuplicate_hd)
  next
    case False
    with assms k cap show ?thesis by (auto simp: onClipboardChanged_inv_eq hd_mru_insert Let_def)
  qed
qed

lemma app_inv_tooltip:
  "app_inv s \<Longrightarrow>
   ti_tooltip (app_tray s) = ''Clipboard Manager ('' @ qt_number (length (cm_history (app_cm s))) @ '' items)''"
  using qt_arg_one [of "''Clipboard Manager (''" "'' items)''"]
  by (simp add: app_inv_def views_synced_def updateTrayIcon_def itemCount_def)

text \<open>
  C20. Every copy is recorded: from every reachable state, a copy in another
  application of a snapshot with a non-empty text is handled, and afterwards
  the newest entry of the history has that snapshot's key and the tray's tool
  tip counts the new history.
\<close>

theorem copy_recorded:
  assumes "app_reachable s" "ci_text (ClipboardItem_mime md (env_now env)) \<noteq> []"
  shows "\<exists>s'. app_step env (ExternalCopy md) s = Inr s' \<and>
              cm_history (app_cm s') \<noteq> [] \<and> item_key (hd (cm_history (app_cm s'))) = mime_key md \<and>
              ti_tooltip (app_tray s') =
                ''Clipboard Manager ('' @ qt_number (length (cm_history (app_cm s'))) @ '' items)''"
proof -
  have inv: "app_inv s" using assms(1) by (rule app_reachable_inv)
  then have ci: "cm_inv (app_cm s)" by (simp add: app_inv_def cm_reachable_inv)
  obtain cm' sigs where oc: "onClipboardChanged ClipboardSender (Some md) (env_now env) (app_cm s) = Inr (cm', sigs)"
    using cm_step_no_error [OF ci, of "ClipboardChanged (Some md) (env_now env)"] by auto
  obtain s' where st: "app_step env (ExternalCopy md) s = Inr s'" using app_step_total [OF inv] by blast
  then have "app_cm s' = cm'" using oc by (auto simp: manager_call_def)
  moreover have "app_inv s'" using inv st by (rule app_inv_app_step)
  ultimately show ?thesis
    using st onClipboardChanged_newest [OF ci assms(2) oc] app_inv_tooltip [of s'] by auto
qed

theorem copy_recorded_witness:
  "\<exists>s'. app_step (sample_env 6000) (ExternalCopy (clipboard_setText ''gamma'')) alp_state = Inr s' \<and>
        cm_history (app_cm s') \<noteq> [] \<and> item_key (hd (cm_history (app_cm s'))) = mime_key (clipboard_setText ''gamma'') \<and>
        ti_tooltip (app_tray s') = ''Clipboard Manager ('' @ qt_number (length (cm_history (app_cm s'))) @ '' items)''"
proof -
  have "ci_text (ClipboardItem_mime (clipboard_setText ''gamma'') (env_now (sample_env 6000))) \<noteq> []"
    by code_simp
  then show ?thesis by (rule copy_recorded [OF alp_reachable])
qed

section \<open>The assembled program\<close>

text \<open>
  C21. In every reachable state the tray icon's tool tip counts the entries
  of the history: every change of the history that the program can cause
  emits \<open>historyChanged\<close>.
\<close>

theorem app_tooltip_counts:
  "app_reachable s \<Longrightarrow>
   ti_tooltip (app_tray s) = ''Clipboard Manager ('' @ qt_number (length (cm_history (app_cm s))) @ '' items)''"
  using app_reachable_inv app_inv_tooltip by blast

theorem app_tooltip_counts_witness:
  "ti_tooltip (app_tray alp_state) = ''Clipboard Manager ('' @ qt_number (length (cm_history (app_cm alp_state))) @ '' items)''"
  using app_tooltip_counts [OF alp_reachable] .

text \<open>
  C22. A double click on row \<open>k\<close> of the main list restores history entry
  \<open>k\<close>, while the row shows entry \<open>k\<close> of the filtered list: in every
  reachable state with the main window shown, row \<open>k\<close> displays
  \<open>getFilteredItems ! k\<close> and the double click puts \<open>history ! k\<close> on the
  clipboard (and sets the list's tool tip).
\<close>

theorem main_double_click_reads_history:
  assumes "app_reachable s" "app_main_visible s" "k < length (getFilteredItems (app_cm s) (app_hw s))"
  shows "(\<exists>env'. hw_rows (app_hw s) ! k =
            createHistoryItem env' (getFilteredItems (app_cm s) (app_hw s) ! k) (int k)) \<and>
         app_step env (MainRowDoubleClicked k) s =
           Inr (s\<lparr>app_mw := (app_mw s)\<lparr>mw_historyWidget := (app_hw s)\<lparr>hw_list_tooltip := ''Copied to clipboard!''\<rparr>\<rparr>,
                  app_clipboard := Some (copyToClipboard (cm_history (app_cm s) ! k))\<rparr>)"
  using main_row_double_click_filtered [OF app_reachable_inv [OF assms(1)] assms(2,3)] .

theorem main_double_click_reads_history_witness:
  "app_step (sample_env 6000) (MainRowDoubleClicked 0) alp_state =
     Inr (alp_state\<lparr>app_mw :=
            (app_mw alp_state)\<lparr>mw_historyWidget := (app_hw alp_state)\<lparr>hw_list_tooltip := ''Copied to clipboard!''\<rparr>\<rparr>,
            app_clipboard := Some (copyToClipboard (cm_history (app_cm alp_state) ! 0))\<rparr>)"
proof -
  have v: "app_main_visible alp_state" by code_simp
  have k: "0 < length (getFilteredItems (app_cm alp_state) (app_hw alp_state))" by code_simp
  show ?thesis using main_double_click_reads_history [OF alp_reachable v k] by simp
qed

text \<open>
  C23. Without a search text and with the filter on "All Types" the double
  click restores the entry the row shows: row \<open>k\<close> displays history entry
  \<open>k\<close>, and that entry goes to the clipboard.
\<close>

theorem main_double_click_unfiltered:
  assumes "app_reachable s" "app_main_visible s" "hw_search (app_hw s) = []" "hw_filter (app_hw s) = 0"
    "k < length (cm_history (app_cm s))"
  shows "(\<exists>env'. hw_rows (app_hw s) ! k = createHistoryItem env' (cm_history (app_cm s) ! k) (int k)) \<and>
         (\<exists>s'. app_step env (MainRowDoubleClicked k) s = Inr s' \<and>
               app_clipboard s' = Some (copyToClipboard (cm_history (app_cm s) ! k)))"
proof -
  have inv: "app_inv s" using assms(1) by (rule app_reachable_inv)
  have "getFilteredItems (app_cm s) (app_hw s) = cm_history (app_cm s)"
    using inv assms(3,4)
    by (intro getFilteredItems_unfiltered) (simp_all add: app_inv_def hw_filterType_def filter_combo_def)
  then show ?thesis
    using main_row_double_click_filtered [OF inv assms(2), of k env] assms(5) by auto
qed

theorem main_double_click_unfiltered_witness:
  "\<exists>s'. app_step (sample_env 6000) (MainRowDoubleClicked 1) shown_state = Inr s' \<and>
        app_clipboard s' = Some (copyToClipboard (cm_history (app_cm shown_state) ! 1))"
proof -
  have v: "app_main_visible shown_state" by code_simp
  have e: "hw_search (app_hw shown_state) = []" by code_simp
  have f: "hw_filter (app_hw shown_state) = 0" by code_simp
  have k: "1 < length (cm_history (app_cm shown_state))" by code_simp
  show ?thesis using main_double_click_unfiltered [OF shown_reachable v e f k] by blast
qed

text \<open>
  C24. The context menu on the placeholder row acts on the newest entry: the
  placeholder stores no index, \<open>QVariant::toInt\<close> reads 0, so when a search
  hides every entry of a non-empty history, "Remove" on the placeholder
  removes the newest entry.
\<close>

theorem placeholder_menu_removes_newest:
  assumes "app_reachable s" "app_main_visible s" "getFilteredItems (app_cm s) (app_hw s) = []"
    "cm_history (app_cm s) \<noteq> []"
  shows "\<exists>s'. app_step env (MainRowContextMenu 0 MenuRemove) s = Inr s' \<and>
              cm_history (app_cm s') = tl (cm_history (app_cm s))"
  using main_row_menu_placeholder [OF app_reachable_inv [OF assms(1)] assms(2-4)] .

theorem placeholder_menu_removes_newest_witness:
  "\<exists>s'. app_step (sample_env 6000) (MainRowContextMenu 0 MenuRemove) zzz_state = Inr s' \<and>
        cm_history (app_cm s') = tl (cm_history (app_cm zzz_state))"
proof -
  have v: "app_main_visible zzz_state" by code_simp
  have f: "getFilteredItems (app_cm zzz_state) (app_hw zzz_state) = []" by code_simp
  have h: "cm_history (app_cm zzz_state) \<noteq> []" by code_simp
  show ?thesis using placeholder_menu_removes_newest [OF zzz_reachable v f h] .
qed

text \<open>
  C25. Neither the search box nor the filter combo refreshes the statistics
  label: with the main window shown, editing the search text or picking an
  entry of the combo rebuilds the list from the new search and filter, while
  the label keeps the text \<open>updateStats\<close> wrote at the last history change
  (\<open>onSearchTextChanged\<close> and \<open>onFilterChanged\<close> only call
  \<open>updateHistoryList\<close>).
\<close>

theorem search_keeps_stats_label:
  assumes "app_reachable s" "app_main_visible s" "k < length filter_combo"
  shows "(\<exists>s'. app_step env (MainSearchEdited t) s = Inr s' \<and> hw_search (app_hw s') = t \<and>
              hw_stats (app_hw s') = hw_stats (app_hw s) \<and> app_cm s' = app_cm s \<and>
              hw_current (app_cm s') (app_hw s')) \<and>
         (\<exists>s'. app_step env (MainFilterPicked k) s = Inr s' \<and> hw_filter (app_hw s') = k \<and>
              hw_stats (app_hw s') = hw_stats (app_hw s) \<and> app_cm s' = app_cm s \<and>
              hw_current (app_cm s') (app_hw s'))"
proof -
  have inv: "app_inv s" using assms(1) by (rule app_reachable_inv)
  note a = app_inv_search_edited [OF inv, of env t] and b = app_inv_filter_picked [OF inv, of env k]
  show ?thesis
    using assms(2,3) a b by (auto simp: app_inv_def views_synced_def hw_setSearchText_def hw_setFilterIndex_def)
qed

theorem search_keeps_stats_label_witness:
  "(\<exists>s'. app_step (sample_env 6000) (MainSearchEdited ''alp'') shown_state = Inr s' \<and>
         hw_search (app_hw s') = ''alp'' \<and> hw_stats (app_hw s') = hw_stats (app_hw shown_state) \<and>
         app_cm s' = app_cm shown_state \<and> hw_current (app_cm s') (app_hw s')) \<and>
   (\<exists>s'. app_step (sample_env 6000) (MainFilterPicked 1) shown_state = Inr s' \<and> hw_filter (app_hw s') = 1 \<and>
         hw_stats (app_hw s') = hw_stats (app_hw shown_state) \<and> app_cm s' = app_cm shown_state \<and>
         hw_current (app_cm s') (app_hw s')) \<and>
   hw_stats (app_hw shown_state) = ''2 items''"
proof -
  have v: "app_main_visible shown_state" and k: "(1::nat) < length filter_combo"
    and l: "hw_stats (app_hw shown_state) = ''2 items''" by code_simp+
  show ?thesis
    using search_keeps_stats_label [OF shown_reachable v k, of "sample_env 6000" "''alp''"] l by blast
qed

text \<open>
  C26. The popup lists at most ten rows, and its search box is empty whenever
  it is hidden.
\<close>

theorem popup_invariant:
  "app_reachable s \<Longrightarrow>
   length (tp_rows (app_tp s)) \<le> 10 \<and> (tp_visible (app_tp s) \<or> tp_search (app_tp s) = [])"
proof -
  assume r: "app_reachable s"
  then have inv: "app_inv s" by (rule app_reachable_inv)
  then obtain env' items where "tp_rows (app_tp s) = tp_rows_for env' items"
    using app_inv_tp_rows by blast
  with inv show ?thesis by (simp add: app_inv_def)
qed

theorem popup_invariant_witness:
  "length (tp_rows (app_tp popup_state)) \<le> 10 \<and>
   (tp_visible (app_tp popup_state) \<or> tp_search (app_tp popup_state) = [])"
  using popup_invariant [OF popup_reachable] .

text \<open>
  C27. A click on an enabled row \<open>k\<close> of the visible popup restores history
  entry \<open>k\<close> and hides the popup, leaving the history as it was.
\<close>

theorem popup_click_reads_history:
  assumes "app_reachable s" "tp_visible (app_tp s)" "k < length (tp_rows (app_tp s))"
    "row_enabled (tp_rows (app_tp s) ! k)"
  shows "\<exists>s'. app_step env (PopupRowClicked k) s = Inr s' \<and>
           app_clipboard s' = Some (copyToClipboard (cm_history (app_cm s) ! k)) \<and>
           \<not> tp_visible (app_tp s') \<and> cm_history (app_cm s') = cm_history (app_cm s)"
  using popup_row_click_nth [OF app_reachable_inv [OF assms(1)] assms(2-4)] .

theorem popup_click_reads_history_witness:
  "\<exists>s'. app_step (sample_env 6000) (PopupRowClicked 0) popup_state = Inr s' \<and>
        app_clipboard s' = Some (copyToClipboard (cm_history (app_cm popup_state) ! 0)) \<and>
        \<not> tp_visible (app_tp s') \<and> cm_history (app_cm s') = cm_history (app_cm popup_state)"
proof -
  have v: "tp_visible (app_tp popup_state)" by code_simp
  have k: "0 < length (tp_rows (app_tp popup_state))" by code_simp
  have e: "row_enabled (tp_rows (app_tp popup_state) ! 0)" by code_simp
  show ?thesis using popup_click_reads_history [OF popup_reachable v k e] .
qed

text \<open>
  The popup's search has the same mismatch: with the popup open and
  searched for \<open>alp\<close>, its only row shows \<open>alpha\<close>, and clicking it puts
  \<open>beta\<close> on the clipboard.
\<close>

theorem popup_search_click_wrong_entry:
  "row_tooltip (tp_rows (app_tp popup_state) ! 0) = ''Just now'' @ [CHR 0x0A] @ ''alpha'' \<and>
   length (tp_rows (app_tp popup_state)) = 1 \<and>
   (case app_step (sample_env 6000) (PopupRowClicked 0) popup_state of
      Inr s' \<Rightarrow> app_clipboard s' = Some (clipboard_setText ''beta'')
    | Inl _ \<Rightarrow> False)"
  by code_simp

text \<open>The three slots of \<open>historyChanged\<close> leave the popup listing the
  first entries of the whole history.\<close>

lemma historyChanged_slots_popup_rows:
  "tp_rows (app_tp (historyChanged_slots env s)) = tp_rows_for env (cm_history (app_cm s))"
  by (simp add: historyChanged_slots_def stm_onHistoryChanged_def tp_updateHistoryList_def Let_def)

text \<open>
  C29. A change of the history shadows the popup's search: from every
  reachable state, a copy that adds an entry leaves the popup's search box and
  visibility as they were, and its list shows the first entries of the whole
  new history, not the search result (\<open>historyChanged\<close> is connected to
  \<open>updateHistoryList()\<close>, and \<open>onHistoryChanged\<close> calls \<open>refreshHistory\<close>).
\<close>

theorem popup_list_ignores_search:
  assumes "app_reachable s" "ci_text (ClipboardItem_mime md (env_now env)) \<noteq> []"
    "\<not> isDuplicate (ClipboardItem_mime md (env_now env)) (app_cm s)"
  shows "\<exists>s'. app_step env (ExternalCopy md) s = Inr s' \<and> tp_visible (app_tp s') = tp_visible (app_tp s) \<and>
              tp_search (app_tp s') = tp_search (app_tp s) \<and>
              tp_rows (app_tp s') = tp_rows_for env (cm_history (app_cm s'))"
proof -
  have "cm_inv (app_cm s)" using app_reachable_inv [OF assms(1)] by (simp add: app_inv_def cm_reachable_inv)
  then show ?thesis
    using assms(2,3) by (simp add: manager_call_def onClipboardChanged_inv_eq Let_def historyChanged_slots_popup_rows)
qed

theorem popup_list_ignores_search_witness:
  "app_reachable popup_state \<and> tp_visible (app_tp popup_state) \<and> tp_search (app_tp popup_state) = ''alp'' \<and>
   (\<exists>s'. app_step (sample_env 6000) (copy_text ''gamma'') popup_state = Inr s' \<and>
         tp_visible (app_tp s') = tp_visible (app_tp popup_state) \<and>
         tp_search (app_tp s') = tp_search (app_tp popup_state) \<and>
         tp_rows (app_tp s') = tp_rows_for (sample_env 6000) (cm_history (app_cm s')))"
proof -
  have a: "ci_text (ClipboardItem_mime (clipboard_setText ''gamma'') (env_now (sample_env 6000))) \<noteq> []"
    and b: "\<not> isDuplicate (ClipboardItem_mime (clipboard_setText ''gamma'') (env_now (sample_env 6000)))
              (app_cm popup_state)"
    and v: "tp_visible (app_tp popup_state)" and q: "tp_search (app_tp popup_state) = ''alp''" by code_simp+
  show ?thesis
    using popup_list_ignores_search [OF popup_reachable a b] popup_reachable v q by (simp add: copy_text_def)
qed

text \<open>
  C30. Horizontally the popup stays on a screen at least 330 pixels wide: its
  left edge is not left of the screen and its right edge not right of it.
\<close>

theorem positionTrayPopup_within_screen:
  assumes "rc_left screen + 330 \<le> rc_right screen"
  shows "rc_left screen \<le> fst (positionTrayPopup macos tray screen) \<and>
         fst (positionTrayPopup macos tray screen) + 320 \<le> rc_right screen \<and>
         snd (snd (positionTrayPopup macos tray screen)) = (320, 400)"
  using assms by (auto simp: positionTrayPopup_def Let_def)

theorem positionTrayPopup_within_screen_witness:
  "rc_left demo_screen \<le> fst (positionTrayPopup False demo_tray demo_screen) \<and>
   fst (positionTrayPopup False demo_tray demo_screen) + 320 \<le> rc_right demo_screen \<and>
   snd (snd (positionTrayPopup False demo_tray demo_screen)) = (320, 400)"
  by (rule positionTrayPopup_within_screen) (simp add: demo_screen_def)

text \<open>
  C31. Vertically it is not kept on the screen: outside macOS the popup's top
  is 5 pixels below the tray icon, so a tray icon on a panel at the bottom
  of the screen puts the whole popup below the available area.
\<close>

theorem positionTrayPopup_below_bottom_tray:
  assumes "\<not> macos" "rc_bottom screen \<le> rc_bottom tray"
  shows "rc_bottom screen < fst (snd (positionTrayPopup macos tray screen))"
  using assms by (simp add: positionTrayPopup_def Let_def)

theorem positionTrayPopup_below_bottom_tray_witness:
  "rc_bottom demo_screen < fst (snd (positionTrayPopup False demo_tray demo_screen))"
  by (rule positionTrayPopup_below_bottom_tray) (simp_all add: demo_screen_def demo_tray_def)

text \<open>
  A row of the main list reads "preview, new line, type, bullet, time"
  when the preview contains no \<open>%\<close>.
\<close>

theorem history_row_text:
  assumes "CHR ''%'' \<notin> set (ci_preview it)"
  shows "row_text (createHistoryItem env it i) =
         ci_preview it @ [CHR 0x0A] @ typeString (ci_type it) @ bullet_sep @ formattedTimestamp env it"
proof -
  have sub: "qt_arg (qt_arg (''%1'' @ bullet_sep @ ''%2'' @ []) (typeString (ci_type it)))
               (formattedTimestamp env it) =
             typeString (ci_type it) @ bullet_sep @ formattedTimestamp env it @ []"
    by (rule qt_arg_arg) (simp_all add: bullet_sep_def)
  have "qt_arg (qt_arg (''%1'' @ [CHR 0x0A] @ ''%2'' @ []) (ci_preview it))
          (typeString (ci_type it) @ bullet_sep @ formattedTimestamp env it) =
        ci_preview it @ [CHR 0x0A] @ (typeString (ci_type it) @ bullet_sep @ formattedTimestamp env it) @ []"
    using assms by (intro qt_arg_arg) (simp_all add: digit_val_def)
  with sub show ?thesis by (simp add: createHistoryItem_def Let_def)
qed

theorem history_row_text_witness:
  "row_text (createHistoryItem (sample_env 0) (sample_item ''hello'' 0) 0) =
   ci_preview (sample_item ''hello'' 0) @ [CHR 0x0A] @ typeString (ci_type (sample_item ''hello'' 0)) @
   bullet_sep @ formattedTimestamp (sample_env 0) (sample_item ''hello'' 0)"
proof -
  have "CHR ''%'' \<notin> set (ci_preview (sample_item ''hello'' 0))" by code_simp
  then show ?thesis by (rule history_row_text)
qed

text \<open>
  C33. A preview that contains \<open>%1\<close> breaks its row: for every preview
  \<open>p %1 q\<close> with no other \<open>%\<close>, the first \<open>arg\<close> puts the preview in the
  template without scanning it, and the second replaces the preview's \<open>%1\<close>
  (the lowest escape) by the subtitle, leaving the template's \<open>%2\<close> in the
  text.
\<close>

theorem history_row_text_escape:
  assumes "ci_preview it = p @ ''%1'' @ q" "CHR ''%'' \<notin> set p" "CHR ''%'' \<notin> set q"
    "q = [] \<or> digit_val (hd q) = None"
  shows "row_text (createHistoryItem env it i) =
         p @ typeString (ci_type it) @ bullet_sep @ formattedTimestamp env it @ q @ [CHR 0x0A] @ ''%2''"
proof -
  let ?sub = "typeString (ci_type it) @ bullet_sep @ formattedTimestamp env it"
  have sub: "qt_arg (qt_arg (''%1'' @ bullet_sep @ ''%2'' @ []) (typeString (ci_type it)))
               (formattedTimestamp env it) =
             typeString (ci_type it) @ bullet_sep @ formattedTimestamp env it @ []"
    by (rule qt_arg_arg) (simp_all add: bullet_sep_def)
  have one: "qt_arg (''%1'' @ [CHR 0x0A] @ ''%2'' @ []) (ci_preview it) = ci_preview it @ [CHR 0x0A] @ ''%2'' @ []"
    by (rule qt_arg_first) (simp_all add: digit_val_def)
  have m: "CHR ''%'' \<notin> set (q @ [CHR 0x0A])" "q @ [CHR 0x0A] \<noteq> []" "digit_val (hd (q @ [CHR 0x0A])) = None"
    using assms(3,4) by (auto simp: digit_val_def hd_append)
  have "arg_scan (''%1'' @ (q @ [CHR 0x0A]) @ ''%2'' @ []) =
        AEsc 1 ''%1'' # map ALit (q @ [CHR 0x0A]) @ AEsc 2 ''%2'' # map ALit []"
    using m by (intro arg_scan_two) simp_all
  then have "arg_scan (p @ ''%1'' @ q @ [CHR 0x0A] @ ''%2'') =
             map ALit p @ AEsc 1 ''%1'' # map ALit (q @ [CHR 0x0A]) @ [AEsc 2 ''%2'']"
    using arg_scan_no_pct [of p "''%1'' @ q @ [CHR 0x0A] @ ''%2''"] assms(2) by simp
  then have "qt_arg (p @ ''%1'' @ q @ [CHR 0x0A] @ ''%2'') ?sub = p @ ?sub @ q @ [CHR 0x0A] @ ''%2''"
    unfolding qt_arg_def by simp
  with sub one assms(1) show ?thesis by (simp add: createHistoryItem_def Let_def)
qed

theorem history_row_text_escape_witness:
  "row_text (createHistoryItem (sample_env 0) (sample_item ''50%1 off'' 0) 0) =
   ''50'' @ typeString (ci_type (sample_item ''50%1 off'' 0)) @ bullet_sep @
   formattedTimestamp (sample_env 0) (sample_item ''50%1 off'' 0) @ '' off'' @ [CHR 0x0A] @ ''%2''"
proof -
  have a: "ci_preview (sample_item ''50%1 off'' 0) = ''50'' @ ''%1'' @ '' off''"
    and b: "CHR ''%'' \<notin> set ''50''" and c: "CHR ''%'' \<notin> set '' off''"
    and d: "'' off'' = [] \<or> digit_val (hd '' off'') = None" by code_simp+
  show ?thesis by (rule history_row_text_escape [OF a b c d])
qed

text \<open>
  Between one minute and one hour, \<open>formattedTimestamp\<close> reads
  "m minute(s) ago" with \<open>m\<close> from 1 to 59, singular exactly for 1.
\<close>

theorem formattedTimestamp_minutes:
  assumes "60 \<le> c_div (env_now env - ci_timestamp it) 1000" "c_div (env_now env - ci_timestamp it) 1000 < 3600"
  shows "formattedTimestamp env it =
           qt_number (nat (c_div (env_now env - ci_timestamp it) 1000 div 60)) @ '' minute'' @
           (if nat (c_div (env_now env - ci_timestamp it) 1000 div 60) = 1 then [] else ''s'') @ '' ago'' \<and>
         1 \<le> nat (c_div (env_now env - ci_timestamp it) 1000 div 60) \<and>
         nat (c_div (env_now env - ci_timestamp it) 1000 div 60) \<le> 59"
proof -
  let ?m = "nat (c_div (env_now env - ci_timestamp it) 1000 div 60)"
  have "formattedTimestamp env it =
        qt_arg (qt_arg (''%1'' @ '' minute'' @ ''%2'' @ '' ago'') (qt_number ?m)) (if ?m = 1 then [] else ''s'')"
    using assms by (simp add: formattedTimestamp_def Let_def)
  also have "\<dots> = qt_number ?m @ '' minute'' @ (if ?m = 1 then [] else ''s'') @ '' ago''"
    by (rule qt_arg_count_suffix) simp_all
  finally show ?thesis using assms by auto
qed

theorem formattedTimestamp_minutes_witness:
  "formattedTimestamp (sample_env 125000) (sample_item ''x'' 0) = ''2 minutes ago''"
proof -
  have a: "60 \<le> c_div (env_now (sample_env 125000) - ci_timestamp (sample_item ''x'' 0)) 1000"
    and b: "c_div (env_now (sample_env 125000) - ci_timestamp (sample_item ''x'' 0)) 1000 < 3600"
    by code_simp+
  show ?thesis using formattedTimestamp_minutes [OF a b] by code_simp
qed


text \<open>
  C11. \<open>main\<close>'s exit code: without a system tray it returns 1 whatever
  happens next; with one, whatever the user has done, choosing "Quit" in the
  tray icon's context menu ends the event loop and \<open>main\<close> returns 0, the
  events after it not handled.
\<close>

theorem main_exit_codes:
  "main_run False env clip es = ExitCode 1 \<and>
   main_run True env clip (es @ TrayMenuTriggered 3 # es') = ExitCode 0"
proof -
  obtain s where i: "app_init env clip = Inr s" using app_init_total by blast
  then have "app_reachable s" by (rule app_reachable.init)
  then have "app_exec env (es @ TrayMenuTriggered 3 # es') s = ExitCode 0" by (rule app_exec_quit)
  with i show ?thesis by (simp add: main_run_def main_start_def)
qed

text \<open>
  C12. Only the tray menu's "Quit" ends the program: from a reachable state
  in which \<open>quit()\<close> has not been called, an event after which it has been
  called is a click on entry 3 of the icon's menu; closing, minimising or
  hiding the main window, the popup and the tray clicks never quit
  (\<open>setQuitOnLastWindowClosed(false)\<close>).
\<close>

theorem only_tray_quit_ends:
  assumes "app_reachable s" "\<not> app_quit s" "app_step env e s = Inr s'" "app_quit s'"
  shows "e = TrayMenuTriggered 3"
  using app_reachable_quit_step [OF assms(1,3)] assms(2,4) by simp

theorem only_tray_quit_ends_witness:
  "app_reachable alp_state \<and> \<not> app_quit alp_state \<and>
   app_step (sample_env 6000) (TrayMenuTriggered 3) alp_state = Inr (alp_state\<lparr>app_quit := True\<rparr>) \<and>
   TrayMenuTriggered 3 = TrayMenuTriggered 3"
proof -
  have t: "ti_visible (app_tray alp_state) \<and> ti_menu (app_tray alp_state) = ti_menu (createContextMenu createTrayIcon)"
    using app_reachable_tray [OF alp_reachable] .
  have q: "\<not> app_quit alp_state" by code_simp
  have st: "app_step (sample_env 6000) (TrayMenuTriggered 3) alp_state = Inr (alp_state\<lparr>app_quit := True\<rparr>)"
    using t by (simp add: tray_menu_click_def createContextMenu_def tray_menu_action_def quitApplication_def)
  show ?thesis
    using only_tray_quit_ends [OF alp_reachable q st] alp_reachable q st by simp
qed


section \<open>Message boxes\<close>

text \<open>
  C16. The close notice appears once: in every reachable state the message
  box explaining that the program keeps running in the tray has been shown
  at most once, and closing the shown main window while a tray is available
  hides it and leaves the notice shown exactly once (the \<open>static bool
  firstTime\<close> of \<open>MainWindow::closeEvent\<close>).
\<close>

theorem close_notice_once:
  assumes "app_reachable s"
  shows "count_list (app_dialogs s) close_notice \<le> 1 \<and>
         (app_main_visible s \<longrightarrow>
            (\<exists>s'. app_step env (MainWindowClosed True) s = Inr s' \<and> \<not> app_main_visible s' \<and>
                  count_list (app_dialogs s') close_notice = 1))"
proof -
  have c: "count_list (app_dialogs s) close_notice = (if app_firstTime s then 0 else 1)"
    using app_reachable_close_notice [OF assms] .
  show ?thesis using c by (auto simp: mw_closeEvent_def Let_def)
qed

theorem close_notice_once_witness:
  "app_reachable shown_state \<and> app_main_visible shown_state \<and>
   count_list (app_dialogs shown_state) close_notice \<le> 1 \<and>
   (\<exists>s'. app_step (sample_env 6000) (MainWindowClosed True) shown_state = Inr s' \<and> \<not> app_main_visible s' \<and>
         count_list (app_dialogs s') close_notice = 1)"
proof -
  have v: "app_main_visible shown_state" by code_simp
  show ?thesis using close_notice_once [OF shown_reachable] shown_reachable v by blast
qed

text \<open>
  C34. Clearing asks first only in the main window: its "Clear History"
  button shows the question and clears the history only on Yes, while the
  popup's "Clear" button clears it at once, with no question.
\<close>

theorem clear_confirmation:
  assumes "app_reachable s"
  shows "(app_main_visible s \<longrightarrow>
            (\<exists>s'. app_step env (MainClearClicked yes) s = Inr s' \<and>
                  app_dialogs s' = app_dialogs s @ [clear_question] \<and>
                  cm_history (app_cm s') = (if yes then [] else cm_history (app_cm s)))) \<and>
         (tp_visible (app_tp s) \<longrightarrow>
            (\<exists>s'. app_step env PopupClearClicked s = Inr s' \<and>
                  app_dialogs s' = app_dialogs s \<and> cm_history (app_cm s') = []))"
proof -
  have "hw_manager (app_hw s)" using app_reachable_inv [OF assms] by (simp add: app_inv_def)
  then show ?thesis
    by (simp add: onClearHistoryClicked_def tp_onClearHistoryClicked_def exec_cmd_def manager_call_def
        clearHistory_def)
qed

theorem clear_confirmation_witness:
  "app_reachable both_state \<and> app_main_visible both_state \<and> tp_visible (app_tp both_state) \<and>
   (\<exists>s'. app_step (sample_env 6000) (MainClearClicked False) both_state = Inr s' \<and>
         app_dialogs s' = app_dialogs both_state @ [clear_question] \<and>
         cm_history (app_cm s') = cm_history (app_cm both_state)) \<and>
   (\<exists>s'. app_step (sample_env 6000) PopupClearClicked both_state = Inr s' \<and>
         app_dialogs s' = app_dialogs both_state \<and> cm_history (app_cm s') = [])"
proof -
  have v: "app_main_visible both_state" and t: "tp_visible (app_tp both_state)" by code_simp+
  show ?thesis using clear_confirmation [OF both_reachable, of "sample_env 6000" False] both_reachable v t
    by simp
qed


section \<open>The store's search against the spec\<close>

text \<open>
  C10. The manager's \<open>search\<close> is the spec's search (section 4.4) without
  a type filter: for the empty query the whole history, otherwise exactly the
  entries whose lower-cased text, preview or type label contains the
  lower-cased query, in history order.
\<close>

theorem search_refines_spec: "search q s = spec_filter_search q None (cm_history s)"
  by (auto simp: search_def spec_filter_search_def search_match_def qt_contains_def intro!: filter_cong)

section \<open>The main list against the spec's search\<close>

lemma item_type_int_eq_iff [simp]: "item_type_int a = item_type_int b \<longleftrightarrow> a = b"
  by (cases a; cases b) simp_all

lemma item_type_int_not_all [simp]: "item_type_int t \<noteq> -1"
  by (cases t) simp_all

text \<open>
  C32. The main list refines the spec's search with type filter: with a
  manager and any entry of the filter combo chosen, \<open>getFilteredItems\<close>
  returns exactly the history entries that match the search box's text and
  have the chosen type, in history order.
\<close>

theorem getFilteredItems_refines_spec:
  assumes "hw_manager w" "hw_filter w < length filter_combo"
  shows "getFilteredItems cm w = spec_filter_search (hw_search w) (combo_filter (hw_filter w)) (cm_history cm)"
proof -
  have k: "hw_filter w \<in> {0, 1, 2, 3, 4, 5}" using assms(2) by (auto simp: filter_combo_def)
  show ?thesis
    using k assms(1)
    by (auto simp: getFilteredItems_def spec_filter_search_def search_def search_match_def qt_contains_def
        combo_filter_def hw_filterType_def filter_combo_def filter_filter conj_commute
        simp del: item_type_int.simps intro!: filter_cong)
qed

theorem getFilteredItems_refines_spec_witness:
  "getFilteredItems (app_cm alp_state) ((app_hw alp_state)\<lparr>hw_filter := 1\<rparr>) =
   spec_filter_search (hw_search (app_hw alp_state)) (Some Text) (cm_history (app_cm alp_state))"
proof -
  have m: "hw_manager ((app_hw alp_state)\<lparr>hw_filter := 1\<rparr>)"
    and f: "hw_filter ((app_hw alp_state)\<lparr>hw_filter := 1\<rparr>) < length filter_combo" by code_simp+
  show ?thesis using getFilteredItems_refines_spec [OF m f, of "app_cm alp_state"]
    by (simp add: combo_filter_def)
qed


section \<open>The main window comes back\<close>

text \<open>
  C28. The main window can always be brought back: from every reachable
  state, "Show Clipboard Manager" in the tray icon's menu shows the main
  window with its list, search box and filter as they were, closes the popup
  and leaves the history alone.
\<close>

theorem main_window_reopens:
  assumes "app_reachable s"
  shows "\<exists>s'. app_step env (TrayMenuTriggered 0) s = Inr s' \<and> app_main_visible s' \<and>
              app_hw s' = app_hw s \<and> \<not> tp_visible (app_tp s') \<and> app_cm s' = app_cm s"
  using app_reachable_tray [OF assms]
  by (simp add: tray_menu_click_def createContextMenu_def tray_menu_action_def showMainWindow_def)

theorem main_window_reopens_witness:
  "app_reachable popup_state \<and>
   (\<exists>s'. app_step (sample_env 6000) (TrayMenuTriggered 0) popup_state = Inr s' \<and> app_main_visible s' \<and>
         app_hw s' = app_hw popup_state \<and> \<not> tp_visible (app_tp s') \<and> app_cm s' = app_cm popup_state)"
  using main_window_reopens [OF popup_reachable] popup_reachable by blast

end
